theory Spec2Isabelle
  imports Main "HOL-Library.Word" "HOL-Library.Monad_Syntax" "HOL-Library.Sublist"
begin

unbundle bit_operations_syntax

section \<open>The operating system as seen by the utilities\<close>

text \<open>
  The utilities \<^verbatim>\<open>mv\<close>, \<^verbatim>\<open>rm\<close> and \<^verbatim>\<open>cp\<close> are sequences of
  system calls and C library calls. The kernel and the C library are not part of the
  repository, so every call is answered by an oracle: a field of the record \<open>os\<close>
  that maps the calls issued so far and the arguments of the call to the call's
  result. The program state records the calls that change something outside the
  process (\<open>calls\<close>), the C variable \<^verbatim>\<open>errno\<close>, the unread rest of standard
  input and what was written to standard output and standard error. A query
  (\<^verbatim>\<open>stat\<close>, \<^verbatim>\<open>lstat\<close>, \<^verbatim>\<open>access\<close>) is not recorded: without
  concurrent modification its answer is a function of the calls recorded before it.
  The names that a directory stream delivers and the order of a tree walk are given
  when the stream or the walk is opened.

  \<open>libc_basename p\<close> is the name that \<^verbatim>\<open>basename\<close> of \<^verbatim>\<open>libgen.h\<close> returns for \<open>p\<close>,
  with what it leaves in the buffer of its argument. The result is a pointer:
  \<open>libc_basename_offset p\<close> is \<open>Some k\<close> when it points \<open>k\<close> bytes after the start of
  the argument (\<open>Some 2\<close> for \<^verbatim>\<open>d/a\<close>, \<open>Some 0\<close> for a name without a slash) and
  \<open>None\<close> when it points to storage of the library.
\<close>

type_synonym path = string
type_synonym fd = nat

datatype errno_code =
  ESUCCESS | EPERM | ENOENT | EIO | EACCES | EEXIST | EXDEV | ENOTDIR | EISDIR
  | ENOSPC | ENOTEMPTY | EBADF

text \<open>The C library's message table, for the error numbers above.\<close>

fun strerror :: "errno_code \<Rightarrow> string" where
  "strerror ESUCCESS = ''Success''"
| "strerror EPERM = ''Operation not permitted''"
| "strerror ENOENT = ''No such file or directory''"
| "strerror EIO = ''Input/output error''"
| "strerror EACCES = ''Permission denied''"
| "strerror EEXIST = ''File exists''"
| "strerror EXDEV = ''Invalid cross-device link''"
| "strerror ENOTDIR = ''Not a directory''"
| "strerror EISDIR = ''Is a directory''"
| "strerror ENOSPC = ''No space left on device''"
| "strerror ENOTEMPTY = ''Directory not empty''"
| "strerror EBADF = ''Bad file descriptor''"

record stat_t =
  st_dev :: nat
  st_ino :: nat
  st_mode :: "32 word"
  st_uid :: nat
  st_gid :: nat
  st_atime :: int
  st_mtime :: int

text \<open>The file type macros of \<^verbatim>\<open>sys/stat.h\<close> (octal 0170000, 0040000, 0120000).\<close>

definition S_IFMT :: "32 word" where "S_IFMT = 0xF000"
definition S_IFDIR :: "32 word" where "S_IFDIR = 0x4000"
definition S_IFLNK :: "32 word" where "S_IFLNK = 0xA000"
definition S_IFREG :: "32 word" where "S_IFREG = 0x8000"

definition S_ISDIR :: "32 word \<Rightarrow> bool" where
  "S_ISDIR m = (m AND S_IFMT = S_IFDIR)"

definition S_ISLNK :: "32 word \<Rightarrow> bool" where
  "S_ISLNK m = (m AND S_IFMT = S_IFLNK)"

datatype amode = F_OK | W_OK

datatype oflag = O_RDONLY | O_WRONLY_CREAT_TRUNC

datatype call =
    Rename path path
  | Open path oflag "32 word"
  | Read fd
  | Write fd string
  | Close fd
  | Unlink path
  | Remove path
  | Mkdir path "32 word"
  | Futimens fd int int
  | Fchown fd nat nat
  | Symlink path path

text \<open>
  \<open>Symlink target linkpath\<close> is the call that creates a symbolic link; it is part of
  the interface although none of the functions below issues it.

  The calls that change the file tree. Opening with \<^verbatim>\<open>O_WRONLY | O_CREAT | O_TRUNC\<close>
  creates or empties the file; opening for reading, reading and closing change nothing
  on disk.
\<close>

fun mutating :: "call \<Rightarrow> bool" where
  "mutating (Open p O_RDONLY m) = False"
| "mutating (Read f) = False"
| "mutating (Close f) = False"
| "mutating c = True"

record os =
  os_stat :: "call list \<Rightarrow> path \<Rightarrow> errno_code + stat_t"
  os_lstat :: "call list \<Rightarrow> path \<Rightarrow> errno_code + stat_t"
  os_access :: "call list \<Rightarrow> path \<Rightarrow> amode \<Rightarrow> errno_code option"
  os_rename :: "call list \<Rightarrow> path \<Rightarrow> path \<Rightarrow> errno_code option"
  os_open :: "call list \<Rightarrow> path \<Rightarrow> oflag \<Rightarrow> 32 word \<Rightarrow> errno_code + fd"
  os_read :: "call list \<Rightarrow> fd \<Rightarrow> nat \<Rightarrow> errno_code + string"
  os_write :: "call list \<Rightarrow> fd \<Rightarrow> string \<Rightarrow> errno_code + nat"
  os_unlink :: "call list \<Rightarrow> path \<Rightarrow> errno_code option"
  os_remove :: "call list \<Rightarrow> path \<Rightarrow> errno_code option"
  os_mkdir :: "call list \<Rightarrow> path \<Rightarrow> 32 word \<Rightarrow> errno_code option"
  os_futimens :: "call list \<Rightarrow> fd \<Rightarrow> int \<Rightarrow> int \<Rightarrow> errno_code option"
  os_fchown :: "call list \<Rightarrow> fd \<Rightarrow> nat \<Rightarrow> nat \<Rightarrow> errno_code option"
  os_opendir :: "call list \<Rightarrow> path \<Rightarrow> errno_code + string list"
  os_nftw :: "call list \<Rightarrow> path \<Rightarrow> errno_code + path list"
  libc_basename :: "path \<Rightarrow> string \<times> path"
  libc_basename_offset :: "path \<Rightarrow> nat option"

record state =
  calls :: "call list"
  errno :: errno_code
  inp :: string
  out :: string
  err :: string

definition EXIT_SUCCESS :: int where "EXIT_SUCCESS = 0"
definition EXIT_FAILURE :: int where "EXIT_FAILURE = 1"

definition quoted :: "string \<Rightarrow> string" where
  \<comment> \<open>the format \<^verbatim>\<open>'%s'\<close>\<close>
  "quoted p = [CHR 0x27] @ p @ [CHR 0x27]"

definition printf :: "string \<Rightarrow> state \<Rightarrow> state" where
  "printf msg s = s\<lparr>out := out s @ msg\<rparr>"

definition eprintf :: "string \<Rightarrow> state \<Rightarrow> state" where
  \<comment> \<open>\<^verbatim>\<open>fprintf(stderr, ...)\<close>\<close>
  "eprintf msg s = s\<lparr>err := err s @ msg\<rparr>"

definition perror :: "string \<Rightarrow> state \<Rightarrow> state" where
  "perror msg s = eprintf (msg @ '': '' @ strerror (errno s) @ ''\<newline>'') s"

definition getchar :: "state \<Rightarrow> char option \<times> state" where
  \<comment> \<open>\<open>None\<close> is \<^verbatim>\<open>EOF\<close>; at end of input every later call returns it again\<close>
  "getchar s = (case inp s of [] \<Rightarrow> (None, s) | c # cs \<Rightarrow> (Some c, s\<lparr>inp := cs\<rparr>))"

text \<open>
  The system call wrappers: a failing call returns the C failure value and stores the
  error number; a state-changing call is appended to \<open>calls\<close> whether it succeeds
  or not.
\<close>

definition sys_stat :: "os \<Rightarrow> path \<Rightarrow> state \<Rightarrow> stat_t option \<times> state" where
  "sys_stat os p s =
     (case os_stat os (calls s) p of
        Inl e \<Rightarrow> (None, s\<lparr>errno := e\<rparr>)
      | Inr st \<Rightarrow> (Some st, s))"

definition sys_lstat :: "os \<Rightarrow> path \<Rightarrow> state \<Rightarrow> stat_t option \<times> state" where
  "sys_lstat os p s =
     (case os_lstat os (calls s) p of
        Inl e \<Rightarrow> (None, s\<lparr>errno := e\<rparr>)
      | Inr st \<Rightarrow> (Some st, s))"

definition sys_access :: "os \<Rightarrow> path \<Rightarrow> amode \<Rightarrow> state \<Rightarrow> int \<times> state" where
  "sys_access os p m s =
     (case os_access os (calls s) p m of
        Some e \<Rightarrow> (- 1, s\<lparr>errno := e\<rparr>)
      | None \<Rightarrow> (0, s))"

definition sys_rename :: "os \<Rightarrow> path \<Rightarrow> path \<Rightarrow> state \<Rightarrow> int \<times> state" where
  "sys_rename os src dst s =
     (let s' = s\<lparr>calls := calls s @ [Rename src dst]\<rparr> in
      case os_rename os (calls s) src dst of
        Some e \<Rightarrow> (- 1, s'\<lparr>errno := e\<rparr>)
      | None \<Rightarrow> (0, s'))"

definition sys_open :: "os \<Rightarrow> path \<Rightarrow> oflag \<Rightarrow> 32 word \<Rightarrow> state \<Rightarrow> fd option \<times> state" where
  \<comment> \<open>\<open>None\<close> is the return value -1\<close>
  "sys_open os p fl m s =
     (let s' = s\<lparr>calls := calls s @ [Open p fl m]\<rparr> in
      case os_open os (calls s) p fl m of
        Inl e \<Rightarrow> (None, s'\<lparr>errno := e\<rparr>)
      | Inr f \<Rightarrow> (Some f, s'))"

definition sys_read :: "os \<Rightarrow> fd \<Rightarrow> nat \<Rightarrow> state \<Rightarrow> (int \<times> string) \<times> state" where
  \<comment> \<open>the number of bytes read (0 at end of file, -1 on error) and the bytes\<close>
  "sys_read os f n s =
     (let s' = s\<lparr>calls := calls s @ [Read f]\<rparr> in
      case os_read os (calls s) f n of
        Inl e \<Rightarrow> ((- 1, []), s'\<lparr>errno := e\<rparr>)
      | Inr bs \<Rightarrow> ((int (length bs), bs), s'))"

definition sys_write :: "os \<Rightarrow> fd \<Rightarrow> string \<Rightarrow> state \<Rightarrow> int \<times> state" where
  \<comment> \<open>the number of bytes written, possibly fewer than given, or -1\<close>
  "sys_write os f bs s =
     (let s' = s\<lparr>calls := calls s @ [Write f bs]\<rparr> in
      case os_write os (calls s) f bs of
        Inl e \<Rightarrow> (- 1, s'\<lparr>errno := e\<rparr>)
      | Inr n \<Rightarrow> (int n, s'))"

definition sys_close :: "fd \<Rightarrow> state \<Rightarrow> state" where
  "sys_close f s = s\<lparr>calls := calls s @ [Close f]\<rparr>"

definition sys_unlink :: "os \<Rightarrow> path \<Rightarrow> state \<Rightarrow> int \<times> state" where
  "sys_unlink os p s =
     (let s' = s\<lparr>calls := calls s @ [Unlink p]\<rparr> in
      case os_unlink os (calls s) p of
        Some e \<Rightarrow> (- 1, s'\<lparr>errno := e\<rparr>)
      | None \<Rightarrow> (0, s'))"

definition sys_remove :: "os \<Rightarrow> path \<Rightarrow> state \<Rightarrow> int \<times> state" where
  "sys_remove os p s =
     (let s' = s\<lparr>calls := calls s @ [Remove p]\<rparr> in
      case os_remove os (calls s) p of
        Some e \<Rightarrow> (- 1, s'\<lparr>errno := e\<rparr>)
      | None \<Rightarrow> (0, s'))"

definition sys_mkdir :: "os \<Rightarrow> path \<Rightarrow> 32 word \<Rightarrow> state \<Rightarrow> int \<times> state" where
  "sys_mkdir os p m s =
     (let s' = s\<lparr>calls := calls s @ [Mkdir p m]\<rparr> in
      case os_mkdir os (calls s) p m of
        Some e \<Rightarrow> (- 1, s'\<lparr>errno := e\<rparr>)
      | None \<Rightarrow> (0, s'))"

definition sys_futimens :: "os \<Rightarrow> fd \<Rightarrow> int \<Rightarrow> int \<Rightarrow> state \<Rightarrow> int \<times> state" where
  "sys_futimens os f a m s =
     (let s' = s\<lparr>calls := calls s @ [Futimens f a m]\<rparr> in
      case os_futimens os (calls s) f a m of
        Some e \<Rightarrow> (- 1, s'\<lparr>errno := e\<rparr>)
      | None \<Rightarrow> (0, s'))"

definition sys_fchown :: "os \<Rightarrow> fd \<Rightarrow> nat \<Rightarrow> nat \<Rightarrow> state \<Rightarrow> int \<times> state" where
  "sys_fchown os f u g s =
     (let s' = s\<lparr>calls := calls s @ [Fchown f u g]\<rparr> in
      case os_fchown os (calls s) f u g of
        Some e \<Rightarrow> (- 1, s'\<lparr>errno := e\<rparr>)
      | None \<Rightarrow> (0, s'))"

definition sys_opendir :: "os \<Rightarrow> path \<Rightarrow> state \<Rightarrow> string list option \<times> state" where
  \<comment> \<open>\<open>None\<close> is the NULL stream; otherwise the names \<^verbatim>\<open>readdir\<close> goes on to return\<close>
  "sys_opendir os p s =
     (case os_opendir os (calls s) p of
        Inl e \<Rightarrow> (None, s\<lparr>errno := e\<rparr>)
      | Inr names \<Rightarrow> (Some names, s))"

section \<open>mv\<close>

text \<open>
  \<^verbatim>\<open>src/mv/main.c\<close>. The four option flags are C ints that only ever hold 0 or 1;
  they are booleans here. \<^verbatim>\<open>getopt_long\<close> belongs to the C library: \<open>mv_main\<close>
  takes the option codes it returns, in order, and the operands it leaves
  (\<^verbatim>\<open>argv[optind .. argc-1]\<close>).
\<close>

definition mv_BUFFER_SIZE :: nat where "mv_BUFFER_SIZE = 8192"

record mv_flags =
  force_flag :: bool
  interactive_flag :: bool
  verbose_flag :: bool
  no_clobber_flag :: bool

definition mv_flags0 :: mv_flags where
  "mv_flags0 = \<lparr>force_flag = False, interactive_flag = False, verbose_flag = False,
                no_clobber_flag = False\<rparr>"

definition mv_print_usage :: "string \<Rightarrow> state \<Rightarrow> int \<times> state" where
  "mv_print_usage program_name s =
     (EXIT_FAILURE,
      eprintf (''Usage: '' @ program_name @ '' [OPTION]... SOURCE DEST\<newline>''
        @ ''   or: '' @ program_name @ '' [OPTION]... SOURCE... DIRECTORY\<newline>''
        @ ''\<newline>Options:\<newline>''
        @ ''  -f, --force         force move, override destination if exists\<newline>''
        @ ''  -i, --interactive   prompt before overwrite\<newline>''
        @ ''  -n, --no-clobber    do not overwrite existing files\<newline>''
        @ ''  -v, --verbose       explain what is being done\<newline>''
        @ ''      --version       display version information\<newline>''
        @ ''      --help          display this help\<newline>'') s)"

definition mv_print_version :: "state \<Rightarrow> int \<times> state" where
  "mv_print_version s =
     (EXIT_SUCCESS,
      printf (''ASD mv 1.0.0 - part of ASD CoreUtils\<newline>''
        @ ''Copyright (C) 2025 AnmiTaliDev\<newline>''
        @ ''License: Apache 2.0\<newline>'') s)"

text \<open>
  \<^verbatim>\<open>fgets(response, 10, stdin)\<close> stores at most 9 characters and stops after a
  newline; what it does not store stays in the input.
\<close>

fun fgets_chars :: "nat \<Rightarrow> string \<Rightarrow> string \<times> string" where
  "fgets_chars 0 cs = ([], cs)"
| "fgets_chars (Suc k) [] = ([], [])"
| "fgets_chars (Suc k) (c # cs) =
     (if c = CHR 0x0A then ([c], cs)
      else (case fgets_chars k cs of (r, rest) \<Rightarrow> (c # r, rest)))"

definition fgets :: "nat \<Rightarrow> state \<Rightarrow> string option \<times> state" where
  \<comment> \<open>\<open>None\<close> is the NULL result: end of input before any character\<close>
  "fgets n s =
     (case fgets_chars (n - 1) (inp s) of
        (r, rest) \<Rightarrow> (if r = [] then (None, s) else (Some r, s\<lparr>inp := rest\<rparr>)))"

definition confirm_overwrite :: "path \<Rightarrow> state \<Rightarrow> bool \<times> state" where
  "confirm_overwrite dest s =
     (let s1 = printf (''mv: overwrite '' @ quoted dest @ ''? '') s in
      case fgets 10 s1 of
        (Some response, s2) \<Rightarrow> (hd response = CHR ''y'' \<or> hd response = CHR ''Y'', s2)
      | (None, s2) \<Rightarrow> (False, s2))"

definition check_same_file :: "os \<Rightarrow> path \<Rightarrow> path \<Rightarrow> state \<Rightarrow> bool \<times> state" where
  "check_same_file os source dest s =
     (case sys_stat os source s of
        (None, s1) \<Rightarrow> (False, s1)
      | (Some src_stat, s1) \<Rightarrow>
          (case sys_stat os dest s1 of
             (None, s2) \<Rightarrow> (False, s2)
           | (Some dst_stat, s2) \<Rightarrow>
               (st_dev src_stat = st_dev dst_stat \<and> st_ino src_stat = st_ino dst_stat, s2)))"

text \<open>
  The copy loop of \<open>move_file\<close>. The result is \<open>False\<close> when the loop is left by the
  \<^verbatim>\<open>return -1\<close> of the write error (after the two closes and the unlink of the
  destination), \<open>True\<close> when \<^verbatim>\<open>read\<close> returns 0 or -1. A source that never stops
  delivering bytes keeps the loop running: the value is then \<open>None\<close>.
\<close>

partial_function (option) mv_copy_data :: "os \<Rightarrow> path \<Rightarrow> fd \<Rightarrow> fd \<Rightarrow> state \<Rightarrow> (bool \<times> state) option" where
  "mv_copy_data os dest source_fd dest_fd s =
     (case sys_read os source_fd mv_BUFFER_SIZE s of
        ((bytes_read, buffer), s1) \<Rightarrow>
          if bytes_read > 0 then
            (case sys_write os dest_fd buffer s1 of
               (bytes_written, s2) \<Rightarrow>
                 if bytes_written \<noteq> bytes_read then
                   (case sys_unlink os dest (sys_close dest_fd (sys_close source_fd s2)) of
                      (u, s3) \<Rightarrow> Some (False, perror ''mv: write error'' s3))
                 else mv_copy_data os dest source_fd dest_fd s2)
          else Some (True, s1))"

definition move_file :: "os \<Rightarrow> mv_flags \<Rightarrow> path \<Rightarrow> path \<Rightarrow> state \<Rightarrow> (int \<times> state) option" where
  "move_file os fl source dest s =
     (case sys_rename os source dest s of
        (r, s1) \<Rightarrow>
          if r = 0 then
            Some (0, if verbose_flag fl
                     then printf (quoted source @ '' -> '' @ quoted dest @ ''\<newline>'') s1 else s1)
          else if errno s1 = EXDEV then
            (case sys_stat os source s1 of
               (None, s2) \<Rightarrow> Some (- 1, perror ''mv: failed to stat source file'' s2)
             | (Some source_stat, s2) \<Rightarrow>
                 (case sys_open os source O_RDONLY 0 s2 of
                    (None, s3) \<Rightarrow> Some (- 1, perror ''mv: failed to open source file'' s3)
                  | (Some source_fd, s3) \<Rightarrow>
                      (case sys_open os dest O_WRONLY_CREAT_TRUNC (st_mode source_stat) s3 of
                         (None, s4) \<Rightarrow>
                           Some (- 1, perror ''mv: failed to create destination file''
                                        (sys_close source_fd s4))
                       | (Some dest_fd, s4) \<Rightarrow>
                           (case mv_copy_data os dest source_fd dest_fd s4 of
                              None \<Rightarrow> None
                            | Some (False, s5) \<Rightarrow> Some (- 1, s5)
                            | Some (True, s5) \<Rightarrow>
                                (case sys_unlink os source
                                        (sys_close dest_fd (sys_close source_fd s5)) of
                                   (u, s6) \<Rightarrow>
                                     if u \<noteq> 0 then
                                       Some (- 1, perror ''mv: failed to remove source file'' s6)
                                     else
                                       Some (0, if verbose_flag fl
                                                then printf (quoted source @ '' -> '' @ quoted dest
                                                             @ ''\<newline>'') s6
                                                else s6))))))
          else Some (- 1, perror ''mv: rename failed'' s1))"

text \<open>The option loop of \<open>main\<close>: \<open>Inl\<close> is an exit from inside the loop.\<close>

fun mv_parse_options :: "string \<Rightarrow> char list \<Rightarrow> mv_flags \<Rightarrow> state \<Rightarrow> (int \<times> state) + (mv_flags \<times> state)" where
  "mv_parse_options prog [] fl s = Inr (fl, s)"
| "mv_parse_options prog (c # cs) fl s =
     (if c = CHR ''f'' then
        mv_parse_options prog cs
          (fl\<lparr>force_flag := True, interactive_flag := False, no_clobber_flag := False\<rparr>) s
      else if c = CHR ''i'' then
        mv_parse_options prog cs
          (fl\<lparr>interactive_flag := True, force_flag := False, no_clobber_flag := False\<rparr>) s
      else if c = CHR ''n'' then
        mv_parse_options prog cs
          (fl\<lparr>no_clobber_flag := True, force_flag := False, interactive_flag := False\<rparr>) s
      else if c = CHR ''v'' then
        mv_parse_options prog cs (fl\<lparr>verbose_flag := True\<rparr>) s
      else if c = CHR ''V'' then Inl (mv_print_version s)
      else Inl (mv_print_usage prog s))"

definition mv_final_dest :: "os \<Rightarrow> path \<Rightarrow> bool \<Rightarrow> path \<Rightarrow> path" where
  "mv_final_dest os dest dest_is_dir source =
     (if dest_is_dir then dest @ ''/'' @ fst (libc_basename os source) else dest)"

definition mv_do_move :: "os \<Rightarrow> mv_flags \<Rightarrow> path \<Rightarrow> path \<Rightarrow> state \<Rightarrow> state option" where
  "mv_do_move os fl source final_dest s =
     (case move_file os fl source final_dest s of
        None \<Rightarrow> None
      | Some (r, s1) \<Rightarrow>
          Some (if r \<noteq> 0
                then eprintf (''mv: failed to move '' @ quoted source @ '' to '' @ quoted final_dest @ ''\<newline>'') s1
                else s1))"

text \<open>
  With a directory as destination the loop body duplicates the source, takes
  \<^verbatim>\<open>base = basename(...)\<close> of the duplicate, builds the final destination and calls
  \<^verbatim>\<open>free(base)\<close>. Only the start of the duplicate may be given to \<^verbatim>\<open>free\<close>. For any
  other pointer C leaves the behaviour undefined; the C library finds the pointer
  invalid, prints its message and aborts the process, which ends with the status of
  \<^verbatim>\<open>SIGABRT\<close>.
\<close>

definition ABORT_STATUS :: int where
  \<comment> \<open>128 + \<^verbatim>\<open>SIGABRT\<close>, as the shell reports a process ended by that signal\<close>
  "ABORT_STATUS = 134"

definition free_base :: "os \<Rightarrow> path \<Rightarrow> state \<Rightarrow> (int \<times> state) + state" where
  \<comment> \<open>\<open>Inl\<close> is the end of the process\<close>
  "free_base os source s =
     (if libc_basename_offset os source = Some 0 then Inr s
      else Inl (ABORT_STATUS, eprintf ''free(): invalid pointer\<newline>'' s))"

text \<open>
  The body of the loop over the sources. \<open>Inl\<close> is the end of the process inside the
  body; every \<^verbatim>\<open>continue\<close> and the end of the body return \<open>Inr\<close> of the state with
  which the loop goes on.
\<close>

definition mv_checked_source :: "os \<Rightarrow> mv_flags \<Rightarrow> path \<Rightarrow> path \<Rightarrow> state \<Rightarrow> state option" where
  \<comment> \<open>the loop body from the call of \<open>check_same_file\<close> on\<close>
  "mv_checked_source os fl source final_dest s1 =
     (case check_same_file os source final_dest s1 of
        (same, s2) \<Rightarrow>
          if same then
            Some (eprintf (''mv: '' @ quoted source @ '' and '' @ quoted final_dest @ '' are the same file\<newline>'') s2)
          else
            (case sys_access os final_dest F_OK s2 of
               (e, s3) \<Rightarrow>
                 if e = 0 then
                   if no_clobber_flag fl then
                     Some (if verbose_flag fl
                           then printf (''mv: not overwriting '' @ quoted final_dest @ ''\<newline>'') s3
                           else s3)
                   else
                     (case (if interactive_flag fl then confirm_overwrite final_dest s3
                            else (True, s3)) of
                        (yes, s4) \<Rightarrow>
                          if interactive_flag fl \<and> \<not> yes then Some s4
                          else
                            (case (if \<not> force_flag fl then sys_access os final_dest W_OK s4
                                   else (0, s4)) of
                               (w, s5) \<Rightarrow>
                                 if \<not> force_flag fl \<and> w \<noteq> 0 then
                                   Some (eprintf (''mv: cannot remove '' @ quoted final_dest @ '': Permission denied\<newline>'') s5)
                                 else mv_do_move os fl source final_dest s5))
                 else mv_do_move os fl source final_dest s3))"

definition mv_source :: "os \<Rightarrow> mv_flags \<Rightarrow> path \<Rightarrow> bool \<Rightarrow> path \<Rightarrow> state \<Rightarrow> ((int \<times> state) + state) option" where
  "mv_source os fl dest dest_is_dir source s =
     (case sys_access os source F_OK s of
        (a, s1) \<Rightarrow>
          if a \<noteq> 0 then
            Some (Inr (eprintf (''mv: cannot stat '' @ quoted source @ '': No such file or directory\<newline>'') s1))
          else
            (let final_dest = mv_final_dest os dest dest_is_dir source in
             case (if dest_is_dir then free_base os source s1 else Inr s1) of
               Inl ended \<Rightarrow> Some (Inl ended)
             | Inr s1' \<Rightarrow>
                 (case mv_checked_source os fl source final_dest s1' of
                    None \<Rightarrow> None
                  | Some s2 \<Rightarrow> Some (Inr s2))))"

fun mv_sources :: "os \<Rightarrow> mv_flags \<Rightarrow> path \<Rightarrow> bool \<Rightarrow> path list \<Rightarrow> state \<Rightarrow> ((int \<times> state) + state) option" where
  "mv_sources os fl dest dest_is_dir [] s = Some (Inr s)"
| "mv_sources os fl dest dest_is_dir (source # rest) s =
     (case mv_source os fl dest dest_is_dir source s of
        None \<Rightarrow> None
      | Some (Inl ended) \<Rightarrow> Some (Inl ended)
      | Some (Inr s1) \<Rightarrow> mv_sources os fl dest dest_is_dir rest s1)"

definition mv_main :: "os \<Rightarrow> string \<Rightarrow> char list \<Rightarrow> path list \<Rightarrow> state \<Rightarrow> (int \<times> state) option" where
  "mv_main os prog optcodes operands s =
     (case mv_parse_options prog optcodes mv_flags0 s of
        Inl ex \<Rightarrow> Some ex
      | Inr (fl, s1) \<Rightarrow>
          if length operands < 2 then Some (mv_print_usage prog s1)
          else
            (let dest = last operands in
             case sys_stat os dest s1 of
               (dest_stat, s2) \<Rightarrow>
                 (let dest_exists = (dest_stat \<noteq> None);
                      dest_is_dir = (dest_exists \<and> S_ISDIR (st_mode (the dest_stat)))
                  in
                    if length operands > 2 \<and> \<not> dest_is_dir then
                      Some (EXIT_FAILURE,
                            eprintf (''mv: target '' @ quoted dest @ '' is not a directory\<newline>'') s2)
                    else
                      (case mv_sources os fl dest dest_is_dir (butlast operands) s2 of
                         None \<Rightarrow> None
                       | Some (Inl ended) \<Rightarrow> Some ended
                       | Some (Inr s3) \<Rightarrow> Some (EXIT_SUCCESS, s3)))))"

section \<open>rm\<close>

text \<open>
  The \<^verbatim>\<open>rm\<close> program (the file with \<^verbatim>\<open>PROGRAM_NAME "rm"\<close>). The fields of
  \<^verbatim>\<open>struct rm_options\<close> are C ints holding 0 or 1. The result codes of
  \<^verbatim>\<open>getopt_long\<close> are \<open>Short c\<close> for an option that returns the character \<open>c\<close>
  (\<^verbatim>\<open>?\<close> for an unknown option) and one constructor for each of the two long options
  that store 1 in their flag variable and return 0.
\<close>

record rm_options =
  rm_recursive :: bool
  rm_force :: bool
  rm_verbose :: bool
  rm_interactive :: bool
  rm_preserve_root :: bool
  rm_no_preserve_root :: bool

definition rm_options0 :: rm_options where
  "rm_options0 = \<lparr>rm_recursive = False, rm_force = False, rm_verbose = False,
                  rm_interactive = False, rm_preserve_root = True,
                  rm_no_preserve_root = False\<rparr>"

datatype rm_getopt = Short char | Long_preserve_root | Long_no_preserve_root

definition handle_remove :: "os \<Rightarrow> rm_options \<Rightarrow> path \<Rightarrow> state \<Rightarrow> int \<times> state" where
  "handle_remove os opts fpath s =
     (case sys_remove os fpath s of
        (rv, s1) \<Rightarrow>
          if rv \<noteq> 0 \<and> \<not> rm_force opts then
            (- 1, eprintf (''rm: failed to remove '' @ quoted fpath @ '': ''
                           @ strerror (errno s1) @ ''\<newline>'') s1)
          else (0, if rm_verbose opts
                   then printf (''removed '' @ quoted fpath @ ''\<newline>'') s1 else s1))"

text \<open>
  \<^verbatim>\<open>char response = getchar()\<close>: the int result is narrowed to a char, which is
  signed on the platforms the program is built for, so that \<^verbatim>\<open>EOF\<close> and the byte
  0xFF both become the char that compares equal to \<^verbatim>\<open>EOF\<close>.
\<close>

definition char_of_getchar :: "char option \<Rightarrow> char" where
  "char_of_getchar c = (case c of None \<Rightarrow> CHR 0xFF | Some x \<Rightarrow> x)"

function rm_skip_line :: "char \<Rightarrow> state \<Rightarrow> state" where
  "rm_skip_line response s =
     (if response \<noteq> CHR 0x0A \<and> response \<noteq> CHR 0xFF then
        (case getchar s of (c, s1) \<Rightarrow> rm_skip_line (char_of_getchar c) s1)
      else s)"
  by pat_completeness auto
termination
  by (relation "measure (\<lambda>(response, s).
        2 * length (inp s) + (if response \<noteq> CHR 0x0A \<and> response \<noteq> CHR 0xFF then 1 else 0))")
     (auto simp add: getchar_def char_of_getchar_def split: list.splits)

declare rm_skip_line.simps [simp del]

definition rm_remove_path :: "os \<Rightarrow> rm_options \<Rightarrow> path \<Rightarrow> state \<Rightarrow> int \<times> state" where
  \<comment> \<open>\<open>remove_file\<close> from the call of \<^verbatim>\<open>remove\<close> on\<close>
  "rm_remove_path os opts p s =
     (case sys_remove os p s of
        (rv, s1) \<Rightarrow>
          if rv \<noteq> 0 then
            if \<not> rm_force opts then
              (1, eprintf (''rm: cannot remove '' @ quoted p @ '': ''
                           @ strerror (errno s1) @ ''\<newline>'') s1)
            else (0, s1)
          else (0, if rm_verbose opts
                   then printf (''removed '' @ quoted p @ ''\<newline>'') s1 else s1))"

definition remove_file :: "os \<Rightarrow> rm_options \<Rightarrow> path \<Rightarrow> state \<Rightarrow> int \<times> state" where
  "remove_file os opts p s =
     (if rm_interactive opts \<and> \<not> rm_force opts then
        (case getchar (printf (''rm: remove regular file '' @ quoted p @ ''? '') s) of
           (c, s1) \<Rightarrow>
             (let response = char_of_getchar c in
              if response \<noteq> CHR ''y'' \<and> response \<noteq> CHR ''Y'' then (0, s1)
              else rm_remove_path os opts p (rm_skip_line response s1)))
      else rm_remove_path os opts p s)"

text \<open>
  \<^verbatim>\<open>nftw(path, fn, 64, FTW_DEPTH | FTW_PHYS)\<close> belongs to the C library. The oracle
  \<open>os_nftw\<close> gives the entries of the tree in the order of the walk (post-order, links
  not followed), or the error with which the walk cannot start. \<^verbatim>\<open>nftw\<close> calls the
  function on each entry in turn; a result other than 0 ends the walk and is the result
  of \<^verbatim>\<open>nftw\<close>.
\<close>

fun nftw_visit :: "(path \<Rightarrow> state \<Rightarrow> int \<times> state) \<Rightarrow> path list \<Rightarrow> state \<Rightarrow> int \<times> state" where
  "nftw_visit fn [] s = (0, s)"
| "nftw_visit fn (fpath # rest) s =
     (case fn fpath s of
        (rv, s1) \<Rightarrow> if rv \<noteq> 0 then (rv, s1) else nftw_visit fn rest s1)"

definition nftw :: "os \<Rightarrow> path \<Rightarrow> (path \<Rightarrow> state \<Rightarrow> int \<times> state) \<Rightarrow> state \<Rightarrow> int \<times> state" where
  "nftw os p fn s =
     (case os_nftw os (calls s) p of
        Inl e \<Rightarrow> (- 1, s\<lparr>errno := e\<rparr>)
      | Inr entries \<Rightarrow> nftw_visit fn entries s)"

definition remove_directory_recursive :: "os \<Rightarrow> rm_options \<Rightarrow> path \<Rightarrow> state \<Rightarrow> int \<times> state" where
  "remove_directory_recursive os opts p s = nftw os p (handle_remove os opts) s"

definition rm_usage :: "int \<Rightarrow> state \<Rightarrow> int \<times> state" where
  "rm_usage status s =
     (status,
      if status \<noteq> EXIT_SUCCESS then
        eprintf (''Try '' @ quoted ''rm --help'' @ '' for more information.\<newline>'') s
      else
        printf (''Usage: rm [OPTION]... [FILE]...\<newline>''
          @ ''Remove (unlink) the FILE(s).\<newline>\<newline>''
          @ ''  -f, --force           ignore nonexistent files and arguments, never prompt\<newline>''
          @ ''  -i, --interactive     prompt before every removal\<newline>''
          @ ''  -r, -R, --recursive   remove directories and their contents recursively\<newline>''
          @ ''  -v, --verbose         explain what is being done\<newline>''
          @ ''      --help            display this help and exit\<newline>''
          @ ''      --preserve-root   do not remove '' @ quoted ''/'' @ '' (default)\<newline>''
          @ ''      --no-preserve-root  do not treat '' @ quoted ''/'' @ '' specially\<newline>''
          @ ''\<newline>By default, rm does not remove directories. Use the --recursive (-r or -R)\<newline>''
          @ ''option to remove each listed directory, too, along with all of its contents.\<newline>\<newline>'')
          s)"

fun rm_parse_options :: "rm_getopt list \<Rightarrow> rm_options \<Rightarrow> state \<Rightarrow> (int \<times> state) + (rm_options \<times> state)" where
  "rm_parse_options [] opts s = Inr (opts, s)"
| "rm_parse_options (Long_preserve_root # cs) opts s =
     rm_parse_options cs (opts\<lparr>rm_preserve_root := True\<rparr>) s"
| "rm_parse_options (Long_no_preserve_root # cs) opts s =
     rm_parse_options cs (opts\<lparr>rm_no_preserve_root := True\<rparr>) s"
| "rm_parse_options (Short c # cs) opts s =
     (if c = CHR ''f'' then
        rm_parse_options cs (opts\<lparr>rm_force := True, rm_interactive := False\<rparr>) s
      else if c = CHR ''i'' then
        rm_parse_options cs (opts\<lparr>rm_interactive := True, rm_force := False\<rparr>) s
      else if c = CHR ''r'' \<or> c = CHR ''R'' then
        rm_parse_options cs (opts\<lparr>rm_recursive := True\<rparr>) s
      else if c = CHR ''v'' then
        rm_parse_options cs (opts\<lparr>rm_verbose := True\<rparr>) s
      else if c = CHR ''h'' then Inl (rm_usage EXIT_SUCCESS s)
      else Inl (rm_usage EXIT_FAILURE s))"

text \<open>
  The body of the loop over the operands: it takes and returns \<^verbatim>\<open>exit_status\<close>
  with the state.
\<close>

definition rm_operand :: "os \<Rightarrow> rm_options \<Rightarrow> path \<Rightarrow> int \<times> state \<Rightarrow> int \<times> state" where
  "rm_operand os opts p es =
     (case es of
        (exit_status, s) \<Rightarrow>
          (case sys_lstat os p s of
             (None, s1) \<Rightarrow>
               if \<not> rm_force opts then
                 (EXIT_FAILURE,
                  eprintf (''rm: cannot remove '' @ quoted p @ '': ''
                           @ strerror (errno s1) @ ''\<newline>'') s1)
               else (exit_status, s1)
           | (Some st, s1) \<Rightarrow>
               if rm_preserve_root opts \<and> \<not> rm_no_preserve_root opts \<and> p = ''/'' then
                 (EXIT_FAILURE,
                  eprintf (''rm: refusing to remove root directory '' @ quoted ''/''
                           @ ''\<newline>'') s1)
               else if S_ISDIR (st_mode st) then
                 if \<not> rm_recursive opts then
                   (EXIT_FAILURE,
                    eprintf (''rm: cannot remove '' @ quoted p @ '': Is a directory\<newline>'') s1)
                 else
                   (case remove_directory_recursive os opts p s1 of
                      (r, s2) \<Rightarrow> (if r \<noteq> 0 then EXIT_FAILURE else exit_status, s2))
               else
                 (case remove_file os opts p s1 of
                    (r, s2) \<Rightarrow> (if r \<noteq> 0 then EXIT_FAILURE else exit_status, s2))))"

fun rm_operands :: "os \<Rightarrow> rm_options \<Rightarrow> path list \<Rightarrow> int \<times> state \<Rightarrow> int \<times> state" where
  "rm_operands os opts [] es = es"
| "rm_operands os opts (p # rest) es = rm_operands os opts rest (rm_operand os opts p es)"

definition rm_main :: "os \<Rightarrow> rm_getopt list \<Rightarrow> path list \<Rightarrow> state \<Rightarrow> int \<times> state" where
  "rm_main os optcodes operands s =
     (case rm_parse_options optcodes rm_options0 s of
        Inl ex \<Rightarrow> ex
      | Inr (opts, s1) \<Rightarrow>
          if operands = [] then rm_usage EXIT_FAILURE (eprintf ''rm: missing operand\<newline>'' s1)
          else rm_operands os opts operands (EXIT_SUCCESS, s1))"

section \<open>cp\<close>

text \<open>
  The \<^verbatim>\<open>cp\<close> program (the file with \<^verbatim>\<open>CopyOptions\<close>). \<open>cp_main\<close> takes
  \<^verbatim>\<open>argv[0]\<close> and the list \<^verbatim>\<open>argv[1 .. argc-1]\<close>: this program reads its options
  itself.
\<close>

definition cp_BUFFER_SIZE :: nat where "cp_BUFFER_SIZE = 1024 * 1024"
definition PATH_MAX :: nat where "PATH_MAX = 4096"

record CopyOptions =
  cp_recursive :: bool
  cp_force :: bool
  cp_interactive :: bool
  cp_preserve :: bool
  cp_verbose :: bool
  cp_no_target_dir :: bool
  cp_update :: bool

definition CopyOptions0 :: CopyOptions where
  "CopyOptions0 = \<lparr>cp_recursive = False, cp_force = False, cp_interactive = False,
                   cp_preserve = False, cp_verbose = False, cp_no_target_dir = False,
                   cp_update = False\<rparr>"

definition snprintf_path :: "path \<Rightarrow> string \<Rightarrow> path" where
  \<comment> \<open>\<^verbatim>\<open>snprintf(buf, PATH_MAX, "%s/%s", dir, name)\<close>: the result is cut to fit\<close>
  "snprintf_path dir name = take (PATH_MAX - 1) (dir @ ''/'' @ name)"

definition check_update_condition :: "os \<Rightarrow> path \<Rightarrow> path \<Rightarrow> state \<Rightarrow> bool \<times> state" where
  "check_update_condition os src dst s =
     (case sys_stat os src s of
        (None, s1) \<Rightarrow> (True, s1)
      | (Some src_stat, s1) \<Rightarrow>
          (case sys_stat os dst s1 of
             (None, s2) \<Rightarrow> (True, s2)
           | (Some dst_stat, s2) \<Rightarrow> (st_mtime src_stat > st_mtime dst_stat, s2)))"

text \<open>
  \<^verbatim>\<open>while (getchar() != '\n');\<close> in \<open>copy_file\<close>. At end of input \<^verbatim>\<open>getchar\<close>
  returns \<^verbatim>\<open>EOF\<close>, which is not a newline, and the loop goes round again.
\<close>

partial_function (option) cp_clear_input :: "state \<Rightarrow> state option" where
  "cp_clear_input s =
     (case getchar s of
        (c, s1) \<Rightarrow> if c \<noteq> Some (CHR 0x0A) then cp_clear_input s1 else Some s1)"

text \<open>
  The copy loop of \<open>copy_file\<close>: \<open>False\<close> when it is left by the \<^verbatim>\<open>return -1\<close>
  of the failed write, \<open>True\<close> when \<^verbatim>\<open>read\<close> returns 0 or -1.
\<close>

partial_function (option) cp_copy_contents :: "os \<Rightarrow> path \<Rightarrow> fd \<Rightarrow> fd \<Rightarrow> state \<Rightarrow> (bool \<times> state) option" where
  "cp_copy_contents os dst src_fd dst_fd s =
     (case sys_read os src_fd cp_BUFFER_SIZE s of
        ((bytes_read, buffer), s1) \<Rightarrow>
          if bytes_read > 0 then
            (case sys_write os dst_fd buffer s1 of
               (bytes_written, s2) \<Rightarrow>
                 if bytes_written \<noteq> bytes_read then
                   Some (False,
                         sys_close dst_fd (sys_close src_fd
                           (eprintf (''Error: Write failed for '' @ quoted dst @ '': ''
                                     @ strerror (errno s2) @ ''\<newline>'') s2)))
                 else cp_copy_contents os dst src_fd dst_fd s2)
          else Some (True, s1))"

definition cp_preserve_attributes :: "os \<Rightarrow> path \<Rightarrow> stat_t \<Rightarrow> fd \<Rightarrow> state \<Rightarrow> state" where
  "cp_preserve_attributes os dst src_stat dst_fd s =
     (case sys_futimens os dst_fd (st_atime src_stat) (st_mtime src_stat) s of
        (t, s1) \<Rightarrow>
          (let s2 = (if t = - 1
                     then eprintf (''Warning: Could not preserve timestamps for ''
                                   @ quoted dst @ ''\<newline>'') s1
                     else s1)
           in case sys_fchown os dst_fd (st_uid src_stat) (st_gid src_stat) s2 of
                (c, s3) \<Rightarrow>
                  if c = - 1
                  then eprintf (''Warning: Could not preserve ownership for ''
                                @ quoted dst @ ''\<newline>'') s3
                  else s3))"

definition cp_transfer :: "os \<Rightarrow> CopyOptions \<Rightarrow> path \<Rightarrow> path \<Rightarrow> stat_t \<Rightarrow> state \<Rightarrow> (int \<times> state) option" where
  \<comment> \<open>\<open>copy_file\<close> from the opening of the source file on\<close>
  "cp_transfer os opts src dst src_stat s =
     (case sys_open os src O_RDONLY 0 s of
        (None, s1) \<Rightarrow>
          Some (- 1, eprintf (''Error: Cannot open source file '' @ quoted src @ '': ''
                              @ strerror (errno s1) @ ''\<newline>'') s1)
      | (Some src_fd, s1) \<Rightarrow>
          (let mode = (if cp_preserve opts then st_mode src_stat else 0x1B6) in
           case sys_open os dst O_WRONLY_CREAT_TRUNC mode s1 of
             (None, s2) \<Rightarrow>
               Some (- 1, sys_close src_fd
                            (eprintf (''Error: Cannot create destination file '' @ quoted dst
                                      @ '': '' @ strerror (errno s2) @ ''\<newline>'') s2))
           | (Some dst_fd, s2) \<Rightarrow>
               (case cp_copy_contents os dst src_fd dst_fd s2 of
                  None \<Rightarrow> None
                | Some (False, s3) \<Rightarrow> Some (- 1, s3)
                | Some (True, s3) \<Rightarrow>
                    (let s4 = (if cp_preserve opts
                               then cp_preserve_attributes os dst src_stat dst_fd s3 else s3);
                         s5 = sys_close dst_fd (sys_close src_fd s4)
                     in Some (0, if cp_verbose opts
                                 then printf (quoted src @ '' -> '' @ quoted dst @ ''\<newline>'') s5
                                 else s5)))))"

definition copy_file :: "os \<Rightarrow> CopyOptions \<Rightarrow> path \<Rightarrow> path \<Rightarrow> state \<Rightarrow> (int \<times> state) option" where
  "copy_file os opts src dst s =
     (case sys_stat os src s of
        (None, s1) \<Rightarrow>
          Some (- 1, eprintf (''Error: Cannot stat source file '' @ quoted src @ '': ''
                              @ strerror (errno s1) @ ''\<newline>'') s1)
      | (Some src_stat, s1) \<Rightarrow>
          (case sys_access os dst F_OK s1 of
             (a, s2) \<Rightarrow>
               if a = 0 then
                 if cp_interactive opts then
                   (case getchar (printf (''overwrite '' @ quoted dst @ ''? (y/n [n]) '') s2) of
                      (c, s3) \<Rightarrow>
                        (let response = char_of_getchar c in
                         case cp_clear_input s3 of
                           None \<Rightarrow> None
                         | Some s4 \<Rightarrow>
                             if response \<noteq> CHR ''y'' \<and> response \<noteq> CHR ''Y'' then Some (0, s4)
                             else cp_transfer os opts src dst src_stat s4))
                 else if \<not> cp_force opts then
                   if cp_update opts then
                     (case check_update_condition os src dst s2 of
                        (newer, s3) \<Rightarrow>
                          if \<not> newer then Some (0, s3)
                          else cp_transfer os opts src dst src_stat s3)
                   else cp_transfer os opts src dst src_stat s2
                 else cp_transfer os opts src dst src_stat s2
               else cp_transfer os opts src dst src_stat s2))"

text \<open>
  \<open>copy_directory\<close> and its loop over the entries call each other. They are one
  function on a task: \<open>CopyDir src dst\<close> is the call \<open>copy_directory(src, dst)\<close>,
  \<open>CopyEntries src dst names\<close> is the \<^verbatim>\<open>readdir\<close> loop of that call with \<open>names\<close>
  still to come from the stream. The tree being copied may have no end (a directory
  copied into itself), so the function is partial.
\<close>

datatype cp_task = CopyDir path path | CopyEntries path path "string list"

partial_function (option) cp_walk :: "os \<Rightarrow> CopyOptions \<Rightarrow> cp_task \<Rightarrow> state \<Rightarrow> (int \<times> state) option" where
  "cp_walk os opts t s =
     (case t of
        CopyDir src dst \<Rightarrow>
          (case sys_mkdir os dst 0x1FF s of
             (m, s1) \<Rightarrow>
               if m = - 1 \<and> errno s1 \<noteq> EEXIST then
                 Some (- 1, eprintf (''Error: Cannot create directory '' @ quoted dst @ '': ''
                                     @ strerror (errno s1) @ ''\<newline>'') s1)
               else
                 (case sys_opendir os src s1 of
                    (None, s2) \<Rightarrow>
                      Some (- 1, eprintf (''Error: Cannot open directory '' @ quoted src @ '': ''
                                          @ strerror (errno s2) @ ''\<newline>'') s2)
                  | (Some names, s2) \<Rightarrow> cp_walk os opts (CopyEntries src dst names) s2))
      | CopyEntries src dst [] \<Rightarrow> Some (0, s)
      | CopyEntries src dst (d_name # rest) \<Rightarrow>
          if d_name = ''.'' \<or> d_name = ''..'' then cp_walk os opts (CopyEntries src dst rest) s
          else
            (let src_path = snprintf_path src d_name;
                 dst_path = snprintf_path dst d_name
             in case sys_lstat os src_path s of
                  (None, s1) \<Rightarrow>
                    cp_walk os opts (CopyEntries src dst rest)
                      (eprintf (''Error: Cannot stat '' @ quoted src_path @ '': ''
                                @ strerror (errno s1) @ ''\<newline>'') s1)
                | (Some statbuf, s1) \<Rightarrow>
                    if S_ISDIR (st_mode statbuf) then
                      if cp_recursive opts then
                        do {
                          (r, s2) \<leftarrow> cp_walk os opts (CopyDir src_path dst_path) s1;
                          if r = - 1 then Some (- 1, s2)
                          else cp_walk os opts (CopyEntries src dst rest) s2
                        }
                      else cp_walk os opts (CopyEntries src dst rest) s1
                    else
                      do {
                        (r, s2) \<leftarrow> copy_file os opts src_path dst_path s1;
                        if r = - 1 then Some (- 1, s2)
                        else cp_walk os opts (CopyEntries src dst rest) s2
                      }))"

definition copy_directory :: "os \<Rightarrow> CopyOptions \<Rightarrow> path \<Rightarrow> path \<Rightarrow> state \<Rightarrow> (int \<times> state) option" where
  "copy_directory os opts src dst s = cp_walk os opts (CopyDir src dst) s"

definition cp_print_usage :: "string \<Rightarrow> state \<Rightarrow> state" where
  "cp_print_usage program_name s =
     eprintf (''Usage: '' @ program_name @ '' [OPTION]... SOURCE DEST\<newline>''
       @ ''  or:  '' @ program_name @ '' [OPTION]... SOURCE... DIRECTORY\<newline>''
       @ ''\<newline>Options:\<newline>''
       @ ''  -f, --force         force overwrite of destination file\<newline>''
       @ ''  -i, --interactive   prompt before overwrite\<newline>''
       @ ''  -p, --preserve      preserve file attributes\<newline>''
       @ ''  -r, -R, --recursive copy directories recursively\<newline>''
       @ ''  -u, --update        copy only when source is newer\<newline>''
       @ ''  -v, --verbose       explain what is being done\<newline>''
       @ ''  -T, --no-target-directory  treat DEST as a normal file\<newline>''
       @ ''      --help          display this help and exit\<newline>'') s"

text \<open>
  The \<^verbatim>\<open>while (*++opt)\<close> loop over the characters of one option argument, after its
  first character: \<open>Inl c\<close> is the unknown option character \<open>c\<close>.
\<close>

fun cp_parse_chars :: "string \<Rightarrow> CopyOptions \<Rightarrow> char + CopyOptions" where
  "cp_parse_chars [] opts = Inr opts"
| "cp_parse_chars (c # cs) opts =
     (if c = CHR ''r'' \<or> c = CHR ''R'' then cp_parse_chars cs (opts\<lparr>cp_recursive := True\<rparr>)
      else if c = CHR ''f'' then cp_parse_chars cs (opts\<lparr>cp_force := True\<rparr>)
      else if c = CHR ''i'' then cp_parse_chars cs (opts\<lparr>cp_interactive := True\<rparr>)
      else if c = CHR ''p'' then cp_parse_chars cs (opts\<lparr>cp_preserve := True\<rparr>)
      else if c = CHR ''v'' then cp_parse_chars cs (opts\<lparr>cp_verbose := True\<rparr>)
      else if c = CHR ''T'' then cp_parse_chars cs (opts\<lparr>cp_no_target_dir := True\<rparr>)
      else if c = CHR ''u'' then cp_parse_chars cs (opts\<lparr>cp_update := True\<rparr>)
      else Inl c)"

text \<open>
  The option loop of \<open>main\<close>: \<open>Inl\<close> is a \<^verbatim>\<open>return\<close> from inside the loop, \<open>Inr\<close>
  carries the options and the arguments from \<^verbatim>\<open>argv[i]\<close> on.
\<close>

fun cp_parse_args :: "string \<Rightarrow> string list \<Rightarrow> CopyOptions \<Rightarrow> state \<Rightarrow> (int \<times> state) + (CopyOptions \<times> string list \<times> state)" where
  "cp_parse_args prog [] opts s = Inr (opts, [], s)"
| "cp_parse_args prog (a # as) opts s =
     (if a \<noteq> [] \<and> hd a = CHR ''-'' then
        if a = ''--help'' then Inl (0, cp_print_usage prog s)
        else
          (case cp_parse_chars (tl a) opts of
             Inl c \<Rightarrow>
               Inl (1, cp_print_usage prog (eprintf (''Unknown option: -'' @ [c] @ ''\<newline>'') s))
           | Inr opts' \<Rightarrow> cp_parse_args prog as opts' s)
      else Inr (opts, a # as, s))"

text \<open>
  One source of the single-source case or of the loop over several sources. The
  result \<open>Inl\<close> is a \<^verbatim>\<open>return\<close> of \<open>main\<close> with that status; \<open>Inr\<close> goes on.
\<close>

definition cp_copy_source :: "os \<Rightarrow> CopyOptions \<Rightarrow> path \<Rightarrow> path \<Rightarrow> stat_t \<Rightarrow> state \<Rightarrow> (int \<times> state) option" where
  \<comment> \<open>the copy of a source whose \<^verbatim>\<open>stat\<close> succeeded and that is not an omitted directory\<close>
  "cp_copy_source os opts src dst src_stat s =
     (if S_ISDIR (st_mode src_stat) then copy_directory os opts src dst s
      else copy_file os opts src dst s)"

fun cp_sources :: "os \<Rightarrow> CopyOptions \<Rightarrow> path \<Rightarrow> path list \<Rightarrow> state \<Rightarrow> (int \<times> state) option" where
  "cp_sources os opts target [] s = Some (0, s)"
| "cp_sources os opts target (arg # rest) s =
     (case libc_basename os arg of
        (basename_ptr, src) \<Rightarrow>
          (let dst_path = snprintf_path target basename_ptr in
           case sys_stat os src s of
             (None, s1) \<Rightarrow> cp_sources os opts target rest s1
           | (Some src_stat, s1) \<Rightarrow>
               if S_ISDIR (st_mode src_stat) \<and> \<not> cp_recursive opts then
                 cp_sources os opts target rest
                   (eprintf (''Error: Omitting directory '' @ quoted src @ ''\<newline>'') s1)
               else
                 (case cp_copy_source os opts src dst_path src_stat s1 of
                    None \<Rightarrow> None
                  | Some (r, s2) \<Rightarrow>
                      if r = - 1 then Some (1, s2)
                      else cp_sources os opts target rest s2)))"

definition cp_single :: "os \<Rightarrow> CopyOptions \<Rightarrow> path \<Rightarrow> path \<Rightarrow> state \<Rightarrow> (int \<times> state) option" where
  "cp_single os opts src target s =
     (case sys_stat os src s of
        (None, s1) \<Rightarrow>
          Some (1, eprintf (''Error: Cannot stat '' @ quoted src @ '': ''
                            @ strerror (errno s1) @ ''\<newline>'') s1)
      | (Some src_stat, s1) \<Rightarrow>
          if S_ISDIR (st_mode src_stat) \<and> \<not> cp_recursive opts then
            Some (1, eprintf (''Error: Omitting directory '' @ quoted src @ ''\<newline>'') s1)
          else
            (case cp_copy_source os opts src target src_stat s1 of
               None \<Rightarrow> None
             | Some (r, s2) \<Rightarrow> if r = - 1 then Some (1, s2) else Some (0, s2)))"

definition cp_main :: "os \<Rightarrow> string \<Rightarrow> string list \<Rightarrow> state \<Rightarrow> (int \<times> state) option" where
  "cp_main os prog args s =
     (case cp_parse_args prog args CopyOptions0 s of
        Inl ex \<Rightarrow> Some ex
      | Inr (opts, operands, s1) \<Rightarrow>
          if length operands < 2 then
            Some (1, cp_print_usage prog (eprintf ''Error: Missing operand\<newline>'' s1))
          else
            (let target = last operands in
             if length operands > 2 then
               (case (if \<not> cp_no_target_dir opts then sys_stat os target s1 else (None, s1)) of
                  (target_stat, s2) \<Rightarrow>
                    if \<not> cp_no_target_dir opts \<and> target_stat \<noteq> None
                       \<and> S_ISDIR (st_mode (the target_stat))
                    then cp_sources os opts target (butlast operands) s2
                    else
                      Some (1, eprintf (''Error: Target '' @ quoted target
                                        @ '' is not a directory\<newline>'') s2))
             else cp_single os opts (hd operands) target s1))"

section \<open>echo\<close>

text \<open>
  The \<^verbatim>\<open>echo\<close> program (Zig). Arguments are byte strings. An allocation or a write
  that fails makes \<open>main\<close> return the error; the model is of the runs in which they
  succeed. \<^verbatim>\<open>std.debug.print\<close> writes to standard error.
\<close>

definition backslash :: char where "backslash = CHR 0x5C"

record Options =
  interpret_escapes :: bool
  newline :: bool
  "help" :: bool
  version :: bool

definition Options0 :: Options where
  "Options0 = \<lparr>interpret_escapes = False, newline = True, help = False, version = False\<rparr>"

definition printVersion :: "state \<Rightarrow> state" where
  "printVersion s =
     eprintf (''ASD CoreUtils echo 1.0.0\<newline>''
       @ ''Copyright (C) 2025 AnmiTaliDev\<newline>''
       @ ''License: Apache 2.0\<newline>'') s"

definition printHelp :: "state \<Rightarrow> state" where
  "printHelp s =
     eprintf (''Usage: echo [OPTION]... [STRING]...\<newline>''
       @ ''Echo the STRING(s) to standard output.\<newline>\<newline>''
       @ ''  -n             do not output the trailing newline\<newline>''
       @ ''  -e             enable interpretation of backslash escapes\<newline>''
       @ ''  -E             disable interpretation of backslash escapes (default)\<newline>''
       @ ''  --help         display this help and exit\<newline>''
       @ ''  --version      output version information and exit\<newline>\<newline>''
       @ ''If -e is in effect, the following sequences are recognized:\<newline>''
       @ ''  '' @ [backslash, backslash] @ ''      backslash\<newline>''
       @ ''  '' @ [backslash] @ ''a      alert (BEL)\<newline>''
       @ ''  '' @ [backslash] @ ''b      backspace\<newline>''
       @ ''  '' @ [backslash] @ ''c      produce no further output\<newline>''
       @ ''  '' @ [backslash] @ ''e      escape\<newline>''
       @ ''  '' @ [backslash] @ ''f      form feed\<newline>''
       @ ''  '' @ [backslash] @ ''n      new line\<newline>''
       @ ''  '' @ [backslash] @ ''r      carriage return\<newline>''
       @ ''  '' @ [backslash] @ ''t      horizontal tab\<newline>''
       @ ''  '' @ [backslash] @ ''v      vertical tab\<newline>'') s"

definition getEscapeSequence :: "char \<Rightarrow> string option" where
  "getEscapeSequence escape_char =
     (if escape_char = backslash then Some [backslash]
      else if escape_char = CHR ''a'' then Some [CHR 0x07]
      else if escape_char = CHR ''b'' then Some [CHR 0x08]
      else if escape_char = CHR ''c'' then Some []
      else if escape_char = CHR ''e'' then Some [CHR 0x1B]
      else if escape_char = CHR ''f'' then Some [CHR 0x0C]
      else if escape_char = CHR ''n'' then Some [CHR 0x0A]
      else if escape_char = CHR ''r'' then Some [CHR 0x0D]
      else if escape_char = CHR ''t'' then Some [CHR 0x09]
      else if escape_char = CHR ''v'' then Some [CHR 0x0B]
      else None)"

text \<open>The \<^verbatim>\<open>while (i < input.len)\<close> loop of \<open>processEscapes\<close>, on \<open>i\<close> and \<open>result\<close>.\<close>

function processEscapes_loop :: "string \<Rightarrow> nat \<Rightarrow> string \<Rightarrow> string" where
  "processEscapes_loop input i result =
     (if i < length input then
        if input ! i = backslash \<and> i + 1 < length input then
          (let escape_char = input ! (i + 1) in
           case getEscapeSequence escape_char of
             Some replacement \<Rightarrow>
               if escape_char = CHR ''c'' then result @ replacement
               else processEscapes_loop input (i + 2) (result @ replacement)
           | None \<Rightarrow> processEscapes_loop input (i + 2) (result @ [backslash, escape_char]))
        else processEscapes_loop input (i + 1) (result @ [input ! i])
      else result)"
  by pat_completeness auto
termination
  by (relation "measure (\<lambda>(input, i, result). length input - i)") auto

declare processEscapes_loop.simps [simp del]

definition processEscapes :: "string \<Rightarrow> string" where
  "processEscapes input = processEscapes_loop input 0 []"

text \<open>
  The option loop of \<open>main\<close>: the options and the arguments from \<^verbatim>\<open>arg_index\<close> on.
\<close>

fun echo_parse_options :: "string list \<Rightarrow> Options \<Rightarrow> Options \<times> string list" where
  "echo_parse_options [] opts = (opts, [])"
| "echo_parse_options (arg # rest) opts =
     (if \<not> (arg \<noteq> [] \<and> hd arg = CHR ''-'') then (opts, arg # rest)
      else if arg = ''-n'' then echo_parse_options rest (opts\<lparr>newline := False\<rparr>)
      else if arg = ''-e'' then echo_parse_options rest (opts\<lparr>interpret_escapes := True\<rparr>)
      else if arg = ''-E'' then echo_parse_options rest (opts\<lparr>interpret_escapes := False\<rparr>)
      else if arg = ''--help'' then echo_parse_options rest (opts\<lparr>help := True\<rparr>)
      else if arg = ''--version'' then echo_parse_options rest (opts\<lparr>version := True\<rparr>)
      else (opts, arg # rest))"

text \<open>The loop that prints the arguments, on \<^verbatim>\<open>first\<close> and the standard output.\<close>

fun echo_print_args :: "Options \<Rightarrow> bool \<Rightarrow> string list \<Rightarrow> state \<Rightarrow> state" where
  "echo_print_args opts first [] s = s"
| "echo_print_args opts first (arg # rest) s =
     (let s1 = (if \<not> first then printf '' '' s else s);
          s2 = (if interpret_escapes opts then printf (processEscapes arg) s1
                else printf arg s1)
      in echo_print_args opts False rest s2)"

definition echo_main :: "string list \<Rightarrow> state \<Rightarrow> state" where
  \<comment> \<open>the arguments are \<^verbatim>\<open>args[1 ..]\<close>\<close>
  "echo_main args s =
     (case echo_parse_options args Options0 of
        (opts, operands) \<Rightarrow>
          if help opts then printHelp s
          else if version opts then printVersion s
          else
            (let s1 = echo_print_args opts True operands s in
             if newline opts then printf ''\<newline>'' s1 else s1))"

text \<open>The state in which a process starts, with nothing on standard input.\<close>

definition state0 :: state where
  "state0 = \<lparr>calls = [], errno = ESUCCESS, inp = [], out = [], err = []\<rparr>"

text \<open>
  The last of the option codes \<^verbatim>\<open>f\<close>, \<^verbatim>\<open>i\<close>, \<^verbatim>\<open>n\<close> in the order given,
  as the property of the option loop is worded.
\<close>

definition mv_last_choice :: "char list \<Rightarrow> char option" where
  "mv_last_choice cs =
     (let xs = filter (\<lambda>c. c = CHR ''f'' \<or> c = CHR ''i'' \<or> c = CHR ''n'') cs
      in if xs = [] then None else Some (last xs))"

section \<open>Reading the output of echo\<close>

text \<open>\<open>processEscapes\<close> by recursion on the input, as its loop is shown to compute it.\<close>

fun processEscapes_rec :: "string \<Rightarrow> string" where
  "processEscapes_rec [] = []"
| "processEscapes_rec [x] = [x]"
| "processEscapes_rec (x # y # r) =
     (if x = backslash then
        (case getEscapeSequence y of
           Some replacement \<Rightarrow>
             if y = CHR ''c'' then replacement else replacement @ processEscapes_rec r
         | None \<Rightarrow> backslash # y # processEscapes_rec r)
      else x # processEscapes_rec (y # r))"

text \<open>
  \<open>scanned pre\<close>: the loop of \<open>processEscapes\<close> reads \<open>pre\<close> to its end, so that
  what follows \<open>pre\<close> in an argument is read as the start of a new character or
  escape: \<open>pre\<close> holds no \<^verbatim>\<open>\c\<close> escape and does not end in the backslash of an
  unfinished one.
\<close>

fun scanned :: "string \<Rightarrow> bool" where
  "scanned [] = True"
| "scanned [x] = (x \<noteq> backslash)"
| "scanned (x # y # r) = (if x = backslash then y \<noteq> CHR ''c'' \<and> scanned r else scanned (y # r))"

text \<open>The texts of the arguments with one space between them, and the text of one argument.\<close>

fun join_with_space :: "string list \<Rightarrow> string" where
  "join_with_space [] = []"
| "join_with_space [a] = a"
| "join_with_space (a # b # r) = a @ '' '' @ join_with_space (b # r)"

definition echo_text :: "Options \<Rightarrow> string \<Rightarrow> string" where
  "echo_text opts arg = (if interpret_escapes opts then processEscapes arg else arg)"

section \<open>Reading the recorded calls\<close>

text \<open>
  \<open>write_failure os before new\<close>: among the calls \<open>new\<close>, issued after the calls
  \<open>before\<close>, there is a \<^verbatim>\<open>write\<close> that the system answered with an error or
  with fewer bytes than it was given.
\<close>

fun is_read_write :: "call \<Rightarrow> bool" where
  "is_read_write (Read f) = True"
| "is_read_write (Write f bs) = True"
| "is_read_write c = False"

fun failed_write :: "os \<Rightarrow> call list \<Rightarrow> call \<Rightarrow> bool" where
  "failed_write os before (Write f bs) = (os_write os before f bs \<noteq> Inr (length bs))"
| "failed_write os before c = False"

fun write_failure :: "os \<Rightarrow> call list \<Rightarrow> call list \<Rightarrow> bool" where
  "write_failure os before [] = False"
| "write_failure os before (c # cs) =
     (failed_write os before c \<or> write_failure os (before @ [c]) cs)"

text \<open>
  What the system does in a copy loop, told from its answers alone. \<open>chunk_calls\<close> are
  the calls of a loop that reads the pieces \<open>chunks\<close> from one descriptor and writes
  each to the other. \<open>copies_chunks os n src_fd dst_fd chunks cs\<close>: after the calls
  \<open>cs\<close>, successive reads of at most \<open>n\<close> bytes deliver the pieces \<open>chunks\<close>, none
  of them empty, and each is written in full.
\<close>

fun chunk_calls :: "fd \<Rightarrow> fd \<Rightarrow> string list \<Rightarrow> call list" where
  "chunk_calls src_fd dst_fd [] = []"
| "chunk_calls src_fd dst_fd (b # bs) = Read src_fd # Write dst_fd b # chunk_calls src_fd dst_fd bs"

fun copies_chunks :: "os \<Rightarrow> nat \<Rightarrow> fd \<Rightarrow> fd \<Rightarrow> string list \<Rightarrow> call list \<Rightarrow> bool" where
  "copies_chunks os n src_fd dst_fd [] cs = True"
| "copies_chunks os n src_fd dst_fd (b # bs) cs =
     (b \<noteq> [] \<and> os_read os cs src_fd n = Inr b \<and>
      os_write os (cs @ [Read src_fd]) dst_fd b = Inr (length b) \<and>
      copies_chunks os n src_fd dst_fd bs (cs @ [Read src_fd, Write dst_fd b]))"

text \<open>
  The calls of a copy of the bytes of \<open>src\<close> into \<open>dst\<close>: opening \<open>src\<close> for
  reading, opening \<open>dst\<close> with \<^verbatim>\<open>O_WRONLY | O_CREAT | O_TRUNC\<close>, reads, writes,
  closes, and the two calls that set times and owner.
\<close>

fun is_copy_call :: "path \<Rightarrow> path \<Rightarrow> call \<Rightarrow> bool" where
  "is_copy_call src dst (Open p fl m) =
     ((p = src \<and> fl = O_RDONLY) \<or> (p = dst \<and> fl = O_WRONLY_CREAT_TRUNC))"
| "is_copy_call src dst (Read f) = True"
| "is_copy_call src dst (Write f bs) = True"
| "is_copy_call src dst (Close f) = True"
| "is_copy_call src dst (Futimens f a m) = True"
| "is_copy_call src dst (Fchown f u g) = True"
| "is_copy_call src dst c = False"

text \<open>
  What the copy loop of \<open>copy_file\<close> has done when it returns \<open>y\<close>, and what the
  loop that clears the input has done when it returns.
\<close>

definition cp_copied :: "os \<Rightarrow> path \<Rightarrow> fd \<Rightarrow> fd \<Rightarrow> state \<Rightarrow> bool \<times> state \<Rightarrow> bool" where
  "cp_copied os dst src_fd dst_fd s y =
     (\<exists>rw. calls (snd y) = calls s @ rw @ (if fst y then [] else [Close src_fd, Close dst_fd]) \<and>
           (\<forall>c\<in>set rw. is_read_write c) \<and>
           write_failure os (calls s) rw = (\<not> fst y) \<and>
           out (snd y) = out s \<and> inp (snd y) = inp s \<and>
           err (snd y) = err s @ (if fst y then []
                                  else ''Error: Write failed for '' @ quoted dst @ '': ''
                                       @ strerror (errno (snd y)) @ ''\<newline>''))"

definition input_cleared :: "state \<Rightarrow> state \<Rightarrow> bool" where
  "input_cleared s s' =
     (CHR 0x0A \<in> set (inp s) \<and> calls s' = calls s \<and> out s' = out s \<and> err s' = err s \<and>
      errno s' = errno s)"

text \<open>
  The lines that \<open>cp\<close> prints about a path, and the four of them with which
  \<open>copy_file\<close> gives up: each names the source or the destination.
\<close>

definition error_line :: "string \<Rightarrow> path \<Rightarrow> errno_code \<Rightarrow> string" where
  "error_line what p e = ''Error: '' @ what @ '' '' @ quoted p @ '': '' @ strerror e @ ''\<newline>''"

definition copy_file_error :: "path \<Rightarrow> path \<Rightarrow> string \<Rightarrow> bool" where
  "copy_file_error src dst m =
     (\<exists>e. m = error_line ''Cannot stat source file'' src e \<or>
          m = error_line ''Cannot open source file'' src e \<or>
          m = error_line ''Cannot create destination file'' dst e \<or>
          m = error_line ''Write failed for'' dst e)"

text \<open>
  What \<open>copy_file\<close> has done when it returns \<open>y\<close>: its calls are those of a copy of
  bytes, it has only added to the diagnostics, and when it returns -1 what it added is
  one of the lines above.
\<close>

definition file_copied :: "path \<Rightarrow> path \<Rightarrow> state \<Rightarrow> int \<times> state \<Rightarrow> bool" where
  "file_copied src dst s y =
     (\<exists>new. calls (snd y) = calls s @ new \<and> (\<forall>c\<in>set new. is_copy_call src dst c) \<and>
            (fst y = 0 \<or> fst y = - 1) \<and>
            (\<exists>w. err (snd y) = err s @ w) \<and>
            (fst y = - 1 \<longrightarrow> (\<exists>m. copy_file_error src dst m \<and> err (snd y) = err s @ m)))"

text \<open>
  What \<open>copy_directory\<close> and its loop have printed when they return \<open>y\<close>. A path
  is \<open>below\<close> a directory when it starts with the name of the directory (cut to the
  length \<open>snprintf_path\<close> keeps). When the result is -1, the last line printed is an
  error line about a path below the source or the destination directory.
\<close>

definition below :: "path \<Rightarrow> path \<Rightarrow> bool" where
  "below dir p = prefix (take (PATH_MAX - 1) dir) p"

fun cp_task_src :: "cp_task \<Rightarrow> path" where
  "cp_task_src (CopyDir src dst) = src"
| "cp_task_src (CopyEntries src dst names) = src"

fun cp_task_dst :: "cp_task \<Rightarrow> path" where
  "cp_task_dst (CopyDir src dst) = dst"
| "cp_task_dst (CopyEntries src dst names) = dst"

definition walk_reported :: "path \<Rightarrow> path \<Rightarrow> state \<Rightarrow> int \<times> state \<Rightarrow> bool" where
  "walk_reported src dst s y =
     ((\<exists>w. err (snd y) = err s @ w) \<and>
      (fst y = - 1 \<longrightarrow>
         (\<exists>earlier what p e. err (snd y) = err s @ earlier @ error_line what p e \<and>
                             (below src p \<or> below dst p))))"

text \<open>A \<^verbatim>\<open>read\<close> that ends a copy loop: it returns 0 or -1.\<close>

fun no_more_data :: "errno_code + string \<Rightarrow> bool" where
  "no_more_data (Inl e) = True"
| "no_more_data (Inr bs) = (bs = [])"

section \<open>Concrete environments\<close>

text \<open>
  Small operating systems on which the functions above are run. In \<open>os_empty\<close> no
  path exists and no descriptor is open; the others change the answers of \<open>os_empty\<close>
  for a few paths. Their \<open>libc_basename\<close> is right for names without a slash.
\<close>

definition st_regular :: "nat \<Rightarrow> stat_t" where
  \<comment> \<open>a regular file with mode 0644\<close>
  "st_regular ino = \<lparr>st_dev = 1, st_ino = ino, st_mode = 0x81A4, st_uid = 1000, st_gid = 1000,
                     st_atime = 0, st_mtime = 0\<rparr>"

definition st_directory :: "nat \<Rightarrow> stat_t" where
  \<comment> \<open>a directory with mode 0755\<close>
  "st_directory ino = \<lparr>st_dev = 1, st_ino = ino, st_mode = 0x41ED, st_uid = 1000, st_gid = 1000,
                       st_atime = 0, st_mtime = 0\<rparr>"

definition os_empty :: os where
  "os_empty =
     \<lparr>os_stat = (\<lambda>cs p. Inl ENOENT),
      os_lstat = (\<lambda>cs p. Inl ENOENT),
      os_access = (\<lambda>cs p m. Some ENOENT),
      os_rename = (\<lambda>cs p q. Some ENOENT),
      os_open = (\<lambda>cs p fl m. Inl ENOENT),
      os_read = (\<lambda>cs f n. Inl EBADF),
      os_write = (\<lambda>cs f bs. Inl EBADF),
      os_unlink = (\<lambda>cs p. Some ENOENT),
      os_remove = (\<lambda>cs p. Some ENOENT),
      os_mkdir = (\<lambda>cs p m. Some ENOENT),
      os_futimens = (\<lambda>cs f a m. Some EBADF),
      os_fchown = (\<lambda>cs f u g. Some EBADF),
      os_opendir = (\<lambda>cs p. Inl ENOENT),
      os_nftw = (\<lambda>cs p. Inl ENOENT),
      libc_basename = (\<lambda>p. (p, p)),
      libc_basename_offset = (\<lambda>p. Some 0)\<rparr>"

text \<open>Two names \<^verbatim>\<open>a\<close> and \<^verbatim>\<open>b\<close> of one file.\<close>

definition os_hard_links :: os where
  "os_hard_links =
     os_empty\<lparr>os_stat := (\<lambda>cs p. if p = ''a'' \<or> p = ''b'' then Inr (st_regular 7) else Inl ENOENT),
              os_access := (\<lambda>cs p m. if p = ''a'' \<or> p = ''b'' then None else Some ENOENT)\<rparr>"

text \<open>A directory \<^verbatim>\<open>d\<close> that holds the file \<^verbatim>\<open>a\<close>.\<close>

definition os_file_in_directory :: os where
  "os_file_in_directory =
     os_empty\<lparr>os_stat := (\<lambda>cs p. if p = ''d'' then Inr (st_directory 20)
                               else if p = ''d/a'' then Inr (st_regular 21)
                               else Inl ENOENT),
              os_access := (\<lambda>cs p m. if p = ''d'' \<or> p = ''d/a'' then None else Some ENOENT),
              libc_basename := (\<lambda>p. if p = ''d/a'' then (''a'', ''d/a'') else (p, p)),
              libc_basename_offset := (\<lambda>p. if p = ''d/a'' then Some 2 else Some 0)\<rparr>"

text \<open>Two files \<^verbatim>\<open>/tmp/x\<close>, \<^verbatim>\<open>/tmp/y\<close> and a regular file \<^verbatim>\<open>/tmp/target\<close>.\<close>

definition os_target_file :: os where
  "os_target_file =
     os_empty\<lparr>os_stat := (\<lambda>cs p. if p = ''/tmp/x'' then Inr (st_regular 11)
                               else if p = ''/tmp/y'' then Inr (st_regular 12)
                               else if p = ''/tmp/target'' then Inr (st_regular 13)
                               else Inl ENOENT),
              os_access := (\<lambda>cs p m. if p = ''/tmp/x'' \<or> p = ''/tmp/y'' \<or> p = ''/tmp/target''
                                      then None else Some ENOENT)\<rparr>"

text \<open>A file \<^verbatim>\<open>a\<close> in a directory in which nothing may be renamed.\<close>

definition os_rename_denied :: os where
  "os_rename_denied =
     os_empty\<lparr>os_stat := (\<lambda>cs p. if p = ''a'' then Inr (st_regular 7) else Inl ENOENT),
              os_access := (\<lambda>cs p m. if p = ''a'' then None else Some ENOENT),
              os_rename := (\<lambda>cs p q. Some EACCES)\<rparr>"



text \<open>
  The root directory, a directory \<^verbatim>\<open>d\<close> with the files \<^verbatim>\<open>d/a\<close> (which may not
  be removed) and \<^verbatim>\<open>d/b\<close>, and a file \<^verbatim>\<open>f\<close>.
\<close>

definition os_rm_tree :: os where
  "os_rm_tree =
     os_empty\<lparr>os_lstat := (\<lambda>cs p. if p = ''/'' then Inr (st_directory 2)
                                else if p = ''d'' then Inr (st_directory 20)
                                else if p = ''d/a'' then Inr (st_regular 21)
                                else if p = ''d/b'' then Inr (st_regular 22)
                                else if p = ''f'' then Inr (st_regular 23)
                                else Inl ENOENT),
              os_nftw := (\<lambda>cs p. if p = ''d'' then Inr [''d/a'', ''d/b'', ''d''] else Inl ENOENT),
              os_remove := (\<lambda>cs p. if p = ''d/a'' then Some EACCES
                                    else if p = ''d/b'' \<or> p = ''f'' then None
                                    else if p = ''d'' then Some ENOTEMPTY
                                    else Some ENOENT)\<rparr>"

text \<open>
  A directory \<^verbatim>\<open>src\<close> with the files \<^verbatim>\<open>a\<close> (which may not be opened) and
  \<^verbatim>\<open>b\<close>, and a directory \<^verbatim>\<open>lnk\<close> with the symbolic link \<^verbatim>\<open>l\<close> to a file that
  holds the two bytes \<^verbatim>\<open>hi\<close>; also the files \<^verbatim>\<open>x\<close> (which may not be opened) and
  \<^verbatim>\<open>y\<close>. Nothing exists at the destinations.
\<close>

definition st_symlink :: "nat \<Rightarrow> stat_t" where
  \<comment> \<open>a symbolic link, mode 0777\<close>
  "st_symlink ino = \<lparr>st_dev = 1, st_ino = ino, st_mode = 0xA1FF, st_uid = 1000, st_gid = 1000,
                     st_atime = 0, st_mtime = 0\<rparr>"

definition os_cp_tree :: os where
  "os_cp_tree =
     os_empty\<lparr>os_stat := (\<lambda>cs p. if p = ''src'' then Inr (st_directory 30)
                               else if p = ''src/a'' then Inr (st_regular 31)
                               else if p = ''src/b'' then Inr (st_regular 32)
                               else if p = ''lnk'' then Inr (st_directory 40)
                               else if p = ''lnk/l'' then Inr (st_regular 41)
                               else if p = ''x'' then Inr (st_regular 50)
                               else if p = ''y'' then Inr (st_regular 51)
                               else Inl ENOENT),
              os_lstat := (\<lambda>cs p. if p = ''src'' then Inr (st_directory 30)
                               else if p = ''src/a'' then Inr (st_regular 31)
                               else if p = ''src/b'' then Inr (st_regular 32)
                               else if p = ''lnk'' then Inr (st_directory 40)
                               else if p = ''lnk/l'' then Inr (st_symlink 42)
                               else Inl ENOENT),
              os_opendir := (\<lambda>cs p. if p = ''src'' then Inr [''.'', ''..'', ''a'', ''b'']
                                  else if p = ''lnk'' then Inr [''.'', ''..'', ''l'']
                                  else Inl ENOENT),
              os_mkdir := (\<lambda>cs p m. None),
              os_open := (\<lambda>cs p fl m. if fl = O_WRONLY_CREAT_TRUNC then Inr 4
                                       else if p = ''src/a'' \<or> p = ''x'' then Inl EACCES
                                       else if p = ''src/b'' \<or> p = ''lnk/l'' \<or> p = ''y'' then Inr 3
                                       else Inl ENOENT),
              os_read := (\<lambda>cs f n. if f = 3 then (if Read 3 \<notin> set cs then Inr ''hi'' else Inr [])
                                    else Inl EBADF),
              os_write := (\<lambda>cs f bs. if f = 4 then Inr (length bs) else Inl EBADF)\<rparr>"

text \<open>
  The same with symbolic links of other kinds: \<^verbatim>\<open>dl\<close>, a link to the directory
  \<^verbatim>\<open>lnk\<close>; \<^verbatim>\<open>lnk/dangling\<close>, a link to nothing; and \<^verbatim>\<open>lnk/ld\<close>, a link to
  the directory \<^verbatim>\<open>src\<close>, which can be opened for reading and whose \<^verbatim>\<open>read\<close>
  fails with \<open>EISDIR\<close>.
\<close>

definition os_cp_links :: os where
  "os_cp_links =
     os_cp_tree\<lparr>os_stat := (\<lambda>cs p. if p = ''dl'' then Inr (st_directory 40)
                                 else if p = ''dl/l'' then Inr (st_regular 41)
                                 else if p = ''lnk/ld'' then Inr (st_directory 30)
                                 else os_stat os_cp_tree cs p),
                os_lstat := (\<lambda>cs p. if p = ''dl'' then Inr (st_symlink 43)
                                  else if p = ''dl/l'' then Inr (st_symlink 42)
                                  else if p = ''lnk/dangling'' then Inr (st_symlink 44)
                                  else if p = ''lnk/ld'' then Inr (st_symlink 45)
                                  else os_lstat os_cp_tree cs p),
                os_opendir := (\<lambda>cs p. if p = ''dl'' then Inr [''.'', ''..'', ''l'']
                                    else os_opendir os_cp_tree cs p),
                os_open := (\<lambda>cs p fl m. if fl = O_RDONLY \<and> p = ''dl/l'' then Inr 3
                                         else if fl = O_RDONLY \<and> p = ''lnk/ld'' then Inr 5
                                         else os_open os_cp_tree cs p fl m),
                os_read := (\<lambda>cs f n. if f = 5 then Inl EISDIR else os_read os_cp_tree cs f n)\<rparr>"

text \<open>Two files \<^verbatim>\<open>a\<close> and \<^verbatim>\<open>b\<close>.\<close>

definition os_two_files :: os where
  "os_two_files =
     os_empty\<lparr>os_stat := (\<lambda>cs p. if p = ''a'' then Inr (st_regular 7)
                               else if p = ''b'' then Inr (st_regular 8) else Inl ENOENT),
              os_access := (\<lambda>cs p m. if p = ''a'' \<or> p = ''b'' then None else Some ENOENT)\<rparr>"

text \<open>
  Options of the runs below, and the state that \<open>copy_file\<close> leaves when the source
  \<open>p\<close> may not be opened and nothing was called or printed before.
\<close>

definition cp_opts_recursive :: CopyOptions where
  "cp_opts_recursive = CopyOptions0\<lparr>cp_recursive := True\<rparr>"

definition rm_opts_recursive :: rm_options where
  "rm_opts_recursive = rm_options0\<lparr>rm_recursive := True\<rparr>"

definition rm_opts_forced :: rm_options where
  "rm_opts_forced = rm_options0\<lparr>rm_recursive := True, rm_force := True\<rparr>"

definition state_open_denied :: "path \<Rightarrow> state" where
  "state_open_denied p =
     \<lparr>calls = [Open p O_RDONLY 0], errno = EACCES, inp = [], out = [],
      err = ''Error: Cannot open source file '' @ quoted p @ '': Permission denied\<newline>''\<rparr>"

text \<open>
  The state that \<^verbatim>\<open>cp -r src dst\<close> leaves when \<^verbatim>\<open>src/a\<close> may not be opened.
\<close>

definition state_entry_denied :: state where
  "state_entry_denied =
     \<lparr>calls = [Mkdir ''dst'' 0x1FF, Open ''src/a'' O_RDONLY 0], errno = EACCES, inp = [], out = [],
      err = ''Error: Cannot open source file '' @ quoted ''src/a'' @ '': Permission denied\<newline>''\<rparr>"

text \<open>The calls of \<open>copy_file\<close> on the entry \<^verbatim>\<open>l\<close> of \<^verbatim>\<open>lnk\<close>.\<close>

definition calls_copy_link :: "call list" where
  "calls_copy_link =
     [Open ''lnk/l'' O_RDONLY 0, Open ''dst/l'' O_WRONLY_CREAT_TRUNC 0x1B6, Read 3,
      Write 4 ''hi'', Read 3, Close 3, Close 4]"

section \<open>Properties of mv\<close>

lemma mv_last_choice_Cons:
  "mv_last_choice (c # cs) =
     (case mv_last_choice cs of
        Some d \<Rightarrow> Some d
      | None \<Rightarrow> if c = CHR ''f'' \<or> c = CHR ''i'' \<or> c = CHR ''n'' then Some c else None)"
  by (simp add: mv_last_choice_def Let_def)

lemma mv_parse_options_flags:
  "mv_parse_options prog cs fl0 s = Inr (fl, s') \<Longrightarrow>
     force_flag fl = (case mv_last_choice cs of None \<Rightarrow> force_flag fl0 | Some c \<Rightarrow> c = CHR ''f'') \<and>
     interactive_flag fl = (case mv_last_choice cs of None \<Rightarrow> interactive_flag fl0 | Some c \<Rightarrow> c = CHR ''i'') \<and>
     no_clobber_flag fl = (case mv_last_choice cs of None \<Rightarrow> no_clobber_flag fl0 | Some c \<Rightarrow> c = CHR ''n'')"
proof (induction cs arbitrary: fl0)
  case Nil
  then show ?case by (simp add: mv_last_choice_def)
next
  case (Cons c cs)
  show ?case
  proof (cases "mv_last_choice cs")
    case None
    with Cons.prems Cons.IH show ?thesis
      by (auto simp add: mv_last_choice_Cons split: if_splits)
  next
    case (Some d)
    with Cons.prems Cons.IH show ?thesis
      by (auto simp add: mv_last_choice_Cons split: if_splits)
  qed
qed

text \<open>
  C9. After the option loop of \<open>mv\<close> at most one of the flags force, interactive and
  no-clobber is set, and the flag that is set is the one of the last of \<^verbatim>\<open>-f\<close>,
  \<^verbatim>\<open>-i\<close>, \<^verbatim>\<open>-n\<close> among the options given.
\<close>

theorem mv_options_exclusive:
  assumes "mv_parse_options prog cs mv_flags0 s = Inr (fl, s')"
  shows "\<not> (force_flag fl \<and> interactive_flag fl) \<and>
         \<not> (force_flag fl \<and> no_clobber_flag fl) \<and>
         \<not> (interactive_flag fl \<and> no_clobber_flag fl) \<and>
         force_flag fl = (mv_last_choice cs = Some (CHR ''f'')) \<and>
         interactive_flag fl = (mv_last_choice cs = Some (CHR ''i'')) \<and>
         no_clobber_flag fl = (mv_last_choice cs = Some (CHR ''n''))"
  using mv_parse_options_flags[OF assms]
  by (auto simp add: mv_flags0_def split: option.splits)

theorem mv_options_exclusive_witness:
  "mv_parse_options ''mv'' ''fvin'' mv_flags0 state0 =
     Inr (\<lparr>force_flag = False, interactive_flag = False, verbose_flag = True,
           no_clobber_flag = True\<rparr>, state0) \<and>
   mv_last_choice ''fvin'' = Some (CHR ''n'')"
  using mv_options_exclusive[of "''mv''" "''fvin''" state0
      "\<lparr>force_flag = False, interactive_flag = False, verbose_flag = True, no_clobber_flag = True\<rparr>" state0]
  by (simp add: mv_flags0_def mv_last_choice_def)

lemma mv_parse_options_state:
  "mv_parse_options prog cs fl0 s = Inr (fl, s') \<Longrightarrow> s' = s"
  by (induction cs arbitrary: fl0) (auto split: if_splits)

text \<open>
  When the source exists, \<^verbatim>\<open>free(base)\<close> is given the start of the duplicate and
  \<^verbatim>\<open>stat\<close> gives the source and the final destination the same device and inode
  numbers, \<open>mv\<close> prints the same-file message for the pair, issues no call that
  changes anything, and goes on with the next source.
\<close>

lemma mv_same_file_refused:
  assumes "os_access os (calls s) source F_OK = None"
    and "dest_is_dir \<Longrightarrow> libc_basename_offset os source = Some 0"
    and "os_stat os (calls s) source = Inr src_stat"
    and "os_stat os (calls s) (mv_final_dest os dest dest_is_dir source) = Inr dst_stat"
    and "st_dev src_stat = st_dev dst_stat" and "st_ino src_stat = st_ino dst_stat"
  shows "mv_sources os fl dest dest_is_dir (source # rest) s =
           mv_sources os fl dest dest_is_dir rest
             (eprintf (''mv: '' @ quoted source @ '' and ''
                       @ quoted (mv_final_dest os dest dest_is_dir source)
                       @ '' are the same file\<newline>'') s)
         \<and> calls (eprintf (''mv: '' @ quoted source @ '' and ''
                       @ quoted (mv_final_dest os dest dest_is_dir source)
                       @ '' are the same file\<newline>'') s) = calls s"
  using assms
  by (cases dest_is_dir)
     (simp_all add: mv_source_def mv_checked_source_def free_base_def sys_access_def
        check_same_file_def sys_stat_def eprintf_def)

lemma mv_same_file_refused_run:
  "mv_sources os_hard_links mv_flags0 ''b'' False [''a'', ''c''] state0 =
     Some (Inr (state0\<lparr>errno := ENOENT,
       err := ''mv: '' @ quoted ''a'' @ '' and '' @ quoted ''b'' @ '' are the same file\<newline>''
              @ ''mv: cannot stat '' @ quoted ''c'' @ '': No such file or directory\<newline>''\<rparr>))"
proof -
  have a: "os_access os_hard_links (calls state0) ''a'' F_OK = None"
    by (simp add: os_hard_links_def os_empty_def)
  have b: "os_stat os_hard_links (calls state0) ''a'' = Inr (st_regular 7)"
    by (simp add: os_hard_links_def os_empty_def)
  have c: "os_stat os_hard_links (calls state0) (mv_final_dest os_hard_links ''b'' False ''a'')
             = Inr (st_regular 7)"
    by (simp add: os_hard_links_def os_empty_def mv_final_dest_def)
  from mv_same_file_refused[OF a _ b c refl refl, of mv_flags0 "[''c'']"]
  show ?thesis
    by (simp add: mv_final_dest_def mv_source_def sys_access_def os_hard_links_def os_empty_def
        eprintf_def state0_def)
qed

text \<open>
  C6. A source and an existing destination that are the same file are to get the
  same-file diagnostic, and \<open>mv\<close> is to go on with the next source. With \<^verbatim>\<open>mv d/a d\<close>,
  \<^verbatim>\<open>d\<close> a directory that holds the file \<^verbatim>\<open>a\<close>, the final destination is the source
  itself; \<open>mv\<close> ends in \<^verbatim>\<open>free(base)\<close> before it compares the two, with the message
  of the C library as its only output.
\<close>

theorem mv_same_file_in_directory_aborts:
  "mv_main os_file_in_directory ''mv'' [] [''d/a'', ''d''] state0 =
     Some (ABORT_STATUS, state0\<lparr>err := ''free(): invalid pointer\<newline>''\<rparr>) \<and>
   mv_final_dest os_file_in_directory ''d'' True ''d/a'' = ''d/a'' \<and>
   os_access os_file_in_directory [] ''d/a'' F_OK = None \<and>
   os_stat os_file_in_directory [] ''d/a'' = Inr (st_regular 21)"
  by (simp add: mv_main_def mv_source_def free_base_def mv_final_dest_def sys_stat_def
      sys_access_def os_file_in_directory_def os_empty_def st_directory_def S_ISDIR_def
      S_IFMT_def S_IFDIR_def eprintf_def state0_def mv_flags0_def Let_def)

lemma cp_parse_args_state:
  "cp_parse_args prog args opts0 s = Inr (opts, operands, s') \<Longrightarrow> s' = s"
  by (induction args arbitrary: opts0) (auto split: if_splits sum.splits)

text \<open>
  C5. With more than two operands (more than one source) and a last operand that
  \<^verbatim>\<open>stat\<close> does not report as a directory, \<open>mv\<close> and \<open>cp\<close> print their
  not-a-directory message and end with status 1 without having issued one call that
  changes anything.
\<close>

theorem multiple_sources_need_directory:
  "(mv_parse_options prog optcodes mv_flags0 s = Inr (fl, s1) \<and> length operands > 2 \<and>
    \<not> (\<exists>st. os_stat os (calls s) (last operands) = Inr st \<and> S_ISDIR (st_mode st))
    \<longrightarrow> (\<exists>s'. mv_main os prog optcodes operands s = Some (EXIT_FAILURE, s') \<and>
              calls s' = calls s \<and> out s' = out s \<and>
              err s' = err s @ ''mv: target '' @ quoted (last operands)
                               @ '' is not a directory\<newline>'')) \<and>
   (cp_parse_args cprog args CopyOptions0 t = Inr (opts, cp_operands, t1) \<and>
    length cp_operands > 2 \<and>
    \<not> (\<exists>st. os_stat os (calls t) (last cp_operands) = Inr st \<and> S_ISDIR (st_mode st))
    \<longrightarrow> (\<exists>t'. cp_main os cprog args t = Some (1, t') \<and>
              calls t' = calls t \<and> out t' = out t \<and>
              err t' = err t @ ''Error: Target '' @ quoted (last cp_operands)
                               @ '' is not a directory\<newline>''))"
proof (intro conjI impI)
  assume h: "mv_parse_options prog optcodes mv_flags0 s = Inr (fl, s1) \<and> length operands > 2 \<and>
    \<not> (\<exists>st. os_stat os (calls s) (last operands) = Inr st \<and> S_ISDIR (st_mode st))"
  then have s1: "s1 = s" using mv_parse_options_state by blast
  show "\<exists>s'. mv_main os prog optcodes operands s = Some (EXIT_FAILURE, s') \<and>
              calls s' = calls s \<and> out s' = out s \<and>
              err s' = err s @ ''mv: target '' @ quoted (last operands)
                               @ '' is not a directory\<newline>''"
  proof (cases "os_stat os (calls s) (last operands)")
    case (Inl e)
    with h s1 show ?thesis
      by (simp add: mv_main_def sys_stat_def eprintf_def Let_def)
  next
    case (Inr st)
    with h have "\<not> S_ISDIR (st_mode st)" by simp
    with h s1 Inr show ?thesis
      by (simp add: mv_main_def sys_stat_def eprintf_def Let_def)
  qed
next
  assume h: "cp_parse_args cprog args CopyOptions0 t = Inr (opts, cp_operands, t1) \<and>
    length cp_operands > 2 \<and>
    \<not> (\<exists>st. os_stat os (calls t) (last cp_operands) = Inr st \<and> S_ISDIR (st_mode st))"
  then have t1: "t1 = t" using cp_parse_args_state by blast
  show "\<exists>t'. cp_main os cprog args t = Some (1, t') \<and>
              calls t' = calls t \<and> out t' = out t \<and>
              err t' = err t @ ''Error: Target '' @ quoted (last cp_operands)
                               @ '' is not a directory\<newline>''"
  proof (cases "os_stat os (calls t) (last cp_operands)")
    case (Inl e)
    with h t1 show ?thesis
      by (simp add: cp_main_def sys_stat_def eprintf_def Let_def)
  next
    case (Inr st)
    with h have "\<not> S_ISDIR (st_mode st)" by simp
    with h t1 Inr show ?thesis
      by (simp add: cp_main_def sys_stat_def eprintf_def Let_def)
  qed
qed

theorem multiple_sources_need_directory_witness:
  "mv_main os_target_file ''mv'' [] [''/tmp/x'', ''/tmp/y'', ''/tmp/target''] state0 =
     Some (EXIT_FAILURE,
           state0\<lparr>err := ''mv: target '' @ quoted ''/tmp/target'' @ '' is not a directory\<newline>''\<rparr>) \<and>
   cp_main os_target_file ''cp'' [''/tmp/x'', ''/tmp/y'', ''/tmp/target''] state0 =
     Some (1,
           state0\<lparr>err := ''Error: Target '' @ quoted ''/tmp/target'' @ '' is not a directory\<newline>''\<rparr>)"
proof -
  have nd: "\<not> (\<exists>st. os_stat os_target_file (calls state0) (last [''/tmp/x'', ''/tmp/y'', ''/tmp/target'']) = Inr st
              \<and> S_ISDIR (st_mode st))"
    by (simp add: os_target_file_def os_empty_def st_regular_def S_ISDIR_def S_IFMT_def S_IFDIR_def)
  have mp: "mv_parse_options ''mv'' [] mv_flags0 state0 = Inr (mv_flags0, state0)" by simp
  have cpa: "cp_parse_args ''cp'' [''/tmp/x'', ''/tmp/y'', ''/tmp/target''] CopyOptions0 state0
             = Inr (CopyOptions0, [''/tmp/x'', ''/tmp/y'', ''/tmp/target''], state0)" by simp
  from multiple_sources_need_directory[of "''mv''" "[]" state0 mv_flags0 state0
      "[''/tmp/x'', ''/tmp/y'', ''/tmp/target'']" os_target_file
      "''cp''" "[''/tmp/x'', ''/tmp/y'', ''/tmp/target'']" state0 CopyOptions0
      "[''/tmp/x'', ''/tmp/y'', ''/tmp/target'']" state0]
    nd mp cpa
  show ?thesis
    by (simp add: mv_main_def cp_main_def sys_stat_def os_target_file_def os_empty_def
        st_regular_def S_ISDIR_def S_IFMT_def S_IFDIR_def eprintf_def state0_def
        CopyOptions0_def Let_def)
qed

text \<open>
  C1. The exit status is to be non-zero when a failure was reported. \<open>mv\<close> of an
  existing file \<^verbatim>\<open>a\<close> to \<^verbatim>\<open>b\<close> whose rename is refused prints that it failed
  to move \<^verbatim>\<open>a\<close> and ends with \<open>EXIT_SUCCESS\<close>.
\<close>

theorem mv_failed_move_exits_successfully:
  "mv_main os_rename_denied ''mv'' [] [''a'', ''b''] state0 =
     Some (EXIT_SUCCESS,
           \<lparr>calls = [Rename ''a'' ''b''], errno = EACCES, inp = [], out = [],
            err = ''mv: rename failed: Permission denied\<newline>''
                  @ ''mv: failed to move '' @ quoted ''a'' @ '' to '' @ quoted ''b'' @ ''\<newline>''\<rparr>)"
  by (simp add: mv_main_def mv_source_def mv_checked_source_def mv_do_move_def move_file_def
      mv_final_dest_def check_same_file_def sys_stat_def sys_access_def sys_rename_def
      perror_def eprintf_def os_rename_denied_def os_empty_def state0_def mv_flags0_def Let_def)

lemma write_failure_append:
  "write_failure os before (xs @ ys) =
     (write_failure os before xs \<or> write_failure os (before @ xs) ys)"
  by (induction xs arbitrary: before) auto







section \<open>Properties of rm\<close>

lemma rm_operand_failure_kept:
  "fst (rm_operand os opts p (EXIT_FAILURE, s)) = EXIT_FAILURE"
  by (simp add: rm_operand_def split: prod.splits option.splits)

lemma rm_operands_failure_kept:
  "fst es = EXIT_FAILURE \<Longrightarrow> fst (rm_operands os opts ps es) = EXIT_FAILURE"
proof (induction ps arbitrary: es)
  case Nil
  then show ?case by simp
next
  case (Cons p ps)
  obtain e s where es: "es = (e, s)" by (cases es)
  with Cons.prems have "fst (rm_operand os opts p es) = EXIT_FAILURE"
    using rm_operand_failure_kept by simp
  from Cons.IH[OF this] show ?case by simp
qed

text \<open>
  C7 (as amended). For an operand that \<^verbatim>\<open>lstat\<close> reports as a directory, without
  the recursive option, \<open>rm\<close> issues no call that changes anything, prints a
  diagnostic and ends with \<open>EXIT_FAILURE\<close>. The diagnostic is the is-a-directory
  message, except for the operand \<^verbatim>\<open>/\<close> under root protection, where it is the
  message of the refusal to remove the root directory.
\<close>

theorem rm_directory_without_recursive:
  assumes "os_lstat os (calls s) p = Inr st" and "S_ISDIR (st_mode st)"
    and "\<not> rm_recursive opts"
  shows "\<exists>s'. rm_operand os opts p (e, s) = (EXIT_FAILURE, s') \<and>
           calls s' = calls s \<and> out s' = out s \<and>
           err s' = err s @
             (if rm_preserve_root opts \<and> \<not> rm_no_preserve_root opts \<and> p = ''/''
              then ''rm: refusing to remove root directory '' @ quoted ''/'' @ ''\<newline>''
              else ''rm: cannot remove '' @ quoted p @ '': Is a directory\<newline>'') \<and>
           fst (rm_operands os opts (p # rest) (e, s)) = EXIT_FAILURE"
proof -
  define msg where "msg =
             (if rm_preserve_root opts \<and> \<not> rm_no_preserve_root opts \<and> p = ''/''
              then ''rm: refusing to remove root directory '' @ quoted ''/'' @ ''\<newline>''
              else ''rm: cannot remove '' @ quoted p @ '': Is a directory\<newline>'')"
  have op: "rm_operand os opts p (e, s) = (EXIT_FAILURE, eprintf msg s)"
    using assms by (simp add: rm_operand_def sys_lstat_def msg_def)
  have "fst (rm_operands os opts (p # rest) (e, s)) = EXIT_FAILURE"
    using rm_operands_failure_kept[of "rm_operand os opts p (e, s)" os opts rest] op by simp
  with op show ?thesis
    unfolding msg_def[symmetric] by (intro exI[of _ "eprintf msg s"]) (simp add: eprintf_def)
qed

theorem rm_directory_without_recursive_witness:
  "rm_main os_rm_tree [] [''d'', ''f''] state0 =
     (EXIT_FAILURE,
      state0\<lparr>calls := [Remove ''f''],
             err := ''rm: cannot remove '' @ quoted ''d'' @ '': Is a directory\<newline>''\<rparr>)"
proof -
  have a: "os_lstat os_rm_tree (calls state0) ''d'' = Inr (st_directory 20)"
    by (simp add: os_rm_tree_def os_empty_def)
  have b: "S_ISDIR (st_mode (st_directory 20))"
    by (simp add: st_directory_def S_ISDIR_def S_IFMT_def S_IFDIR_def)
  have c: "\<not> rm_recursive rm_options0" by (simp add: rm_options0_def)
  from rm_directory_without_recursive[OF a b c, of EXIT_SUCCESS "[''f'']"]
  show ?thesis
    by (simp add: rm_main_def rm_operand_def remove_file_def rm_remove_path_def sys_lstat_def
        sys_remove_def os_rm_tree_def os_empty_def st_directory_def st_regular_def S_ISDIR_def
        S_IFMT_def S_IFDIR_def rm_options0_def eprintf_def state0_def EXIT_FAILURE_def
        EXIT_SUCCESS_def Let_def)
qed

text \<open>
  C7 (as stated). Every directory operand without the recursive option is to get the
  is-a-directory diagnostic. For \<^verbatim>\<open>rm /\<close> the only diagnostic is the refusal to
  remove the root directory.
\<close>

theorem rm_root_diagnostic:
  "rm_main os_rm_tree [] [''/''] state0 =
     (EXIT_FAILURE,
      state0\<lparr>err := ''rm: refusing to remove root directory '' @ quoted ''/'' @ ''\<newline>''\<rparr>) \<and>
   os_lstat os_rm_tree [] ''/'' = Inr (st_directory 2) \<and>
   S_ISDIR (st_mode (st_directory 2)) \<and>
   rm_parse_options [] rm_options0 state0 = Inr (rm_options0, state0) \<and>
   rm_recursive rm_options0 = False"
  by (simp add: rm_main_def rm_operand_def sys_lstat_def os_rm_tree_def os_empty_def
      st_directory_def S_ISDIR_def S_IFMT_def S_IFDIR_def rm_options0_def eprintf_def
      state0_def EXIT_FAILURE_def EXIT_SUCCESS_def)

section \<open>Properties of cp\<close>

text \<open>
  The equations of \<open>copy_directory\<close> and of its loop, one for each way through the
  loop body.
\<close>

lemma cp_walk_CopyDir:
  "cp_walk os opts (CopyDir src dst) s =
     (case sys_mkdir os dst 0x1FF s of
        (m, s1) \<Rightarrow>
          if m = - 1 \<and> errno s1 \<noteq> EEXIST then
            Some (- 1, eprintf (''Error: Cannot create directory '' @ quoted dst @ '': ''
                                @ strerror (errno s1) @ ''\<newline>'') s1)
          else
            (case sys_opendir os src s1 of
               (None, s2) \<Rightarrow>
                 Some (- 1, eprintf (''Error: Cannot open directory '' @ quoted src @ '': ''
                                     @ strerror (errno s2) @ ''\<newline>'') s2)
             | (Some names, s2) \<Rightarrow> cp_walk os opts (CopyEntries src dst names) s2))"
  by (subst cp_walk.simps) simp

lemma cp_walk_Nil: "cp_walk os opts (CopyEntries src dst []) s = Some (0, s)"
  by (subst cp_walk.simps) simp

lemma cp_walk_dot:
  "d_name = ''.'' \<or> d_name = ''..'' \<Longrightarrow>
   cp_walk os opts (CopyEntries src dst (d_name # rest)) s =
     cp_walk os opts (CopyEntries src dst rest) s"
  by (subst cp_walk.simps) simp

lemma cp_walk_lstat_fails:
  "d_name \<noteq> ''.'' \<Longrightarrow> d_name \<noteq> ''..'' \<Longrightarrow>
   os_lstat os (calls s) (snprintf_path src d_name) = Inl e \<Longrightarrow>
   cp_walk os opts (CopyEntries src dst (d_name # rest)) s =
     cp_walk os opts (CopyEntries src dst rest)
       (eprintf (''Error: Cannot stat '' @ quoted (snprintf_path src d_name) @ '': ''
                 @ strerror e @ ''\<newline>'') (s\<lparr>errno := e\<rparr>))"
  by (subst cp_walk.simps) (simp add: sys_lstat_def Let_def)

lemma cp_walk_directory_skipped:
  "d_name \<noteq> ''.'' \<Longrightarrow> d_name \<noteq> ''..'' \<Longrightarrow>
   os_lstat os (calls s) (snprintf_path src d_name) = Inr st \<Longrightarrow>
   S_ISDIR (st_mode st) \<Longrightarrow> \<not> cp_recursive opts \<Longrightarrow>
   cp_walk os opts (CopyEntries src dst (d_name # rest)) s =
     cp_walk os opts (CopyEntries src dst rest) s"
  by (subst cp_walk.simps) (simp add: sys_lstat_def Let_def)

lemma cp_walk_directory:
  "d_name \<noteq> ''.'' \<Longrightarrow> d_name \<noteq> ''..'' \<Longrightarrow>
   os_lstat os (calls s) (snprintf_path src d_name) = Inr st \<Longrightarrow>
   S_ISDIR (st_mode st) \<Longrightarrow> cp_recursive opts \<Longrightarrow>
   cp_walk os opts (CopyEntries src dst (d_name # rest)) s =
     (case copy_directory os opts (snprintf_path src d_name) (snprintf_path dst d_name) s of
        None \<Rightarrow> None
      | Some (r, s2) \<Rightarrow>
          if r = - 1 then Some (- 1, s2) else cp_walk os opts (CopyEntries src dst rest) s2)"
  by (subst cp_walk.simps)
     (simp add: sys_lstat_def Let_def copy_directory_def split: option.splits)

lemma cp_walk_other:
  "d_name \<noteq> ''.'' \<Longrightarrow> d_name \<noteq> ''..'' \<Longrightarrow>
   os_lstat os (calls s) (snprintf_path src d_name) = Inr st \<Longrightarrow>
   \<not> S_ISDIR (st_mode st) \<Longrightarrow>
   cp_walk os opts (CopyEntries src dst (d_name # rest)) s =
     (case copy_file os opts (snprintf_path src d_name) (snprintf_path dst d_name) s of
        None \<Rightarrow> None
      | Some (r, s2) \<Rightarrow>
          if r = - 1 then Some (- 1, s2) else cp_walk os opts (CopyEntries src dst rest) s2)"
  by (subst cp_walk.simps)
     (simp add: sys_lstat_def Let_def split: option.splits)

lemma cp_walk_failed_prefix:
  "cp_walk os opts (CopyEntries src dst pre) s = Some (- 1, s1) \<Longrightarrow>
   cp_walk os opts (CopyEntries src dst (pre @ post)) s = Some (- 1, s1)"
proof (induction pre arbitrary: s)
  case Nil
  then show ?case by (simp add: cp_walk_Nil)
next
  case (Cons d_name pre)
  show ?case
  proof (cases "d_name = ''.'' \<or> d_name = ''..''")
    case True
    with Cons show ?thesis by (simp add: cp_walk_dot)
  next
    case False
    then have nd: "d_name \<noteq> ''.''" "d_name \<noteq> ''..''" by simp_all
    show ?thesis
    proof (cases "os_lstat os (calls s) (snprintf_path src d_name)")
      case (Inl e)
      from Cons.prems Cons.IH show ?thesis
        by (simp add: cp_walk_lstat_fails[OF nd Inl])
    next
      case (Inr st)
      show ?thesis
      proof (cases "S_ISDIR (st_mode st)")
        case dir: True
        show ?thesis
        proof (cases "cp_recursive opts")
          case True
          from Cons.prems Cons.IH show ?thesis
            by (auto simp add: cp_walk_directory[OF nd Inr dir True] split: option.splits if_splits)
        next
          case False
          from Cons.prems Cons.IH show ?thesis
            by (simp add: cp_walk_directory_skipped[OF nd Inr dir False])
        qed
      next
        case False
        from Cons.prems Cons.IH show ?thesis
          by (auto simp add: cp_walk_other[OF nd Inr False] split: option.splits if_splits)
      qed
    qed
  qed
qed

lemma cp_sources_failed_prefix:
  "cp_sources os opts target pre s = Some (1, s1) \<Longrightarrow>
   cp_sources os opts target (pre @ post) s = Some (1, s1)"
proof (induction pre arbitrary: s)
  case Nil
  then show ?case by simp
next
  case (Cons arg pre)
  from Cons.prems Cons.IH show ?case
    by (auto simp add: Let_def split: prod.splits option.splits if_splits)
qed

lemma nftw_visit_failed_prefix:
  "fst (nftw_visit fn pre s) \<noteq> 0 \<Longrightarrow>
   nftw_visit fn (pre @ post) s = nftw_visit fn pre s"
  by (induction pre arbitrary: s) (auto split: prod.splits)

lemma cp_clear_input_returns:
  assumes "cp_clear_input s = Some s'"
  shows "input_cleared s s'"
proof (rule cp_clear_input.raw_induct[where P = input_cleared, OF _ assms])
  fix loop s s'
  assume IH: "\<And>s s'. loop s = Some s' \<Longrightarrow> input_cleared s s'"
    and step: "(case getchar s of
                  (c, s1) \<Rightarrow> if c \<noteq> Some (CHR 0x0A) then loop s1 else Some s1) = Some s'"
  show "input_cleared s s'"
  proof (cases "inp s")
    case Nil
    with step have "loop s = Some s'" by (simp add: getchar_def)
    from IH[OF this] Nil show ?thesis by (simp add: input_cleared_def)
  next
    case (Cons c cs)
    show ?thesis
    proof (cases "c = CHR 0x0A")
      case True
      with step Cons show ?thesis by (auto simp add: getchar_def input_cleared_def)
    next
      case False
      with step Cons have "loop (s\<lparr>inp := cs\<rparr>) = Some s'" by (simp add: getchar_def)
      from IH[OF this] Cons show ?thesis by (simp add: input_cleared_def)
    qed
  qed
qed

lemma cp_clear_input_end_of_input:
  "CHR 0x0A \<notin> set (inp s) \<Longrightarrow> cp_clear_input s = None"
  using cp_clear_input_returns[of s] by (cases "cp_clear_input s") (auto simp add: input_cleared_def)

lemma cp_copy_contents_calls:
  assumes "cp_copy_contents os dst src_fd dst_fd s = Some y"
  shows "cp_copied os dst src_fd dst_fd s y"
proof (rule cp_copy_contents.raw_induct[where P = cp_copied, OF _ assms])
  fix loop os dst src_fd dst_fd s y
  assume IH: "\<And>os dst src_fd dst_fd s y. loop os dst src_fd dst_fd s = Some y \<Longrightarrow>
                cp_copied os dst src_fd dst_fd s y"
  assume step: "(case sys_read os src_fd cp_BUFFER_SIZE s of
      ((bytes_read, buffer), s1) \<Rightarrow>
        if 0 < bytes_read
        then case sys_write os dst_fd buffer s1 of
             (bytes_written, s2) \<Rightarrow>
               if bytes_written \<noteq> bytes_read
               then Some (False,
                         sys_close dst_fd (sys_close src_fd
                           (eprintf (''Error: Write failed for '' @ quoted dst @ '': ''
                                     @ strerror (errno s2) @ ''\<newline>'') s2)))
               else loop os dst src_fd dst_fd s2
        else Some (True, s1)) = Some y"
  obtain bytes_read buffer s1 where rd: "sys_read os src_fd cp_BUFFER_SIZE s = ((bytes_read, buffer), s1)"
    by (metis surj_pair)
  have s1: "calls s1 = calls s @ [Read src_fd]" "out s1 = out s" "inp s1 = inp s" "err s1 = err s"
    using rd by (auto simp add: sys_read_def Let_def split: sum.splits)
  show "cp_copied os dst src_fd dst_fd s y"
  proof (cases "0 < bytes_read")
    case False
    with step rd have y: "y = (True, s1)" by simp
    show ?thesis unfolding cp_copied_def
      by (rule exI[of _ "[Read src_fd]"]) (simp add: y s1)
  next
    case True
    then have br: "bytes_read = int (length buffer)"
      using rd by (auto simp add: sys_read_def Let_def split: sum.splits)
    obtain bytes_written s2 where wr: "sys_write os dst_fd buffer s1 = (bytes_written, s2)"
      by (metis surj_pair)
    have s2: "calls s2 = calls s @ [Read src_fd, Write dst_fd buffer]"
      "out s2 = out s" "inp s2 = inp s" "err s2 = err s"
      using wr s1 by (auto simp add: sys_write_def Let_def split: sum.splits)
    have fw: "(bytes_written \<noteq> bytes_read) =
                failed_write os (calls s @ [Read src_fd]) (Write dst_fd buffer)"
      using wr s1 br by (auto simp add: sys_write_def Let_def split: sum.splits)
    show ?thesis
    proof (cases "bytes_written \<noteq> bytes_read")
      case True
      from step rd \<open>0 < bytes_read\<close> wr True
      have y: "y = (False, sys_close dst_fd (sys_close src_fd
                           (eprintf (''Error: Write failed for '' @ quoted dst @ '': ''
                                     @ strerror (errno s2) @ ''\<newline>'') s2)))" by simp
      show ?thesis unfolding cp_copied_def
        apply (rule exI[of _ "[Read src_fd, Write dst_fd buffer]"])
        using True fw by (simp add: y s2 sys_close_def eprintf_def)
    next
      case False
      with step rd \<open>0 < bytes_read\<close> wr have "loop os dst src_fd dst_fd s2 = Some y" by simp
      from IH[OF this] obtain rw where rw:
        "calls (snd y) = calls s2 @ rw @ (if fst y then [] else [Close src_fd, Close dst_fd])"
        "\<forall>c\<in>set rw. is_read_write c"
        "write_failure os (calls s2) rw = (\<not> fst y)"
        "out (snd y) = out s2" "inp (snd y) = inp s2"
        "err (snd y) = err s2 @ (if fst y then []
                                  else ''Error: Write failed for '' @ quoted dst @ '': ''
                                       @ strerror (errno (snd y)) @ ''\<newline>'')"
        unfolding cp_copied_def by blast
      show ?thesis unfolding cp_copied_def
        apply (rule exI[of _ "[Read src_fd, Write dst_fd buffer] @ rw"])
        using rw False fw s2 by (simp add: write_failure_append)
    qed
  qed
qed

lemma is_read_write_copy_call: "is_read_write c \<Longrightarrow> is_copy_call src dst c"
  by (cases c) auto

lemma cp_preserve_attributes_calls:
  "\<exists>new w. calls (cp_preserve_attributes os dst src_stat dst_fd s) = calls s @ new \<and>
         (\<forall>c\<in>set new. is_copy_call src dst c) \<and>
         err (cp_preserve_attributes os dst src_stat dst_fd s) = err s @ w"
  apply (rule exI[of _ "[Futimens dst_fd (st_atime src_stat) (st_mtime src_stat),
                         Fchown dst_fd (st_uid src_stat) (st_gid src_stat)]"])
  by (simp add: cp_preserve_attributes_def sys_futimens_def sys_fchown_def eprintf_def Let_def
      split: option.splits)

lemma copy_file_error_intros:
  "copy_file_error src dst (''Error: Cannot stat source file '' @ quoted src @ '': '' @ strerror e @ ''\<newline>'')"
  "copy_file_error src dst (''Error: Cannot open source file '' @ quoted src @ '': '' @ strerror e @ ''\<newline>'')"
  "copy_file_error src dst (''Error: Cannot create destination file '' @ quoted dst @ '': '' @ strerror e @ ''\<newline>'')"
  "copy_file_error src dst (''Error: Write failed for '' @ quoted dst @ '': '' @ strerror e @ ''\<newline>'')"
  unfolding copy_file_error_def error_line_def
  by (rule exI[of _ e], simp)+

lemma cp_transfer_calls:
  assumes "cp_transfer os opts src dst src_stat s = Some y"
  shows "file_copied src dst s y"
proof (cases "os_open os (calls s) src O_RDONLY 0")
  case (Inl e)
  with assms have y: "y = (- 1, eprintf (''Error: Cannot open source file '' @ quoted src @ '': ''
                              @ strerror e @ ''\<newline>'')
                              (s\<lparr>calls := calls s @ [Open src O_RDONLY 0], errno := e\<rparr>))"
    by (auto simp add: cp_transfer_def sys_open_def Let_def)
  have "err (snd y) = err s @ (''Error: Cannot open source file '' @ quoted src @ '': ''
                              @ strerror e @ ''\<newline>'')"
    by (simp add: y eprintf_def)
  with copy_file_error_intros(2)[of src dst e] show ?thesis unfolding file_copied_def
    by (intro exI[of _ "[Open src O_RDONLY 0]"]) (auto simp add: y eprintf_def)
next
  case (Inr src_fd)
  define s1 where "s1 = s\<lparr>calls := calls s @ [Open src O_RDONLY 0]\<rparr>"
  define mode where "mode = (if cp_preserve opts then st_mode src_stat else 0x1B6)"
  have o1: "sys_open os src O_RDONLY 0 s = (Some src_fd, s1)"
    using Inr by (simp add: sys_open_def s1_def Let_def)
  show ?thesis
  proof (cases "os_open os (calls s1) dst O_WRONLY_CREAT_TRUNC mode")
    case (Inl e)
    define s2 where "s2 = s1\<lparr>calls := calls s1 @ [Open dst O_WRONLY_CREAT_TRUNC mode], errno := e\<rparr>"
    have o2: "sys_open os dst O_WRONLY_CREAT_TRUNC mode s1 = (None, s2)"
      using Inl by (simp add: sys_open_def s2_def Let_def)
    from assms o1 o2 have y: "y = (- 1, sys_close src_fd
                            (eprintf (''Error: Cannot create destination file '' @ quoted dst
                                      @ '': '' @ strerror (errno s2) @ ''\<newline>'') s2))"
      by (simp add: cp_transfer_def mode_def Let_def)
    have "err (snd y) = err s @ (''Error: Cannot create destination file '' @ quoted dst
                                      @ '': '' @ strerror e @ ''\<newline>'')"
      by (simp add: y s2_def s1_def sys_close_def eprintf_def)
    with copy_file_error_intros(3)[of src dst e] show ?thesis unfolding file_copied_def
      by (intro exI[of _ "[Open src O_RDONLY 0, Open dst O_WRONLY_CREAT_TRUNC mode, Close src_fd]"])
         (auto simp add: y s2_def s1_def sys_close_def eprintf_def)
  next
    case (Inr dst_fd)
    define s2 where "s2 = s1\<lparr>calls := calls s1 @ [Open dst O_WRONLY_CREAT_TRUNC mode]\<rparr>"
    have o2: "sys_open os dst O_WRONLY_CREAT_TRUNC mode s1 = (Some dst_fd, s2)"
      using Inr by (simp add: sys_open_def s2_def Let_def)
    have s2: "calls s2 = calls s @ [Open src O_RDONLY 0, Open dst O_WRONLY_CREAT_TRUNC mode]"
      "err s2 = err s"
      by (simp_all add: s2_def s1_def)
    show ?thesis
    proof (cases "cp_copy_contents os dst src_fd dst_fd s2")
      case None
      with assms o1 o2 show ?thesis by (simp add: cp_transfer_def mode_def Let_def)
    next
      case (Some z)
      obtain b s3 where z: "z = (b, s3)" by (cases z)
      from cp_copy_contents_calls[OF Some] z obtain rw where rw:
        "calls s3 = calls s2 @ rw @ (if b then [] else [Close src_fd, Close dst_fd])"
        "\<forall>c\<in>set rw. is_read_write c"
        "err s3 = err s2 @ (if b then []
                             else ''Error: Write failed for '' @ quoted dst @ '': ''
                                  @ strerror (errno s3) @ ''\<newline>'')"
        unfolding cp_copied_def by auto
      have rwc: "\<forall>c\<in>set rw. is_copy_call src dst c"
        using rw(2) is_read_write_copy_call by blast
      show ?thesis
      proof (cases b)
        case False
        with assms o1 o2 Some z have y: "y = (- 1, s3)"
          by (simp add: cp_transfer_def mode_def Let_def)
        have e: "err (snd y) = err s @ (''Error: Write failed for '' @ quoted dst @ '': ''
                                  @ strerror (errno s3) @ ''\<newline>'')"
          using rw(3) False s2 by (simp add: y)
        have c: "calls (snd y) = calls s @ ([Open src O_RDONLY 0, Open dst O_WRONLY_CREAT_TRUNC mode] @ rw
                                 @ [Close src_fd, Close dst_fd])"
          using rw(1) False s2 by (simp add: y)
        from copy_file_error_intros(4)[of src dst "errno s3"] e c rwc
        show ?thesis unfolding file_copied_def
          by (intro exI[of _ "[Open src O_RDONLY 0, Open dst O_WRONLY_CREAT_TRUNC mode] @ rw
                                 @ [Close src_fd, Close dst_fd]"])
             (auto simp add: y)
      next
        case True
        define s4 where "s4 = (if cp_preserve opts
                               then cp_preserve_attributes os dst src_stat dst_fd s3 else s3)"
        obtain pa w where pa: "calls s4 = calls s3 @ pa" "\<forall>c\<in>set pa. is_copy_call src dst c"
          "err s4 = err s3 @ w"
          using cp_preserve_attributes_calls[of os dst src_stat dst_fd s3 src]
          by (cases "cp_preserve opts") (auto simp add: s4_def)
        define s5 where "s5 = sys_close dst_fd (sys_close src_fd s4)"
        from assms o1 o2 Some z True
        have y: "fst y = 0" "snd y = s5 \<or> snd y = printf (quoted src @ '' -> '' @ quoted dst @ ''\<newline>'') s5"
          by (auto simp add: cp_transfer_def mode_def Let_def s4_def s5_def split: if_splits)
        then have "calls (snd y) = calls s5" "err (snd y) = err s5" by (auto simp add: printf_def)
        then have c: "calls (snd y) = calls s @ ([Open src O_RDONLY 0, Open dst O_WRONLY_CREAT_TRUNC mode]
                        @ rw @ pa @ [Close src_fd, Close dst_fd])"
          and e: "err (snd y) = err s @ w"
          using rw True s2 pa by (simp_all add: s5_def sys_close_def)
        show ?thesis unfolding file_copied_def
          apply (rule exI[of _ "[Open src O_RDONLY 0, Open dst O_WRONLY_CREAT_TRUNC mode]
                        @ rw @ pa @ [Close src_fd, Close dst_fd]"])
          using c e rwc pa y by auto
      qed
    qed
  qed
qed

lemma file_copied_from:
  "file_copied src dst t y \<Longrightarrow> calls t = calls s \<Longrightarrow> err t = err s \<Longrightarrow> file_copied src dst s y"
  by (simp add: file_copied_def)

lemma sys_stat_frame:
  "sys_stat os p s = (r, s1) \<Longrightarrow> calls s1 = calls s \<and> err s1 = err s \<and> out s1 = out s \<and> inp s1 = inp s"
  by (auto simp add: sys_stat_def split: sum.splits)

lemma sys_access_frame:
  "sys_access os p m s = (r, s1) \<Longrightarrow> calls s1 = calls s \<and> err s1 = err s \<and> out s1 = out s \<and> inp s1 = inp s"
  by (auto simp add: sys_access_def split: option.splits)

lemma check_update_condition_frame:
  "check_update_condition os src dst s = (r, s1) \<Longrightarrow> calls s1 = calls s \<and> err s1 = err s"
  by (auto simp add: check_update_condition_def sys_stat_def split: sum.splits)

lemma getchar_frame:
  "getchar s = (c, s1) \<Longrightarrow> calls s1 = calls s \<and> err s1 = err s \<and> out s1 = out s"
  by (auto simp add: getchar_def split: list.splits)

lemma copy_file_calls:
  assumes "copy_file os opts src dst s = Some y"
  shows "file_copied src dst s y"
proof -
  obtain st s1 where st: "sys_stat os src s = (st, s1)" by (metis surj_pair)
  note f1 = sys_stat_frame[OF st]
  show ?thesis
  proof (cases st)
    case None
    with assms st have y: "y = (- 1, eprintf (''Error: Cannot stat source file '' @ quoted src @ '': ''
                              @ strerror (errno s1) @ ''\<newline>'') s1)"
      by (simp add: copy_file_def)
    have "err (snd y) = err s @ (''Error: Cannot stat source file '' @ quoted src @ '': ''
                              @ strerror (errno s1) @ ''\<newline>'')"
      by (simp add: y f1 eprintf_def)
    with copy_file_error_intros(1)[of src dst "errno s1"] show ?thesis unfolding file_copied_def
      by (intro exI[of _ "[]"]) (auto simp add: y f1 eprintf_def)
  next
    case (Some src_stat)
    obtain a s2 where ac: "sys_access os dst F_OK s1 = (a, s2)" by (metis surj_pair)
    note f2 = sys_access_frame[OF ac]
    have tr: "\<And>t. cp_transfer os opts src dst src_stat t = Some y \<Longrightarrow> calls t = calls s \<Longrightarrow>
                   err t = err s \<Longrightarrow> file_copied src dst s y"
      using cp_transfer_calls file_copied_from by blast
    have zero: "\<And>t. y = (0, t) \<Longrightarrow> calls t = calls s \<Longrightarrow> err t = err s \<Longrightarrow> file_copied src dst s y"
      unfolding file_copied_def by (intro exI[of _ "[]"]) simp
    show ?thesis
    proof (cases "a = 0")
      case False
      with assms st Some ac have "cp_transfer os opts src dst src_stat s2 = Some y"
        by (simp add: copy_file_def)
      then show ?thesis using tr f1 f2 by simp
    next
      case True
      show ?thesis
      proof (cases "cp_interactive opts")
        case i: True
        obtain c s3 where gc: "getchar (printf (''overwrite '' @ quoted dst @ ''? (y/n [n]) '') s2) = (c, s3)"
          by (metis surj_pair)
        have f3: "calls s3 = calls s" "err s3 = err s"
          using getchar_frame[OF gc] f1 f2 by (simp_all add: printf_def)
        show ?thesis
        proof (cases "cp_clear_input s3")
          case None
          with assms st Some ac True i gc show ?thesis by (simp add: copy_file_def Let_def)
        next
          case (Some s4)
          from cp_clear_input_returns[OF Some] f3 have f4: "calls s4 = calls s" "err s4 = err s"
            by (simp_all add: input_cleared_def)
          from assms st \<open>st = Some src_stat\<close> ac True i gc Some
          have "y = (0, s4) \<or> cp_transfer os opts src dst src_stat s4 = Some y"
            by (auto simp add: copy_file_def Let_def split: if_splits)
          then show ?thesis using zero tr f4 by blast
        qed
      next
        case ni: False
        show ?thesis
        proof (cases "\<not> cp_force opts \<and> cp_update opts")
          case False
          with assms st Some ac True ni have "cp_transfer os opts src dst src_stat s2 = Some y"
            by (auto simp add: copy_file_def split: if_splits)
          then show ?thesis using tr f1 f2 by simp
        next
          case u: True
          obtain newer s3 where cu: "check_update_condition os src dst s2 = (newer, s3)"
            by (metis surj_pair)
          have f3: "calls s3 = calls s" "err s3 = err s"
            using check_update_condition_frame[OF cu] f1 f2 by simp_all
          from assms st Some ac True ni u cu
          have "y = (0, s3) \<or> cp_transfer os opts src dst src_stat s3 = Some y"
            by (auto simp add: copy_file_def split: if_splits)
          then show ?thesis using zero tr f3 by blast
        qed
      qed
    qed
  qed
qed

lemma cp_copy_contents_chunks:
  "copies_chunks os cp_BUFFER_SIZE src_fd dst_fd chunks (calls s) \<Longrightarrow>
   cp_copy_contents os dst src_fd dst_fd s =
     cp_copy_contents os dst src_fd dst_fd
       (s\<lparr>calls := calls s @ chunk_calls src_fd dst_fd chunks\<rparr>)"
proof (induction chunks arbitrary: s)
  case Nil
  then show ?case by simp
next
  case (Cons b bs)
  let ?s2 = "s\<lparr>calls := calls s @ [Read src_fd, Write dst_fd b]\<rparr>"
  from Cons.prems have step: "cp_copy_contents os dst src_fd dst_fd s =
                                cp_copy_contents os dst src_fd dst_fd ?s2"
    by (subst cp_copy_contents.simps) (simp add: sys_read_def sys_write_def Let_def)
  from Cons.prems have "copies_chunks os cp_BUFFER_SIZE src_fd dst_fd bs (calls ?s2)" by simp
  from Cons.IH[OF this] step show ?case by simp
qed

lemma cp_copy_contents_end:
  assumes "no_more_data (os_read os (calls s) src_fd cp_BUFFER_SIZE)"
  shows "\<exists>s'. cp_copy_contents os dst src_fd dst_fd s = Some (True, s') \<and>
              calls s' = calls s @ [Read src_fd] \<and> inp s' = inp s \<and> err s' = err s \<and> out s' = out s"
proof (cases "os_read os (calls s) src_fd cp_BUFFER_SIZE")
  case (Inl e)
  then have "cp_copy_contents os dst src_fd dst_fd s =
               Some (True, s\<lparr>calls := calls s @ [Read src_fd], errno := e\<rparr>)"
    by (subst cp_copy_contents.simps) (simp add: sys_read_def Let_def)
  then show ?thesis by simp
next
  case (Inr bs)
  with assms have "bs = []" by simp
  with Inr have "cp_copy_contents os dst src_fd dst_fd s =
               Some (True, s\<lparr>calls := calls s @ [Read src_fd]\<rparr>)"
    by (subst cp_copy_contents.simps) (simp add: sys_read_def Let_def)
  then show ?thesis by simp
qed

lemma cp_preserve_attributes_exact:
  "calls (cp_preserve_attributes os dst src_stat dst_fd s) =
     calls s @ [Futimens dst_fd (st_atime src_stat) (st_mtime src_stat),
                Fchown dst_fd (st_uid src_stat) (st_gid src_stat)] \<and>
   inp (cp_preserve_attributes os dst src_stat dst_fd s) = inp s"
  by (simp add: cp_preserve_attributes_def sys_futimens_def sys_fchown_def eprintf_def Let_def
      split: option.splits)

lemma cp_transfer_copies:
  assumes o1: "os_open os (calls t) src O_RDONLY 0 = Inr sfd"
    and mode: "mode = (if cp_preserve opts then st_mode src_stat else 0x1B6)"
    and opened: "opened = calls t @ [Open src O_RDONLY 0, Open dst O_WRONLY_CREAT_TRUNC mode]"
    and o2: "os_open os (calls t @ [Open src O_RDONLY 0]) dst O_WRONLY_CREAT_TRUNC mode = Inr dfd"
    and ch: "copies_chunks os cp_BUFFER_SIZE sfd dfd chunks opened"
    and fin: "no_more_data (os_read os (opened @ chunk_calls sfd dfd chunks) sfd cp_BUFFER_SIZE)"
  shows "\<exists>s2. cp_transfer os opts src dst src_stat t = Some (0, s2) \<and>
           calls s2 = opened @ chunk_calls sfd dfd chunks @ [Read sfd]
                      @ (if cp_preserve opts
                         then [Futimens dfd (st_atime src_stat) (st_mtime src_stat),
                               Fchown dfd (st_uid src_stat) (st_gid src_stat)]
                         else [])
                      @ [Close sfd, Close dfd] \<and>
           inp s2 = inp t \<and> (\<not> cp_preserve opts \<longrightarrow> err s2 = err t)"
proof -
  define t1 where "t1 = t\<lparr>calls := calls t @ [Open src O_RDONLY 0]\<rparr>"
  define t2 where "t2 = t1\<lparr>calls := calls t1 @ [Open dst O_WRONLY_CREAT_TRUNC mode]\<rparr>"
  define t3 where "t3 = t2\<lparr>calls := calls t2 @ chunk_calls sfd dfd chunks\<rparr>"
  have so1: "sys_open os src O_RDONLY 0 t = (Some sfd, t1)"
    using o1 by (simp add: sys_open_def t1_def Let_def)
  have so2: "sys_open os dst O_WRONLY_CREAT_TRUNC mode t1 = (Some dfd, t2)"
    using o2 by (simp add: sys_open_def t2_def t1_def Let_def)
  have c2: "calls t2 = opened" by (simp add: t2_def t1_def opened)
  have loop: "cp_copy_contents os dst sfd dfd t2 = cp_copy_contents os dst sfd dfd t3"
    unfolding t3_def using ch c2 by (intro cp_copy_contents_chunks) simp
  have c3: "calls t3 = opened @ chunk_calls sfd dfd chunks" by (simp add: t3_def c2)
  from cp_copy_contents_end[of os t3 sfd dst dfd] fin c3
  obtain t4 where t4: "cp_copy_contents os dst sfd dfd t3 = Some (True, t4)"
    "calls t4 = calls t3 @ [Read sfd]" "inp t4 = inp t3" "err t4 = err t3"
    by auto
  define t5 where "t5 = (if cp_preserve opts then cp_preserve_attributes os dst src_stat dfd t4 else t4)"
  define t6 where "t6 = sys_close dfd (sys_close sfd t5)"
  define t7 where "t7 = (if cp_verbose opts
                         then printf (quoted src @ '' -> '' @ quoted dst @ ''\<newline>'') t6 else t6)"
  have r: "cp_transfer os opts src dst src_stat t = Some (0, t7)"
    using so1 so2 loop t4(1) mode
    by (simp add: cp_transfer_def Let_def t5_def t6_def t7_def)
  have frame: "inp t3 = inp t" "err t3 = err t" by (simp_all add: t3_def t2_def t1_def)
  have c5: "calls t5 = calls t4 @ (if cp_preserve opts
                         then [Futimens dfd (st_atime src_stat) (st_mtime src_stat),
                               Fchown dfd (st_uid src_stat) (st_gid src_stat)]
                         else [])" "inp t5 = inp t4" "\<not> cp_preserve opts \<longrightarrow> err t5 = err t4"
    using cp_preserve_attributes_exact[of os dst src_stat dfd t4] by (simp_all add: t5_def)
  have c7: "calls t7 = calls t5 @ [Close sfd, Close dfd]" "inp t7 = inp t5" "err t7 = err t5"
    by (simp_all add: t7_def t6_def sys_close_def printf_def)
  show ?thesis
    apply (rule exI[of _ t7])
    using r c5 c7 t4 c3 frame by simp
qed

lemma copy_file_copies:
  assumes st: "os_stat os (calls s) src = Inr src_stat"
    and direct: "os_access os (calls s) dst F_OK \<noteq> None \<or>
                 (\<not> cp_interactive opts \<and> (cp_force opts \<or> \<not> cp_update opts))"
    and o1: "os_open os (calls s) src O_RDONLY 0 = Inr sfd"
    and mode: "mode = (if cp_preserve opts then st_mode src_stat else 0x1B6)"
    and opened: "opened = calls s @ [Open src O_RDONLY 0, Open dst O_WRONLY_CREAT_TRUNC mode]"
    and o2: "os_open os (calls s @ [Open src O_RDONLY 0]) dst O_WRONLY_CREAT_TRUNC mode = Inr dfd"
    and ch: "copies_chunks os cp_BUFFER_SIZE sfd dfd chunks opened"
    and fin: "no_more_data (os_read os (opened @ chunk_calls sfd dfd chunks) sfd cp_BUFFER_SIZE)"
  shows "\<exists>s2. copy_file os opts src dst s = Some (0, s2) \<and>
           calls s2 = opened @ chunk_calls sfd dfd chunks @ [Read sfd]
                      @ (if cp_preserve opts
                         then [Futimens dfd (st_atime src_stat) (st_mtime src_stat),
                               Fchown dfd (st_uid src_stat) (st_gid src_stat)]
                         else [])
                      @ [Close sfd, Close dfd] \<and>
           inp s2 = inp s \<and> (\<not> cp_preserve opts \<longrightarrow> err s2 = err s)"
proof -
  obtain a t where ac: "sys_access os dst F_OK s = (a, t)" by (metis surj_pair)
  have f: "calls t = calls s" "inp t = inp s" "err t = err s"
    using ac by (auto simp add: sys_access_def split: option.splits)
  have a: "a = 0 \<longleftrightarrow> os_access os (calls s) dst F_OK = None"
    using ac by (auto simp add: sys_access_def split: option.splits)
  have "copy_file os opts src dst s = cp_transfer os opts src dst src_stat t"
    using st ac a direct by (auto simp add: copy_file_def sys_stat_def)
  moreover from cp_transfer_copies[of os t src sfd mode opts src_stat opened dst dfd chunks]
    o1 mode opened o2 ch fin f
  obtain s2 where "cp_transfer os opts src dst src_stat t = Some (0, s2)"
    "calls s2 = opened @ chunk_calls sfd dfd chunks @ [Read sfd]
                      @ (if cp_preserve opts
                         then [Futimens dfd (st_atime src_stat) (st_mtime src_stat),
                               Fchown dfd (st_uid src_stat) (st_gid src_stat)]
                         else [])
                      @ [Close sfd, Close dfd]"
    "inp s2 = inp t" "\<not> cp_preserve opts \<longrightarrow> err s2 = err t"
    by auto
  ultimately show ?thesis using f by (intro exI[of _ s2]) simp
qed

lemma copy_file_stat_fails:
  "os_stat os (calls s) src = Inl e \<Longrightarrow>
   copy_file os opts src dst s =
     Some (- 1, eprintf (''Error: Cannot stat source file '' @ quoted src @ '': ''
                         @ strerror e @ ''\<newline>'') (s\<lparr>errno := e\<rparr>))"
  by (simp add: copy_file_def sys_stat_def)

section \<open>The confirmation prompts\<close>

text \<open>
  The prompt of \<open>mv\<close> is affirmed exactly by input whose first character is
  \<^verbatim>\<open>y\<close> or \<^verbatim>\<open>Y\<close>, and the prompt of \<open>rm\<close> declines on any other input,
  the end of input included, without a call that changes anything.
\<close>

lemma confirm_overwrite_first_character:
  "fst (confirm_overwrite dest s) =
     (inp s \<noteq> [] \<and> (hd (inp s) = CHR ''y'' \<or> hd (inp s) = CHR ''Y''))"
proof (cases "inp s")
  case Nil
  then show ?thesis
    by (simp add: confirm_overwrite_def fgets_def printf_def numeral_eq_Suc Let_def)
next
  case (Cons c cs)
  then show ?thesis
    by (auto simp add: confirm_overwrite_def fgets_def printf_def numeral_eq_Suc Let_def
        split: prod.splits)
qed

lemma remove_file_declined:
  assumes "rm_interactive opts" and "\<not> rm_force opts"
    and "\<not> (inp s \<noteq> [] \<and> (hd (inp s) = CHR ''y'' \<or> hd (inp s) = CHR ''Y''))"
  shows "fst (remove_file os opts p s) = 0 \<and> calls (snd (remove_file os opts p s)) = calls s
         \<and> err (snd (remove_file os opts p s)) = err s"
  using assms
  by (cases "inp s")
     (auto simp add: remove_file_def getchar_def printf_def char_of_getchar_def Let_def)

text \<open>
  C8. At the end of input a prompt is to decline the one operation and go on. The
  prompt of \<open>cp\<close> reads the answer and then reads on until a newline: with
  \<^verbatim>\<open>cp -i a b\<close>, \<^verbatim>\<open>b\<close> existing and the input at its end, \<open>cp\<close> does not
  return.
\<close>

theorem cp_prompt_at_end_of_input_never_returns:
  "cp_main os_two_files ''cp'' [''-i'', ''a'', ''b''] state0 = None"
  by (simp add: cp_main_def cp_single_def cp_copy_source_def copy_file_def
      cp_clear_input_end_of_input sys_stat_def sys_access_def getchar_def printf_def
      os_two_files_def os_empty_def st_regular_def S_ISDIR_def S_IFMT_def S_IFDIR_def
      CopyOptions0_def state0_def Let_def)

lemma cp_walk_passed_prefix:
  "cp_walk os opts (CopyEntries src dst pre) s = Some (0, sk) \<Longrightarrow>
   cp_walk os opts (CopyEntries src dst (pre @ post)) s =
     cp_walk os opts (CopyEntries src dst post) sk"
proof (induction pre arbitrary: s)
  case Nil
  then show ?case by (simp add: cp_walk_Nil)
next
  case (Cons d_name pre)
  show ?case
  proof (cases "d_name = ''.'' \<or> d_name = ''..''")
    case True
    with Cons show ?thesis by (simp add: cp_walk_dot)
  next
    case False
    then have nd: "d_name \<noteq> ''.''" "d_name \<noteq> ''..''" by simp_all
    show ?thesis
    proof (cases "os_lstat os (calls s) (snprintf_path src d_name)")
      case (Inl e)
      from Cons.prems Cons.IH show ?thesis
        by (simp add: cp_walk_lstat_fails[OF nd Inl])
    next
      case (Inr st)
      show ?thesis
      proof (cases "S_ISDIR (st_mode st)")
        case dir: True
        show ?thesis
        proof (cases "cp_recursive opts")
          case True
          from Cons.prems Cons.IH show ?thesis
            by (auto simp add: cp_walk_directory[OF nd Inr dir True] split: option.splits if_splits)
        next
          case False
          from Cons.prems Cons.IH show ?thesis
            by (simp add: cp_walk_directory_skipped[OF nd Inr dir False])
        qed
      next
        case False
        from Cons.prems Cons.IH show ?thesis
          by (auto simp add: cp_walk_other[OF nd Inr False] split: option.splits if_splits)
      qed
    qed
  qed
qed

lemma nftw_visit_passed_prefix:
  "nftw_visit fn pre s = (0, sk) \<Longrightarrow> nftw_visit fn (pre @ post) s = nftw_visit fn post sk"
  by (induction pre arbitrary: s) (auto split: prod.splits if_splits)

lemma cp_walk_entry_fails:
  assumes pre: "cp_walk os opts (CopyEntries src dst pre) s = Some (0, sk)"
    and nd: "d_name \<noteq> ''.''" "d_name \<noteq> ''..''"
    and ls: "os_lstat os (calls sk) (snprintf_path src d_name) = Inr st"
    and fails: "if S_ISDIR (st_mode st)
         then cp_recursive opts \<and>
              copy_directory os opts (snprintf_path src d_name) (snprintf_path dst d_name) sk
                = Some (- 1, s1)
         else copy_file os opts (snprintf_path src d_name) (snprintf_path dst d_name) sk
                = Some (- 1, s1)"
  shows "cp_walk os opts (CopyEntries src dst (pre @ d_name # post)) s = Some (- 1, s1)"
proof -
  have "cp_walk os opts (CopyEntries src dst (d_name # post)) sk = Some (- 1, s1)"
  proof (cases "S_ISDIR (st_mode st)")
    case True
    with fails show ?thesis by (simp add: cp_walk_directory[OF nd ls True])
  next
    case False
    with fails show ?thesis by (simp add: cp_walk_other[OF nd ls False])
  qed
  with cp_walk_passed_prefix[OF pre] show ?thesis by simp
qed

lemma handle_remove_fails:
  "\<not> rm_force opts \<Longrightarrow> os_remove os (calls s) p = Some e \<Longrightarrow>
   handle_remove os opts p s =
     (- 1, eprintf (''rm: failed to remove '' @ quoted p @ '': '' @ strerror e @ ''\<newline>'')
             (s\<lparr>calls := calls s @ [Remove p], errno := e\<rparr>))"
  by (simp add: handle_remove_def sys_remove_def Let_def)

lemma handle_remove_forced:
  "rm_force opts \<Longrightarrow> os_remove os (calls s) p = Some e \<Longrightarrow>
   handle_remove os opts p s =
     (0, if rm_verbose opts
         then printf (''removed '' @ quoted p @ ''\<newline>'')
                (s\<lparr>calls := calls s @ [Remove p], errno := e\<rparr>)
         else s\<lparr>calls := calls s @ [Remove p], errno := e\<rparr>)"
  by (simp add: handle_remove_def sys_remove_def Let_def)

section \<open>Failures during a traversal\<close>


lemma below_refl: "below p p"
  by (simp add: below_def take_is_prefix)

lemma below_snprintf_path: "below dir (snprintf_path dir name)"
  by (simp add: below_def snprintf_path_def)

lemma below_trans: "below (snprintf_path dir name) p \<Longrightarrow> below dir p"
  unfolding below_def snprintf_path_def
  by (metis append_take_drop_id prefix_order.trans prefixI take_append take_take min.idem)

lemma walk_reported_after:
  "err s2 = err s @ w \<Longrightarrow> walk_reported src dst s2 y \<Longrightarrow> walk_reported src dst s y"
  unfolding walk_reported_def
  apply (intro conjI impI)
   apply (elim conjE exE, simp)
  apply (elim conjE exE)
  apply (drule mp, assumption)
  apply (elim conjE exE)
  subgoal for w1 earlier what p e
    by (rule exI[of _ "w @ earlier"], rule exI[of _ what], rule exI[of _ p], rule exI[of _ e]) simp
  done

lemma walk_reported_fail:
  assumes "err s1 = err s" "below src p \<or> below dst p"
  shows "walk_reported src dst s
     (- 1, eprintf (''Error: '' @ what @ '' '' @ quoted p @ '': '' @ strerror e @ ''\<newline>'') s1)"
  unfolding walk_reported_def
  apply (intro conjI impI)
   apply (simp add: eprintf_def assms)
  apply (rule exI[of _ "[]"], rule exI[of _ what], rule exI[of _ p], rule exI[of _ e])
  using assms by (simp add: eprintf_def error_line_def)

lemma walk_reported_file:
  assumes "file_copied (snprintf_path src d) (snprintf_path dst d) s (- 1, s2)"
  shows "walk_reported src dst s (- 1, s2)"
proof -
  from assms obtain m where m: "copy_file_error (snprintf_path src d) (snprintf_path dst d) m"
    "err s2 = err s @ m"
    unfolding file_copied_def by auto
  from m(1) obtain what p e where w: "m = error_line what p e"
    "p = snprintf_path src d \<or> p = snprintf_path dst d"
    unfolding copy_file_error_def by blast
  from w(2) have b: "below src p \<or> below dst p" using below_snprintf_path by auto
  show ?thesis unfolding walk_reported_def
    apply (intro conjI impI)
     apply (simp add: m)
    apply (rule exI[of _ "[]"], rule exI[of _ what], rule exI[of _ p], rule exI[of _ e])
    using m w b by simp
qed

lemma walk_reported_nested:
  assumes "walk_reported (snprintf_path src d) (snprintf_path dst d) s (- 1, s2)"
  shows "walk_reported src dst s (- 1, s2)"
  using assms below_trans unfolding walk_reported_def by fastforce

lemma walk_reported_zero: "walk_reported src dst s (0, s)"
  by (simp add: walk_reported_def)

lemma cp_walk_reported:
  assumes "cp_walk os opts t s = Some y"
  shows "walk_reported (cp_task_src t) (cp_task_dst t) s y"
proof (rule cp_walk.raw_induct[where P = "\<lambda>os opts t s y. walk_reported (cp_task_src t) (cp_task_dst t) s y",
        OF _ assms], goal_cases)
  case (1 loop os opts t s y)
  note IH = 1(1) and step = 1(2)
  show ?case
  proof (cases t)
    case (CopyDir src dst)
    obtain m s1 where mk: "sys_mkdir os dst 0x1FF s = (m, s1)" by (metis surj_pair)
    have e1: "err s1 = err s" using mk by (auto simp add: sys_mkdir_def Let_def split: option.splits)
    show ?thesis
    proof (cases "m = - 1 \<and> errno s1 \<noteq> EEXIST")
      case True
      with step CopyDir mk
      have y: "y = (- 1, eprintf (''Error: '' @ ''Cannot create directory'' @ '' '' @ quoted dst @ '': ''
                                     @ strerror (errno s1) @ ''\<newline>'') s1)" by simp
      have "walk_reported src dst s y" unfolding y
        by (rule walk_reported_fail[OF e1]) (simp add: below_refl)
      then show ?thesis by (simp add: CopyDir)
    next
      case False
      obtain d s2 where od: "sys_opendir os src s1 = (d, s2)" by (metis surj_pair)
      have e2: "err s2 = err s"
        using od e1 by (auto simp add: sys_opendir_def split: sum.splits)
      show ?thesis
      proof (cases d)
        case None
        with step CopyDir mk False od
        have y: "y = (- 1, eprintf (''Error: '' @ ''Cannot open directory'' @ '' '' @ quoted src @ '': ''
                                     @ strerror (errno s2) @ ''\<newline>'') s2)" by simp
        have "walk_reported src dst s y" unfolding y
          by (rule walk_reported_fail[OF e2]) (simp add: below_refl)
        then show ?thesis by (simp add: CopyDir)
      next
        case (Some names)
        with step CopyDir mk False od have "loop os opts (CopyEntries src dst names) s2 = Some y"
          by simp
        from IH[OF this] have "walk_reported src dst s2 y" by simp
        with e2 have "walk_reported src dst s y"
          using walk_reported_after[of s2 s "[]" src dst y] by simp
        then show ?thesis by (simp add: CopyDir)
      qed
    qed
  next
    case (CopyEntries src dst names)
    show ?thesis
    proof (cases names)
      case Nil
      with step CopyEntries have "y = (0, s)" by simp
      then show ?thesis by (simp add: walk_reported_zero)
    next
      case (Cons d_name rest)
      note t = CopyEntries Cons
      show ?thesis
      proof (cases "d_name = ''.'' \<or> d_name = ''..''")
        case True
        with step t have "loop os opts (CopyEntries src dst rest) s = Some y" by simp
        from IH[OF this] show ?thesis by (simp add: t)
      next
        case nd: False
        obtain l s1 where ls: "sys_lstat os (snprintf_path src d_name) s = (l, s1)" by (metis surj_pair)
        have e1: "err s1 = err s" using ls by (auto simp add: sys_lstat_def split: sum.splits)
        show ?thesis
        proof (cases l)
          case None
          with step t nd ls
          have "loop os opts (CopyEntries src dst rest)
                  (eprintf (''Error: Cannot stat '' @ quoted (snprintf_path src d_name) @ '': ''
                            @ strerror (errno s1) @ ''\<newline>'') s1) = Some y"
            by (simp add: Let_def)
          from IH[OF this] have "walk_reported src dst
                  (eprintf (''Error: Cannot stat '' @ quoted (snprintf_path src d_name) @ '': ''
                            @ strerror (errno s1) @ ''\<newline>'') s1) y" by simp
          moreover have "err (eprintf (''Error: Cannot stat '' @ quoted (snprintf_path src d_name) @ '': ''
                            @ strerror (errno s1) @ ''\<newline>'') s1)
                = err s @ (''Error: Cannot stat '' @ quoted (snprintf_path src d_name) @ '': ''
                            @ strerror (errno s1) @ ''\<newline>'')"
            by (simp add: eprintf_def e1)
          ultimately have "walk_reported src dst s y" using walk_reported_after by blast
          then show ?thesis by (simp add: t)
        next
          case (Some statbuf)
          have rest: "walk_reported src dst s y"
            if "loop os opts (CopyEntries src dst rest) s2 = Some y" "err s2 = err s @ w" for s2 w
          proof -
            from IH[OF that(1)] have "walk_reported src dst s2 y" by simp
            with that(2) show ?thesis using walk_reported_after by blast
          qed
          show ?thesis
          proof (cases "S_ISDIR (st_mode statbuf)")
            case dir: True
            show ?thesis
            proof (cases "cp_recursive opts")
              case False
              with step t nd ls Some dir
              have "loop os opts (CopyEntries src dst rest) s1 = Some y" by (simp add: Let_def)
              then have "walk_reported src dst s y" using rest[of s1 "[]"] e1 by simp
              then show ?thesis by (simp add: t)
            next
              case True
              with step t nd ls Some dir
              have b: "(loop os opts (CopyDir (snprintf_path src d_name) (snprintf_path dst d_name)) s1
                          \<bind> (\<lambda>(r, s2). if r = - 1 then Some (- 1, s2)
                                         else loop os opts (CopyEntries src dst rest) s2)) = Some y"
                by (simp add: Let_def)
              then obtain ry where
                n0: "loop os opts (CopyDir (snprintf_path src d_name) (snprintf_path dst d_name)) s1
                      = Some ry"
                by (cases "loop os opts (CopyDir (snprintf_path src d_name) (snprintf_path dst d_name)) s1")
                   auto
              obtain r s2 where ry: "ry = (r, s2)" by (cases ry)
              note n = n0[unfolded ry]
              from b n have k: "if r = - 1 then y = (- 1, s2)
                        else loop os opts (CopyEntries src dst rest) s2 = Some y"
                by (auto split: if_splits)
              from IH[OF n] have w: "walk_reported (snprintf_path src d_name) (snprintf_path dst d_name) s1 (r, s2)"
                by simp
              show ?thesis
              proof (cases "r = - 1")
                case True
                with w have "walk_reported src dst s1 (- 1, s2)" using walk_reported_nested by simp
                with e1 have "walk_reported src dst s (- 1, s2)"
                  using walk_reported_after[of s1 s "[]" src dst "(- 1, s2)"] by simp
                with True k show ?thesis by (simp add: t)
              next
                case False
                from w obtain w1 where "err s2 = err s @ w1" using e1
                  by (auto simp add: walk_reported_def)
                with False k have "walk_reported src dst s y" using rest[of s2 w1] by simp
                then show ?thesis by (simp add: t)
              qed
            qed
          next
            case False
            with step t nd ls Some
            have b: "(copy_file os opts (snprintf_path src d_name) (snprintf_path dst d_name) s1
                        \<bind> (\<lambda>(r, s2). if r = - 1 then Some (- 1, s2)
                                       else loop os opts (CopyEntries src dst rest) s2)) = Some y"
              by (simp add: Let_def)
            then obtain ry where
              n0: "copy_file os opts (snprintf_path src d_name) (snprintf_path dst d_name) s1
                    = Some ry"
              by (cases "copy_file os opts (snprintf_path src d_name) (snprintf_path dst d_name) s1")
                 auto
            obtain r s2 where ry: "ry = (r, s2)" by (cases ry)
            note n = n0[unfolded ry]
            from b n have k: "if r = - 1 then y = (- 1, s2)
                      else loop os opts (CopyEntries src dst rest) s2 = Some y"
              by (auto split: if_splits)
            from copy_file_calls[OF n]
            have w: "file_copied (snprintf_path src d_name) (snprintf_path dst d_name) s1 (r, s2)" .
            show ?thesis
            proof (cases "r = - 1")
              case True
              with w have "walk_reported src dst s1 (- 1, s2)" using walk_reported_file by simp
              with e1 have "walk_reported src dst s (- 1, s2)"
                using walk_reported_after[of s1 s "[]" src dst "(- 1, s2)"] by simp
              with True k show ?thesis by (simp add: t)
            next
              case False
              from w obtain w1 where "err s2 = err s @ w1" using e1
                by (auto simp add: file_copied_def)
              with False k have "walk_reported src dst s y" using rest[of s2 w1] by simp
              then show ?thesis by (simp add: t)
            qed
          qed
        qed
      qed
    qed
  qed
qed

lemma cp_sources_passed_prefix:
  "cp_sources os opts target pre s = Some (0, sk) \<Longrightarrow>
   cp_sources os opts target (pre @ post) s = cp_sources os opts target post sk"
proof (induction pre arbitrary: s)
  case Nil
  then show ?case by simp
next
  case (Cons arg pre)
  from Cons.prems Cons.IH show ?case
    by (auto simp add: Let_def split: prod.splits option.splits if_splits)
qed

lemma cp_sources_source_fails:
  assumes pre: "cp_sources os opts target before s = Some (0, sk)"
    and bn: "libc_basename os arg = (base, path)"
    and st: "os_stat os (calls sk) path = Inr sst"
    and fails: "if S_ISDIR (st_mode sst)
         then cp_recursive opts \<and>
              copy_directory os opts path (snprintf_path target base) sk = Some (- 1, s1)
         else copy_file os opts path (snprintf_path target base) sk = Some (- 1, s1)"
  shows "cp_sources os opts target (before @ arg # later) s = Some (1, s1)"
proof -
  have "cp_sources os opts target (arg # later) sk = Some (1, s1)"
    using bn st fails
    by (simp add: sys_stat_def cp_copy_source_def Let_def split: if_splits)
  with cp_sources_passed_prefix[OF pre] show ?thesis by simp
qed

lemma cp_main_sources:
  assumes parse: "cp_parse_args prog args CopyOptions0 s = Inr (opts, sources @ [target], s0)"
    and many: "2 \<le> length sources"
    and nt: "\<not> cp_no_target_dir opts"
    and st: "os_stat os (calls s0) target = Inr tst"
    and dir: "S_ISDIR (st_mode tst)"
  shows "cp_main os prog args s = cp_sources os opts target sources s0"
proof -
  from many have "sources \<noteq> []" by auto
  with assms show ?thesis by (simp add: cp_main_def sys_stat_def Let_def)
qed

lemma cp_main_single:
  assumes parse: "cp_parse_args prog args CopyOptions0 s = Inr (opts, [src, target], s0)"
  shows "cp_main os prog args s = cp_single os opts src target s0"
  using assms by (simp add: cp_main_def Let_def)

lemma cp_single_source_fails:
  assumes st: "os_stat os (calls s) src = Inr sst"
    and fails: "if S_ISDIR (st_mode sst)
         then cp_recursive opts \<and> copy_directory os opts src target s = Some (- 1, s1)
         else copy_file os opts src target s = Some (- 1, s1)"
  shows "cp_single os opts src target s = Some (1, s1)"
  using assms by (simp add: cp_single_def sys_stat_def cp_copy_source_def split: if_splits)

lemma copy_directory_entries:
  assumes mk: "sys_mkdir os dst 0x1FF s = (m, sm)"
    and ok: "m = - 1 \<longrightarrow> errno sm = EEXIST"
    and od: "os_opendir os (calls sm) src = Inr names"
  shows "copy_directory os opts src dst s = cp_walk os opts (CopyEntries src dst names) sm"
  using assms by (auto simp add: copy_directory_def cp_walk_CopyDir sys_opendir_def)

lemma below_entry: "below (snprintf_path src d) p = prefix (snprintf_path src d) p"
  unfolding below_def snprintf_path_def take_take by simp

lemma entry_failure_reported:
  assumes fails: "if S_ISDIR (st_mode st)
         then cp_recursive opts \<and> copy_directory os opts sp dp sk = Some (- 1, s1)
         else copy_file os opts sp dp sk = Some (- 1, s1)"
    and sp: "sp = snprintf_path src d" and dp: "dp = snprintf_path dst d"
  shows "if S_ISDIR (st_mode st)
         then \<exists>earlier what p e. err s1 = err sk @ earlier @ error_line what p e \<and>
                                 (prefix sp p \<or> prefix dp p)
         else \<exists>m. copy_file_error sp dp m \<and> err s1 = err sk @ m"
proof (cases "S_ISDIR (st_mode st)")
  case True
  with fails have "cp_walk os opts (CopyDir sp dp) sk = Some (- 1, s1)"
    by (simp add: copy_directory_def)
  from cp_walk_reported[OF this] True show ?thesis
    by (simp add: walk_reported_def sp dp below_entry)
next
  case False
  with fails have "copy_file os opts sp dp sk = Some (- 1, s1)" by simp
  from copy_file_calls[OF this] False show ?thesis
    by (auto simp add: file_copied_def)
qed

lemma rm_operand_entry_fails:
  assumes ls: "os_lstat os (calls s) p = Inr st"
    and dir: "S_ISDIR (st_mode st)"
    and opts: "rm_recursive opts" "\<not> rm_force opts"
    and root: "\<not> (rm_preserve_root opts \<and> \<not> rm_no_preserve_root opts \<and> p = ''/'')"
    and walk: "os_nftw os (calls s) p = Inr (pre @ entry # post)"
    and pre: "nftw_visit (handle_remove os opts) pre s = (0, sk)"
    and rem: "os_remove os (calls sk) entry = Some e"
  shows "rm_operand os opts p (status, s) =
           (EXIT_FAILURE,
            eprintf (''rm: failed to remove '' @ quoted entry @ '': '' @ strerror e @ ''\<newline>'')
              (sk\<lparr>calls := calls sk @ [Remove entry], errno := e\<rparr>))"
proof -
  have "nftw_visit (handle_remove os opts) (pre @ entry # post) s =
          (- 1, eprintf (''rm: failed to remove '' @ quoted entry @ '': '' @ strerror e @ ''\<newline>'')
              (sk\<lparr>calls := calls sk @ [Remove entry], errno := e\<rparr>))"
    using nftw_visit_passed_prefix[OF pre] handle_remove_fails[OF opts(2) rem] by simp
  moreover have "rm_operand os opts p (status, s) =
          (case nftw_visit (handle_remove os opts) (pre @ entry # post) s of
             (r, s2) \<Rightarrow> (if r \<noteq> 0 then EXIT_FAILURE else status, s2))"
    using ls dir opts walk root
    by (auto simp add: rm_operand_def sys_lstat_def remove_directory_recursive_def nftw_def
        simp del: nftw_visit.simps)
  ultimately show ?thesis by simp
qed

text \<open>
  C2 (as amended). The failure of one entry ends the traversal of its source, and
  \<open>cp\<close> ends with it. In \<open>copy_directory\<close>, when the directory was made (or
  existed) and opened, the entries before an entry were copied, and the copy of that
  entry fails (\<open>copy_file\<close> or a nested \<open>copy_directory\<close> returns -1), then
  \<open>copy_directory\<close> returns -1 in the state the failed copy left, whatever entries
  follow; what that copy printed is, for a file, one error line of \<open>copy_file\<close> that
  names the source or the destination path of the entry, and for a directory ends with
  an error line about a path below the entry. In \<open>main\<close>, with several sources or
  with one, when the copy of a source returns -1 the program returns 1 in that state,
  whatever sources follow. Only an entry whose \<^verbatim>\<open>lstat\<close> fails is reported and
  skipped. In \<open>rm\<close>, without force, the first entry of a tree whose removal fails is
  reported by name and ends the walk, and the exit status becomes failure; with force the
  failure is not reported and the walk goes on. \<open>rm\<close> goes on with the operands that
  follow.
\<close>

theorem traversal_stops_at_failed_entry:
  "(sys_mkdir os dst 0x1FF s = (m, sm) \<and> (m = - 1 \<longrightarrow> errno sm = EEXIST) \<and>
    os_opendir os (calls sm) src = Inr (pre @ d_name # post) \<and>
    cp_walk os opts (CopyEntries src dst pre) sm = Some (0, sk) \<and>
    d_name \<noteq> ''.'' \<and> d_name \<noteq> ''..'' \<and>
    os_lstat os (calls sk) (snprintf_path src d_name) = Inr st \<and>
    (if S_ISDIR (st_mode st)
     then cp_recursive opts \<and>
          copy_directory os opts (snprintf_path src d_name) (snprintf_path dst d_name) sk
            = Some (- 1, s1)
     else copy_file os opts (snprintf_path src d_name) (snprintf_path dst d_name) sk
            = Some (- 1, s1))
    \<longrightarrow> copy_directory os opts src dst s = Some (- 1, s1) \<and>
        (if S_ISDIR (st_mode st)
         then \<exists>earlier what p e.
                err s1 = err sk @ earlier @ error_line what p e \<and>
                (prefix (snprintf_path src d_name) p \<or> prefix (snprintf_path dst d_name) p)
         else \<exists>msg. copy_file_error (snprintf_path src d_name) (snprintf_path dst d_name) msg \<and>
                    err s1 = err sk @ msg)) \<and>
   (cp_parse_args prog args CopyOptions0 t = Inr (copts, before @ arg # later @ [target], t0) \<and>
    (before \<noteq> [] \<or> later \<noteq> []) \<and> \<not> cp_no_target_dir copts \<and>
    os_stat os (calls t0) target = Inr tst \<and> S_ISDIR (st_mode tst) \<and>
    cp_sources os copts target before t0 = Some (0, tk) \<and>
    libc_basename os arg = (base, path) \<and>
    os_stat os (calls tk) path = Inr sst \<and>
    (if S_ISDIR (st_mode sst)
     then cp_recursive copts \<and>
          copy_directory os copts path (snprintf_path target base) tk = Some (- 1, t1)
     else copy_file os copts path (snprintf_path target base) tk = Some (- 1, t1))
    \<longrightarrow> cp_main os prog args t = Some (1, t1)) \<and>
   (cp_parse_args prog args1 CopyOptions0 v = Inr (sopts, [single, starget], v0) \<and>
    os_stat os (calls v0) single = Inr vst \<and>
    (if S_ISDIR (st_mode vst)
     then cp_recursive sopts \<and> copy_directory os sopts single starget v0 = Some (- 1, v1)
     else copy_file os sopts single starget v0 = Some (- 1, v1))
    \<longrightarrow> cp_main os prog args1 v = Some (1, v1)) \<and>
   (n \<noteq> ''.'' \<and> n \<noteq> ''..'' \<and> os_lstat os (calls w) (snprintf_path src n) = Inl e
    \<longrightarrow> cp_walk os opts (CopyEntries src dst (n # rest)) w =
          cp_walk os opts (CopyEntries src dst rest)
            (eprintf (''Error: Cannot stat '' @ quoted (snprintf_path src n) @ '': ''
                      @ strerror e @ ''\<newline>'') (w\<lparr>errno := e\<rparr>))) \<and>
   (os_lstat ros (calls u) rp = Inr rst \<and> S_ISDIR (st_mode rst) \<and>
    rm_recursive ropts \<and> \<not> rm_force ropts \<and>
    \<not> (rm_preserve_root ropts \<and> \<not> rm_no_preserve_root ropts \<and> rp = ''/'') \<and>
    os_nftw ros (calls u) rp = Inr (rpre @ entry # rpost) \<and>
    nftw_visit (handle_remove ros ropts) rpre u = (0, uk) \<and>
    os_remove ros (calls uk) entry = Some re
    \<longrightarrow> rm_operand ros ropts rp (status, u) =
          (EXIT_FAILURE,
           eprintf (''rm: failed to remove '' @ quoted entry @ '': '' @ strerror re
                    @ ''\<newline>'')
             (uk\<lparr>calls := calls uk @ [Remove entry], errno := re\<rparr>))) \<and>
   (rm_force fopts \<and> os_remove ros (calls u) entry = Some re
    \<longrightarrow> nftw_visit (handle_remove ros fopts) (entry # rpost) u =
          nftw_visit (handle_remove ros fopts) rpost
            (if rm_verbose fopts
             then printf (''removed '' @ quoted entry @ ''\<newline>'')
                    (u\<lparr>calls := calls u @ [Remove entry], errno := re\<rparr>)
             else u\<lparr>calls := calls u @ [Remove entry], errno := re\<rparr>)) \<and>
   rm_operands ros ropts (rp # operands) es = rm_operands ros ropts operands (rm_operand ros ropts rp es)"
proof (intro conjI impI)
  assume h: "sys_mkdir os dst 0x1FF s = (m, sm) \<and> (m = - 1 \<longrightarrow> errno sm = EEXIST) \<and>
    os_opendir os (calls sm) src = Inr (pre @ d_name # post) \<and>
    cp_walk os opts (CopyEntries src dst pre) sm = Some (0, sk) \<and>
    d_name \<noteq> ''.'' \<and> d_name \<noteq> ''..'' \<and>
    os_lstat os (calls sk) (snprintf_path src d_name) = Inr st \<and>
    (if S_ISDIR (st_mode st)
     then cp_recursive opts \<and>
          copy_directory os opts (snprintf_path src d_name) (snprintf_path dst d_name) sk
            = Some (- 1, s1)
     else copy_file os opts (snprintf_path src d_name) (snprintf_path dst d_name) sk
            = Some (- 1, s1))"
  then have "copy_directory os opts src dst s =
               cp_walk os opts (CopyEntries src dst (pre @ d_name # post)) sm"
    using copy_directory_entries by blast
  moreover from h have "cp_walk os opts (CopyEntries src dst (pre @ d_name # post)) sm = Some (- 1, s1)"
    using cp_walk_entry_fails by blast
  ultimately show "copy_directory os opts src dst s = Some (- 1, s1)" by simp
  from h have "if S_ISDIR (st_mode st)
     then cp_recursive opts \<and>
          copy_directory os opts (snprintf_path src d_name) (snprintf_path dst d_name) sk
            = Some (- 1, s1)
     else copy_file os opts (snprintf_path src d_name) (snprintf_path dst d_name) sk
            = Some (- 1, s1)" by blast
  then show "if S_ISDIR (st_mode st)
         then \<exists>earlier what p e.
                err s1 = err sk @ earlier @ error_line what p e \<and>
                (prefix (snprintf_path src d_name) p \<or> prefix (snprintf_path dst d_name) p)
         else \<exists>msg. copy_file_error (snprintf_path src d_name) (snprintf_path dst d_name) msg \<and>
                    err s1 = err sk @ msg"
    by (rule entry_failure_reported) (rule refl)+
next
  assume h: "cp_parse_args prog args CopyOptions0 t = Inr (copts, before @ arg # later @ [target], t0) \<and>
    (before \<noteq> [] \<or> later \<noteq> []) \<and> \<not> cp_no_target_dir copts \<and>
    os_stat os (calls t0) target = Inr tst \<and> S_ISDIR (st_mode tst) \<and>
    cp_sources os copts target before t0 = Some (0, tk) \<and>
    libc_basename os arg = (base, path) \<and>
    os_stat os (calls tk) path = Inr sst \<and>
    (if S_ISDIR (st_mode sst)
     then cp_recursive copts \<and>
          copy_directory os copts path (snprintf_path target base) tk = Some (- 1, t1)
     else copy_file os copts path (snprintf_path target base) tk = Some (- 1, t1))"
  then have many: "2 \<le> length (before @ arg # later)"
    by (cases before; cases later) auto
  from h have "cp_parse_args prog args CopyOptions0 t = Inr (copts, (before @ arg # later) @ [target], t0)"
    by simp
  from cp_main_sources[OF this many] h
  have "cp_main os prog args t = cp_sources os copts target (before @ arg # later) t0" by blast
  moreover from h have "cp_sources os copts target (before @ arg # later) t0 = Some (1, t1)"
    using cp_sources_source_fails by blast
  ultimately show "cp_main os prog args t = Some (1, t1)" by simp
next
  assume h: "cp_parse_args prog args1 CopyOptions0 v = Inr (sopts, [single, starget], v0) \<and>
    os_stat os (calls v0) single = Inr vst \<and>
    (if S_ISDIR (st_mode vst)
     then cp_recursive sopts \<and> copy_directory os sopts single starget v0 = Some (- 1, v1)
     else copy_file os sopts single starget v0 = Some (- 1, v1))"
  then have "cp_main os prog args1 v = cp_single os sopts single starget v0"
    using cp_main_single by blast
  moreover from h have "cp_single os sopts single starget v0 = Some (1, v1)"
    using cp_single_source_fails by blast
  ultimately show "cp_main os prog args1 v = Some (1, v1)" by simp
next
  assume "n \<noteq> ''.'' \<and> n \<noteq> ''..'' \<and> os_lstat os (calls w) (snprintf_path src n) = Inl e"
  then show "cp_walk os opts (CopyEntries src dst (n # rest)) w =
          cp_walk os opts (CopyEntries src dst rest)
            (eprintf (''Error: Cannot stat '' @ quoted (snprintf_path src n) @ '': ''
                      @ strerror e @ ''\<newline>'') (w\<lparr>errno := e\<rparr>))"
    using cp_walk_lstat_fails by blast
next
  assume "os_lstat ros (calls u) rp = Inr rst \<and> S_ISDIR (st_mode rst) \<and>
    rm_recursive ropts \<and> \<not> rm_force ropts \<and>
    \<not> (rm_preserve_root ropts \<and> \<not> rm_no_preserve_root ropts \<and> rp = ''/'') \<and>
    os_nftw ros (calls u) rp = Inr (rpre @ entry # rpost) \<and>
    nftw_visit (handle_remove ros ropts) rpre u = (0, uk) \<and>
    os_remove ros (calls uk) entry = Some re"
  then show "rm_operand ros ropts rp (status, u) =
          (EXIT_FAILURE,
           eprintf (''rm: failed to remove '' @ quoted entry @ '': '' @ strerror re
                    @ ''\<newline>'')
             (uk\<lparr>calls := calls uk @ [Remove entry], errno := re\<rparr>))"
    using rm_operand_entry_fails by blast
next
  assume "rm_force fopts \<and> os_remove ros (calls u) entry = Some re"
  then show "nftw_visit (handle_remove ros fopts) (entry # rpost) u =
          nftw_visit (handle_remove ros fopts) rpost
            (if rm_verbose fopts
             then printf (''removed '' @ quoted entry @ ''\<newline>'')
                    (u\<lparr>calls := calls u @ [Remove entry], errno := re\<rparr>)
             else u\<lparr>calls := calls u @ [Remove entry], errno := re\<rparr>)"
    by (simp add: handle_remove_forced)
next
  show "rm_operands ros ropts (rp # operands) es = rm_operands ros ropts operands (rm_operand ros ropts rp es)"
    by simp
qed

lemma copy_file_src_a:
  "copy_file os_cp_tree cp_opts_recursive ''src/a'' ''dst/a'' (state0\<lparr>calls := [Mkdir ''dst'' 0x1FF]\<rparr>)
     = Some (- 1, state_entry_denied)"
  by (simp add: copy_file_def cp_transfer_def sys_stat_def sys_access_def sys_open_def
      eprintf_def os_cp_tree_def os_empty_def state0_def state_entry_denied_def Let_def)

lemma copy_file_x:
  "copy_file os_cp_tree CopyOptions0 ''x'' ''lnk/x'' state0 = Some (- 1, state_open_denied ''x'')"
  by (simp add: copy_file_def cp_transfer_def sys_stat_def sys_access_def sys_open_def
      eprintf_def os_cp_tree_def os_empty_def state0_def state_open_denied_def Let_def)

theorem traversal_stops_at_failed_entry_witness:
  "copy_directory os_cp_tree cp_opts_recursive ''src'' ''dst'' state0 = Some (- 1, state_entry_denied) \<and>
   (\<exists>msg. copy_file_error ''src/a'' ''dst/a'' msg \<and> err state_entry_denied = msg) \<and>
   cp_main os_cp_tree ''cp'' [''x'', ''y'', ''lnk''] state0 = Some (1, state_open_denied ''x'') \<and>
   cp_main os_cp_tree ''cp'' [''-r'', ''src'', ''dst''] state0 = Some (1, state_entry_denied) \<and>
   cp_walk os_cp_tree cp_opts_recursive (CopyEntries ''src'' ''dst'' [''gone'']) state0 =
     Some (0, state0\<lparr>errno := ENOENT,
       err := ''Error: Cannot stat '' @ quoted ''src/gone'' @ '': No such file or directory\<newline>''\<rparr>) \<and>
   rm_operand os_rm_tree rm_opts_recursive ''d'' (EXIT_SUCCESS, state0) =
     (EXIT_FAILURE,
      state0\<lparr>calls := [Remove ''d/a''], errno := EACCES,
             err := ''rm: failed to remove '' @ quoted ''d/a'' @ '': Permission denied\<newline>''\<rparr>) \<and>
   nftw_visit (handle_remove os_rm_tree rm_opts_forced) [''d/a'', ''d/b'', ''d''] state0 =
     (0, state0\<lparr>calls := [Remove ''d/a'', Remove ''d/b'', Remove ''d''], errno := ENOTEMPTY\<rparr>)"
proof -
  define sm where "sm = state0\<lparr>calls := [Mkdir ''dst'' 0x1FF]\<rparr>"
  have mk: "sys_mkdir os_cp_tree ''dst'' 0x1FF state0 = (0, sm)"
    by (simp add: sys_mkdir_def os_cp_tree_def os_empty_def state0_def sm_def Let_def)
  have od: "os_opendir os_cp_tree (calls sm) ''src'' = Inr ([''.'', ''..''] @ ''a'' # [''b''])"
    by (simp add: os_cp_tree_def os_empty_def)
  have pre: "cp_walk os_cp_tree cp_opts_recursive (CopyEntries ''src'' ''dst'' [''.'', ''..'']) sm
               = Some (0, sm)"
    by (simp add: cp_walk_dot cp_walk_Nil)
  have nd: "''a'' \<noteq> ''.''" "''a'' \<noteq> ''..''" "''gone'' \<noteq> ''.''" "''gone'' \<noteq> ''..''" by simp_all
  have paths: "snprintf_path ''src'' ''a'' = ''src/a''" "snprintf_path ''dst'' ''a'' = ''dst/a''"
    "snprintf_path ''src'' ''gone'' = ''src/gone''" "snprintf_path ''lnk'' ''x'' = ''lnk/x''"
    by (simp_all add: snprintf_path_def PATH_MAX_def)
  have ls: "os_lstat os_cp_tree (calls sm) ''src/a'' = Inr (st_regular 31)"
    by (simp add: os_cp_tree_def os_empty_def)
  have nodir: "\<not> S_ISDIR (st_mode (st_regular 31))" "\<not> S_ISDIR (st_mode (st_regular 50))"
    by (simp_all add: st_regular_def S_ISDIR_def S_IFMT_def S_IFDIR_def)
  have isdir: "S_ISDIR (st_mode (st_directory 40))" "S_ISDIR (st_mode (st_directory 30))"
    "S_ISDIR (st_mode (st_directory 20))"
    by (simp_all add: st_directory_def S_ISDIR_def S_IFMT_def S_IFDIR_def)
  have cf: "copy_file os_cp_tree cp_opts_recursive ''src/a'' ''dst/a'' sm = Some (- 1, state_entry_denied)"
    unfolding sm_def by (rule copy_file_src_a)
  have parse: "cp_parse_args ''cp'' [''x'', ''y'', ''lnk''] CopyOptions0 state0 =
                 Inr (CopyOptions0, [] @ ''x'' # [''y''] @ [''lnk''], state0)"
    by simp
  have ntd: "\<not> cp_no_target_dir CopyOptions0" "cp_recursive cp_opts_recursive"
    by (simp_all add: CopyOptions0_def cp_opts_recursive_def)
  have tst: "os_stat os_cp_tree (calls state0) ''lnk'' = Inr (st_directory 40)"
    "os_stat os_cp_tree (calls state0) ''x'' = Inr (st_regular 50)"
    "os_stat os_cp_tree (calls state0) ''src'' = Inr (st_directory 30)"
    by (simp_all add: os_cp_tree_def os_empty_def)
  have bn: "libc_basename os_cp_tree ''x'' = (''x'', ''x'')"
    by (simp add: os_cp_tree_def os_empty_def)
  have none: "cp_sources os_cp_tree CopyOptions0 ''lnk'' [] state0 = Some (0, state0)" by simp
  have parse1: "cp_parse_args ''cp'' [''-r'', ''src'', ''dst''] CopyOptions0 state0 =
                 Inr (cp_opts_recursive, [''src'', ''dst''], state0)"
    by (simp add: cp_opts_recursive_def)
  have gone: "os_lstat os_cp_tree (calls state0) (snprintf_path ''src'' ''gone'') = Inl ENOENT"
    by (simp add: os_cp_tree_def os_empty_def snprintf_path_def PATH_MAX_def)
  have nf: "\<not> rm_force rm_opts_recursive" "rm_force rm_opts_forced" "\<not> rm_verbose rm_opts_forced"
    "rm_recursive rm_opts_recursive"
    by (simp_all add: rm_opts_recursive_def rm_opts_forced_def rm_options0_def)
  have rls: "os_lstat os_rm_tree (calls state0) ''d'' = Inr (st_directory 20)"
    by (simp add: os_rm_tree_def os_empty_def)
  have rwalk: "os_nftw os_rm_tree (calls state0) ''d'' = Inr ([] @ ''d/a'' # [''d/b'', ''d''])"
    by (simp add: os_rm_tree_def os_empty_def)
  have rpre: "nftw_visit (handle_remove os_rm_tree rm_opts_recursive) [] state0 = (0, state0)"
    by simp
  have rem: "os_remove os_rm_tree (calls state0) ''d/a'' = Some EACCES"
    by (simp add: os_rm_tree_def os_empty_def)
  note T = traversal_stops_at_failed_entry[where os = os_cp_tree and opts = cp_opts_recursive
      and src = "''src''" and dst = "''dst''" and s = state0 and m = 0 and sm = sm
      and pre = "[''.'', ''..'']" and d_name = "''a''" and post = "[''b'']"
      and sk = sm and st = "st_regular 31" and ?s1.0 = state_entry_denied
      and prog = "''cp''" and args = "[''x'', ''y'', ''lnk'']" and t = state0
      and copts = CopyOptions0 and before = "[]" and arg = "''x''" and later = "[''y'']"
      and target = "''lnk''" and ?t0.0 = state0 and tst = "st_directory 40" and tk = state0
      and base = "''x''" and path = "''x''" and sst = "st_regular 50"
      and ?t1.0 = "state_open_denied ''x''"
      and ?args1.0 = "[''-r'', ''src'', ''dst'']" and v = state0 and sopts = cp_opts_recursive
      and single = "''src''" and starget = "''dst''" and ?v0.0 = state0
      and vst = "st_directory 30" and ?v1.0 = state_entry_denied
      and n = "''gone''" and w = state0 and e = ENOENT and rest = "[]"
      and ros = os_rm_tree and ropts = rm_opts_recursive and rp = "''d''" and u = state0
      and rst = "st_directory 20" and rpre = "[]" and entry = "''d/a''"
      and rpost = "[''d/b'', ''d'']" and uk = state0 and re = EACCES and status = EXIT_SUCCESS
      and fopts = rm_opts_forced]
  have c1: "copy_directory os_cp_tree cp_opts_recursive ''src'' ''dst'' state0
              = Some (- 1, state_entry_denied) \<and>
            (\<exists>msg. copy_file_error ''src/a'' ''dst/a'' msg \<and> err state_entry_denied = err sm @ msg)"
    using T[THEN conjunct1] mk od pre nd ls nodir paths cf by simp
  then have c1a: "copy_directory os_cp_tree cp_opts_recursive ''src'' ''dst'' state0
              = Some (- 1, state_entry_denied)"
    and c1b: "\<exists>msg. copy_file_error ''src/a'' ''dst/a'' msg \<and> err state_entry_denied = msg"
    by (simp_all add: sm_def state0_def)
  have c2: "cp_main os_cp_tree ''cp'' [''x'', ''y'', ''lnk''] state0 = Some (1, state_open_denied ''x'')"
    using T[THEN conjunct2, THEN conjunct1] parse ntd tst isdir none bn nodir paths copy_file_x
    by (simp del: cp_sources.simps cp_parse_args.simps)
  have c3: "cp_main os_cp_tree ''cp'' [''-r'', ''src'', ''dst''] state0 = Some (1, state_entry_denied)"
    using T[THEN conjunct2, THEN conjunct2, THEN conjunct1] parse1 tst isdir ntd c1a
    by (simp del: cp_parse_args.simps)
  have "cp_walk os_cp_tree cp_opts_recursive (CopyEntries ''src'' ''dst'' [''gone'']) state0 =
          cp_walk os_cp_tree cp_opts_recursive (CopyEntries ''src'' ''dst'' [])
            (eprintf (''Error: Cannot stat '' @ quoted ''src/gone'' @ '': ''
                      @ strerror ENOENT @ ''\<newline>'') (state0\<lparr>errno := ENOENT\<rparr>))"
    using T[THEN conjunct2, THEN conjunct2, THEN conjunct2, THEN conjunct1] nd gone paths by simp
  then have c4: "cp_walk os_cp_tree cp_opts_recursive (CopyEntries ''src'' ''dst'' [''gone'']) state0 =
     Some (0, state0\<lparr>errno := ENOENT,
       err := ''Error: Cannot stat '' @ quoted ''src/gone'' @ '': No such file or directory\<newline>''\<rparr>)"
    by (simp add: cp_walk_Nil eprintf_def state0_def)
  have "rm_operand os_rm_tree rm_opts_recursive ''d'' (EXIT_SUCCESS, state0) =
          (EXIT_FAILURE,
           eprintf (''rm: failed to remove '' @ quoted ''d/a'' @ '': '' @ strerror EACCES
                    @ ''\<newline>'')
             (state0\<lparr>calls := calls state0 @ [Remove ''d/a''], errno := EACCES\<rparr>))"
    using T[THEN conjunct2, THEN conjunct2, THEN conjunct2, THEN conjunct2, THEN conjunct1]
      nf rls isdir rwalk rpre rem
    by (simp del: nftw_visit.simps)
  then have c5: "rm_operand os_rm_tree rm_opts_recursive ''d'' (EXIT_SUCCESS, state0) =
     (EXIT_FAILURE,
      state0\<lparr>calls := [Remove ''d/a''], errno := EACCES,
             err := ''rm: failed to remove '' @ quoted ''d/a'' @ '': Permission denied\<newline>''\<rparr>)"
    by (simp add: eprintf_def state0_def)
  have "nftw_visit (handle_remove os_rm_tree rm_opts_forced) (''d/a'' # [''d/b'', ''d'']) state0 =
          nftw_visit (handle_remove os_rm_tree rm_opts_forced) [''d/b'', ''d'']
            (state0\<lparr>calls := calls state0 @ [Remove ''d/a''], errno := EACCES\<rparr>)"
    using T[THEN conjunct2, THEN conjunct2, THEN conjunct2, THEN conjunct2, THEN conjunct2,
            THEN conjunct1] nf rem
    by (simp del: nftw_visit.simps)
  then have c6: "nftw_visit (handle_remove os_rm_tree rm_opts_forced) [''d/a'', ''d/b'', ''d''] state0 =
     (0, state0\<lparr>calls := [Remove ''d/a'', Remove ''d/b'', Remove ''d''], errno := ENOTEMPTY\<rparr>)"
    by (simp add: handle_remove_def sys_remove_def os_rm_tree_def os_empty_def state0_def
        rm_opts_forced_def rm_options0_def Let_def)
  from c1a c1b c2 c3 c4 c5 c6 show ?thesis by blast
qed

text \<open>
  C2 (as stated). The failure of one entry is not to end the traversal. In
  \<^verbatim>\<open>cp -r src dst\<close> the file \<^verbatim>\<open>src/a\<close> cannot be opened and \<^verbatim>\<open>src/b\<close>, which
  could be copied, is never touched; in \<^verbatim>\<open>rm -r d\<close> the file \<^verbatim>\<open>d/a\<close> cannot be
  removed and \<^verbatim>\<open>d/b\<close>, which could be removed, is never touched.
\<close>

theorem traversal_aborted_by_one_entry:
  "cp_main os_cp_tree ''cp'' [''-r'', ''src'', ''dst''] state0 =
     Some (1, \<lparr>calls = [Mkdir ''dst'' 0x1FF, Open ''src/a'' O_RDONLY 0], errno = EACCES,
               inp = [], out = [],
               err = ''Error: Cannot open source file '' @ quoted ''src/a''
                     @ '': Permission denied\<newline>''\<rparr>) \<and>
   os_opendir os_cp_tree [Mkdir ''dst'' 0x1FF] ''src'' = Inr [''.'', ''..'', ''a'', ''b''] \<and>
   os_lstat os_cp_tree [Mkdir ''dst'' 0x1FF, Open ''src/a'' O_RDONLY 0] ''src/b''
     = Inr (st_regular 32) \<and>
   os_open os_cp_tree [Mkdir ''dst'' 0x1FF, Open ''src/a'' O_RDONLY 0] ''src/b'' O_RDONLY 0
     = Inr 3 \<and>
   rm_main os_rm_tree [Short (CHR ''r'')] [''d''] state0 =
     (EXIT_FAILURE,
      \<lparr>calls = [Remove ''d/a''], errno = EACCES, inp = [], out = [],
       err = ''rm: failed to remove '' @ quoted ''d/a'' @ '': Permission denied\<newline>''\<rparr>) \<and>
   os_nftw os_rm_tree [] ''d'' = Inr [''d/a'', ''d/b'', ''d''] \<and>
   os_remove os_rm_tree [Remove ''d/a''] ''d/b'' = None"
  by (simp add: cp_main_def cp_single_def cp_copy_source_def copy_directory_def cp_walk.simps
      copy_file_def cp_transfer_def sys_stat_def sys_lstat_def sys_access_def sys_mkdir_def
      sys_opendir_def sys_open_def snprintf_path_def PATH_MAX_def eprintf_def
      os_cp_tree_def os_empty_def st_directory_def st_regular_def S_ISDIR_def S_IFMT_def
      S_IFDIR_def CopyOptions0_def state0_def Let_def
      rm_main_def rm_operand_def remove_directory_recursive_def nftw_def handle_remove_def
      sys_remove_def os_rm_tree_def rm_options0_def EXIT_FAILURE_def EXIT_SUCCESS_def)

section \<open>Symbolic links in a recursive copy\<close>

lemma S_ISLNK_not_S_ISDIR: "S_ISLNK m \<Longrightarrow> \<not> S_ISDIR m"
  by (simp add: S_ISLNK_def S_ISDIR_def S_IFLNK_def S_IFDIR_def)

lemma is_copy_call_no_symlink:
  "\<forall>c\<in>set new. is_copy_call p q c \<Longrightarrow> Symlink target linkpath \<notin> set new"
  by auto

lemma cp_single_directory:
  assumes st: "os_stat os (calls s) src = Inr sst" and dir: "S_ISDIR (st_mode sst)"
    and r: "cp_recursive opts"
    and mk: "sys_mkdir os target 0x1FF s = (m, sm)" and ok: "m = - 1 \<longrightarrow> errno sm = EEXIST"
    and od: "os_opendir os (calls sm) src = Inr names"
  shows "cp_single os opts src target s =
           (case cp_walk os opts (CopyEntries src target names) sm of
              None \<Rightarrow> None
            | Some (r, s2) \<Rightarrow> if r = - 1 then Some (1, s2) else Some (0, s2))"
  using st dir r copy_directory_entries[OF mk ok od, of opts]
  by (simp add: cp_single_def sys_stat_def cp_copy_source_def)

lemma cp_sources_directory:
  assumes bn: "libc_basename os arg = (base, path)"
    and st: "os_stat os (calls s) path = Inr sst" and dir: "S_ISDIR (st_mode sst)"
    and r: "cp_recursive opts"
    and mk: "sys_mkdir os (snprintf_path target base) 0x1FF s = (m, sm)"
    and ok: "m = - 1 \<longrightarrow> errno sm = EEXIST"
    and od: "os_opendir os (calls sm) path = Inr names"
  shows "cp_sources os opts target (arg # later) s =
           (case cp_walk os opts (CopyEntries path (snprintf_path target base) names) sm of
              None \<Rightarrow> None
            | Some (r, s2) \<Rightarrow> if r = - 1 then Some (1, s2) else cp_sources os opts target later s2)"
  using bn st dir r copy_directory_entries[OF mk ok od, of opts]
  by (simp add: sys_stat_def cp_copy_source_def Let_def)

text \<open>
  C4 (as amended). In a recursive copy, an entry of a directory that \<^verbatim>\<open>lstat\<close>
  reports as a symbolic link is not descended into: the loop hands it to \<open>copy_file\<close>,
  which follows the link. When \<^verbatim>\<open>stat\<close> of the path fails (a link to nothing),
  \<open>copy_file\<close> prints that it cannot stat the source and the loop returns -1.
  When \<^verbatim>\<open>stat\<close> succeeds, the copy goes ahead without a question (nothing is at the
  destination, or the options ask for none), both files can be opened, the reads deliver
  some pieces that are written in full and then a \<^verbatim>\<open>read\<close> returns 0 or -1 (at
  once, for a link to a directory), then \<open>copy_file\<close> returns 0 and its calls are
  exactly: the path opened for reading, the destination opened with creation and
  truncation, the reads and writes of those pieces and the last read, the two calls
  that preserve attributes when that is asked, and the two closes; the loop goes on with
  the next entry. No call of a \<open>copy_file\<close> that returns creates a symbolic link.
  A symbolic link given as a source is followed: \<open>main\<close> tests it with \<^verbatim>\<open>stat\<close>,
  and when the link leads to a directory and the copy is recursive, the entries of that
  directory are copied, in the single-source case and in the loop over several sources.
\<close>

theorem symlink_entry_copied_as_file:
  "(d_name \<noteq> ''.'' \<and> d_name \<noteq> ''..'' \<and>
    os_lstat os (calls s) (snprintf_path src d_name) = Inr st \<and> S_ISLNK (st_mode st)
    \<longrightarrow> cp_walk os opts (CopyEntries src dst (d_name # rest)) s =
          (case copy_file os opts (snprintf_path src d_name) (snprintf_path dst d_name) s of
             None \<Rightarrow> None
           | Some (r, s2) \<Rightarrow>
               if r = - 1 then Some (- 1, s2)
               else cp_walk os opts (CopyEntries src dst rest) s2)) \<and>
   (dn \<noteq> ''.'' \<and> dn \<noteq> ''..'' \<and>
    os_lstat os (calls ds) (snprintf_path src dn) = Inr dlst \<and> S_ISLNK (st_mode dlst) \<and>
    os_stat os (calls ds) (snprintf_path src dn) = Inl e
    \<longrightarrow> cp_walk os opts (CopyEntries src dst (dn # drest)) ds =
          Some (- 1, eprintf (''Error: Cannot stat source file '' @ quoted (snprintf_path src dn)
                              @ '': '' @ strerror e @ ''\<newline>'') (ds\<lparr>errno := e\<rparr>))) \<and>
   (cn \<noteq> ''.'' \<and> cn \<noteq> ''..'' \<and>
    os_lstat os (calls cs) (snprintf_path src cn) = Inr clst \<and> S_ISLNK (st_mode clst) \<and>
    os_stat os (calls cs) (snprintf_path src cn) = Inr tst \<and>
    (os_access os (calls cs) (snprintf_path dst cn) F_OK \<noteq> None \<or>
     (\<not> cp_interactive opts \<and> (cp_force opts \<or> \<not> cp_update opts))) \<and>
    os_open os (calls cs) (snprintf_path src cn) O_RDONLY 0 = Inr sfd \<and>
    mode = (if cp_preserve opts then st_mode tst else 0x1B6) \<and>
    opened = calls cs @ [Open (snprintf_path src cn) O_RDONLY 0,
                         Open (snprintf_path dst cn) O_WRONLY_CREAT_TRUNC mode] \<and>
    os_open os (calls cs @ [Open (snprintf_path src cn) O_RDONLY 0]) (snprintf_path dst cn)
      O_WRONLY_CREAT_TRUNC mode = Inr dfd \<and>
    copies_chunks os cp_BUFFER_SIZE sfd dfd chunks opened \<and>
    no_more_data (os_read os (opened @ chunk_calls sfd dfd chunks) sfd cp_BUFFER_SIZE)
    \<longrightarrow> (\<exists>s2. copy_file os opts (snprintf_path src cn) (snprintf_path dst cn) cs = Some (0, s2) \<and>
              calls s2 = opened @ chunk_calls sfd dfd chunks @ [Read sfd]
                         @ (if cp_preserve opts
                            then [Futimens dfd (st_atime tst) (st_mtime tst),
                                  Fchown dfd (st_uid tst) (st_gid tst)]
                            else [])
                         @ [Close sfd, Close dfd] \<and>
              inp s2 = inp cs \<and> (\<not> cp_preserve opts \<longrightarrow> err s2 = err cs) \<and>
              cp_walk os opts (CopyEntries src dst (cn # crest)) cs =
                cp_walk os opts (CopyEntries src dst crest) s2)) \<and>
   (copy_file os opts p q t = Some (r, t1)
    \<longrightarrow> (\<exists>new. calls t1 = calls t @ new \<and> (\<forall>c\<in>set new. is_copy_call p q c) \<and>
               (\<forall>target linkpath. Symlink target linkpath \<notin> set new))) \<and>
   (os_lstat os (calls u) operand = Inr olst \<and> S_ISLNK (st_mode olst) \<and>
    os_stat os (calls u) operand = Inr ost \<and> S_ISDIR (st_mode ost) \<and> cp_recursive opts \<and>
    sys_mkdir os dest 0x1FF u = (m, um) \<and> (m = - 1 \<longrightarrow> errno um = EEXIST) \<and>
    os_opendir os (calls um) operand = Inr names
    \<longrightarrow> cp_single os opts operand dest u =
          (case cp_walk os opts (CopyEntries operand dest names) um of
             None \<Rightarrow> None
           | Some (r, u2) \<Rightarrow> if r = - 1 then Some (1, u2) else Some (0, u2))) \<and>
   (libc_basename os arg = (base, path) \<and>
    os_lstat os (calls v) path = Inr alst \<and> S_ISLNK (st_mode alst) \<and>
    os_stat os (calls v) path = Inr ast \<and> S_ISDIR (st_mode ast) \<and> cp_recursive opts \<and>
    sys_mkdir os (snprintf_path tdir base) 0x1FF v = (k, vm) \<and> (k = - 1 \<longrightarrow> errno vm = EEXIST) \<and>
    os_opendir os (calls vm) path = Inr vnames
    \<longrightarrow> cp_sources os opts tdir (arg # later) v =
          (case cp_walk os opts (CopyEntries path (snprintf_path tdir base) vnames) vm of
             None \<Rightarrow> None
           | Some (r, v2) \<Rightarrow> if r = - 1 then Some (1, v2) else cp_sources os opts tdir later v2))"
proof (intro conjI impI)
  assume h: "d_name \<noteq> ''.'' \<and> d_name \<noteq> ''..'' \<and>
    os_lstat os (calls s) (snprintf_path src d_name) = Inr st \<and> S_ISLNK (st_mode st)"
  then have "\<not> S_ISDIR (st_mode st)" using S_ISLNK_not_S_ISDIR by blast
  with h show "cp_walk os opts (CopyEntries src dst (d_name # rest)) s =
          (case copy_file os opts (snprintf_path src d_name) (snprintf_path dst d_name) s of
             None \<Rightarrow> None
           | Some (r, s2) \<Rightarrow>
               if r = - 1 then Some (- 1, s2)
               else cp_walk os opts (CopyEntries src dst rest) s2)"
    using cp_walk_other by blast
next
  assume h: "dn \<noteq> ''.'' \<and> dn \<noteq> ''..'' \<and>
    os_lstat os (calls ds) (snprintf_path src dn) = Inr dlst \<and> S_ISLNK (st_mode dlst) \<and>
    os_stat os (calls ds) (snprintf_path src dn) = Inl e"
  then have nd: "\<not> S_ISDIR (st_mode dlst)" using S_ISLNK_not_S_ISDIR by blast
  from h have "cp_walk os opts (CopyEntries src dst (dn # drest)) ds =
          (case copy_file os opts (snprintf_path src dn) (snprintf_path dst dn) ds of
             None \<Rightarrow> None
           | Some (r, s2) \<Rightarrow>
               if r = - 1 then Some (- 1, s2)
               else cp_walk os opts (CopyEntries src dst drest) s2)"
    using cp_walk_other nd by blast
  moreover from h have "copy_file os opts (snprintf_path src dn) (snprintf_path dst dn) ds =
     Some (- 1, eprintf (''Error: Cannot stat source file '' @ quoted (snprintf_path src dn)
                         @ '': '' @ strerror e @ ''\<newline>'') (ds\<lparr>errno := e\<rparr>))"
    using copy_file_stat_fails by blast
  ultimately show "cp_walk os opts (CopyEntries src dst (dn # drest)) ds =
          Some (- 1, eprintf (''Error: Cannot stat source file '' @ quoted (snprintf_path src dn)
                              @ '': '' @ strerror e @ ''\<newline>'') (ds\<lparr>errno := e\<rparr>))"
    by simp
next
  assume h: "cn \<noteq> ''.'' \<and> cn \<noteq> ''..'' \<and>
    os_lstat os (calls cs) (snprintf_path src cn) = Inr clst \<and> S_ISLNK (st_mode clst) \<and>
    os_stat os (calls cs) (snprintf_path src cn) = Inr tst \<and>
    (os_access os (calls cs) (snprintf_path dst cn) F_OK \<noteq> None \<or>
     (\<not> cp_interactive opts \<and> (cp_force opts \<or> \<not> cp_update opts))) \<and>
    os_open os (calls cs) (snprintf_path src cn) O_RDONLY 0 = Inr sfd \<and>
    mode = (if cp_preserve opts then st_mode tst else 0x1B6) \<and>
    opened = calls cs @ [Open (snprintf_path src cn) O_RDONLY 0,
                         Open (snprintf_path dst cn) O_WRONLY_CREAT_TRUNC mode] \<and>
    os_open os (calls cs @ [Open (snprintf_path src cn) O_RDONLY 0]) (snprintf_path dst cn)
      O_WRONLY_CREAT_TRUNC mode = Inr dfd \<and>
    copies_chunks os cp_BUFFER_SIZE sfd dfd chunks opened \<and>
    no_more_data (os_read os (opened @ chunk_calls sfd dfd chunks) sfd cp_BUFFER_SIZE)"
  then have nd: "\<not> S_ISDIR (st_mode clst)" using S_ISLNK_not_S_ISDIR by blast
  from h have w: "cp_walk os opts (CopyEntries src dst (cn # crest)) cs =
          (case copy_file os opts (snprintf_path src cn) (snprintf_path dst cn) cs of
             None \<Rightarrow> None
           | Some (r, s2) \<Rightarrow>
               if r = - 1 then Some (- 1, s2)
               else cp_walk os opts (CopyEntries src dst crest) s2)"
    using cp_walk_other nd by blast
  from h have "\<exists>s2. copy_file os opts (snprintf_path src cn) (snprintf_path dst cn) cs = Some (0, s2) \<and>
           calls s2 = opened @ chunk_calls sfd dfd chunks @ [Read sfd]
                      @ (if cp_preserve opts
                         then [Futimens dfd (st_atime tst) (st_mtime tst),
                               Fchown dfd (st_uid tst) (st_gid tst)]
                         else [])
                      @ [Close sfd, Close dfd] \<and>
           inp s2 = inp cs \<and> (\<not> cp_preserve opts \<longrightarrow> err s2 = err cs)"
    by (intro copy_file_copies) blast+
  then obtain s2 where s2: "copy_file os opts (snprintf_path src cn) (snprintf_path dst cn) cs = Some (0, s2)"
    "calls s2 = opened @ chunk_calls sfd dfd chunks @ [Read sfd]
                      @ (if cp_preserve opts
                         then [Futimens dfd (st_atime tst) (st_mtime tst),
                               Fchown dfd (st_uid tst) (st_gid tst)]
                         else [])
                      @ [Close sfd, Close dfd]"
    "inp s2 = inp cs" "\<not> cp_preserve opts \<longrightarrow> err s2 = err cs"
    by blast
  from w s2(1) have "cp_walk os opts (CopyEntries src dst (cn # crest)) cs =
                cp_walk os opts (CopyEntries src dst crest) s2" by simp
  with s2 show "\<exists>s2. copy_file os opts (snprintf_path src cn) (snprintf_path dst cn) cs = Some (0, s2) \<and>
              calls s2 = opened @ chunk_calls sfd dfd chunks @ [Read sfd]
                         @ (if cp_preserve opts
                            then [Futimens dfd (st_atime tst) (st_mtime tst),
                                  Fchown dfd (st_uid tst) (st_gid tst)]
                            else [])
                         @ [Close sfd, Close dfd] \<and>
              inp s2 = inp cs \<and> (\<not> cp_preserve opts \<longrightarrow> err s2 = err cs) \<and>
              cp_walk os opts (CopyEntries src dst (cn # crest)) cs =
                cp_walk os opts (CopyEntries src dst crest) s2"
    by blast
next
  assume "copy_file os opts p q t = Some (r, t1)"
  from copy_file_calls[OF this] obtain new where
    n: "calls t1 = calls t @ new" "\<forall>c\<in>set new. is_copy_call p q c"
    by (auto simp add: file_copied_def)
  from n(2) have "\<forall>target linkpath. Symlink target linkpath \<notin> set new"
    using is_copy_call_no_symlink by blast
  with n show "\<exists>new. calls t1 = calls t @ new \<and> (\<forall>c\<in>set new. is_copy_call p q c) \<and>
               (\<forall>target linkpath. Symlink target linkpath \<notin> set new)" by blast
next
  assume "os_lstat os (calls u) operand = Inr olst \<and> S_ISLNK (st_mode olst) \<and>
    os_stat os (calls u) operand = Inr ost \<and> S_ISDIR (st_mode ost) \<and> cp_recursive opts \<and>
    sys_mkdir os dest 0x1FF u = (m, um) \<and> (m = - 1 \<longrightarrow> errno um = EEXIST) \<and>
    os_opendir os (calls um) operand = Inr names"
  then show "cp_single os opts operand dest u =
          (case cp_walk os opts (CopyEntries operand dest names) um of
             None \<Rightarrow> None
           | Some (r, u2) \<Rightarrow> if r = - 1 then Some (1, u2) else Some (0, u2))"
    using cp_single_directory by blast
next
  assume "libc_basename os arg = (base, path) \<and>
    os_lstat os (calls v) path = Inr alst \<and> S_ISLNK (st_mode alst) \<and>
    os_stat os (calls v) path = Inr ast \<and> S_ISDIR (st_mode ast) \<and> cp_recursive opts \<and>
    sys_mkdir os (snprintf_path tdir base) 0x1FF v = (k, vm) \<and> (k = - 1 \<longrightarrow> errno vm = EEXIST) \<and>
    os_opendir os (calls vm) path = Inr vnames"
  then show "cp_sources os opts tdir (arg # later) v =
          (case cp_walk os opts (CopyEntries path (snprintf_path tdir base) vnames) vm of
             None \<Rightarrow> None
           | Some (r, v2) \<Rightarrow> if r = - 1 then Some (1, v2) else cp_sources os opts tdir later v2)"
    using cp_sources_directory by blast
qed

lemma copy_file_lnk_l:
  "copy_file os_cp_links cp_opts_recursive ''lnk/l'' ''dst/l'' state0 =
     Some (0, state0\<lparr>calls := calls_copy_link, errno := ENOENT\<rparr>)"
  by (simp add: copy_file_def cp_transfer_def cp_copy_contents.simps sys_stat_def
      sys_access_def sys_read_def sys_write_def sys_close_def sys_open_def
      os_cp_links_def os_cp_tree_def os_empty_def cp_opts_recursive_def CopyOptions0_def state0_def
      calls_copy_link_def Let_def)

lemma cp_walk_dl:
  "cp_walk os_cp_links cp_opts_recursive (CopyEntries ''dl'' d [''.'', ''..'', ''l''])
     (state0\<lparr>calls := [Mkdir d 0x1FF]\<rparr>) =
   Some (0, state0\<lparr>calls := [Mkdir d 0x1FF, Open ''dl/l'' O_RDONLY 0,
                               Open (snprintf_path d ''l'') O_WRONLY_CREAT_TRUNC 0x1B6, Read 3,
                               Write 4 ''hi'', Read 3, Close 3, Close 4],
                     errno := ENOENT\<rparr>)"
  by (simp add: cp_walk.simps copy_file_def cp_transfer_def cp_copy_contents.simps
      sys_stat_def sys_lstat_def sys_access_def sys_read_def sys_write_def sys_close_def
      sys_open_def snprintf_path_def PATH_MAX_def os_cp_links_def os_cp_tree_def os_empty_def
      st_symlink_def st_regular_def S_ISDIR_def S_IFMT_def S_IFDIR_def
      cp_opts_recursive_def CopyOptions0_def state0_def Let_def)

theorem symlink_entry_copied_as_file_witness:
  "cp_walk os_cp_links cp_opts_recursive (CopyEntries ''lnk'' ''dst'' [''l'']) state0 =
     Some (0, state0\<lparr>calls := calls_copy_link, errno := ENOENT\<rparr>) \<and>
   cp_walk os_cp_links cp_opts_recursive (CopyEntries ''lnk'' ''dst'' [''dangling'', ''l'']) state0 =
     Some (- 1, state0\<lparr>errno := ENOENT,
       err := ''Error: Cannot stat source file '' @ quoted ''lnk/dangling''
              @ '': No such file or directory\<newline>''\<rparr>) \<and>
   (\<exists>s2. copy_file os_cp_links cp_opts_recursive ''lnk/l'' ''dst/l'' state0 = Some (0, s2) \<and>
         calls s2 = calls_copy_link) \<and>
   (\<exists>s2. copy_file os_cp_links cp_opts_recursive ''lnk/ld'' ''dst/ld'' state0 = Some (0, s2) \<and>
         calls s2 = [Open ''lnk/ld'' O_RDONLY 0, Open ''dst/ld'' O_WRONLY_CREAT_TRUNC 0x1B6,
                     Read 5, Close 5, Close 4]) \<and>
   S_ISLNK (st_mode (st_symlink 42)) \<and>
   (\<exists>new. calls (state0\<lparr>calls := calls_copy_link, errno := ENOENT\<rparr>) = calls state0 @ new \<and>
          (\<forall>target linkpath. Symlink target linkpath \<notin> set new)) \<and>
   cp_single os_cp_links cp_opts_recursive ''dl'' ''dst'' state0 =
     Some (0, state0\<lparr>calls := [Mkdir ''dst'' 0x1FF, Open ''dl/l'' O_RDONLY 0,
                                 Open ''dst/l'' O_WRONLY_CREAT_TRUNC 0x1B6, Read 3,
                                 Write 4 ''hi'', Read 3, Close 3, Close 4],
                       errno := ENOENT\<rparr>) \<and>
   cp_sources os_cp_links cp_opts_recursive ''out'' [''dl''] state0 =
     Some (0, state0\<lparr>calls := [Mkdir ''out/dl'' 0x1FF, Open ''dl/l'' O_RDONLY 0,
                                 Open ''out/dl/l'' O_WRONLY_CREAT_TRUNC 0x1B6, Read 3,
                                 Write 4 ''hi'', Read 3, Close 3, Close 4],
                       errno := ENOENT\<rparr>)"
proof -
  have nd: "''l'' \<noteq> ''.''" "''l'' \<noteq> ''..''" "''dangling'' \<noteq> ''.''" "''dangling'' \<noteq> ''..''"
    "''ld'' \<noteq> ''.''" "''ld'' \<noteq> ''..''"
    by simp_all
  have paths: "snprintf_path ''lnk'' ''l'' = ''lnk/l''" "snprintf_path ''dst'' ''l'' = ''dst/l''"
    "snprintf_path ''lnk'' ''dangling'' = ''lnk/dangling''"
    "snprintf_path ''lnk'' ''ld'' = ''lnk/ld''" "snprintf_path ''dst'' ''ld'' = ''dst/ld''"
    "snprintf_path ''out'' ''dl'' = ''out/dl''" "snprintf_path ''out/dl'' ''l'' = ''out/dl/l''"
    by (simp_all add: snprintf_path_def PATH_MAX_def)
  have ls: "os_lstat os_cp_links (calls state0) ''lnk/l'' = Inr (st_symlink 42)"
    "os_lstat os_cp_links (calls state0) ''lnk/dangling'' = Inr (st_symlink 44)"
    "os_lstat os_cp_links (calls state0) ''lnk/ld'' = Inr (st_symlink 45)"
    "os_lstat os_cp_links (calls state0) ''dl'' = Inr (st_symlink 43)"
    by (simp_all add: os_cp_links_def os_cp_tree_def os_empty_def)
  have lnk: "S_ISLNK (st_mode (st_symlink 42))" "S_ISLNK (st_mode (st_symlink 43))"
    "S_ISLNK (st_mode (st_symlink 44))" "S_ISLNK (st_mode (st_symlink 45))"
    by (simp_all add: st_symlink_def S_ISLNK_def S_IFMT_def S_IFLNK_def)
  have sts: "os_stat os_cp_links (calls state0) ''lnk/l'' = Inr (st_regular 41)"
    "os_stat os_cp_links (calls state0) ''lnk/dangling'' = Inl ENOENT"
    "os_stat os_cp_links (calls state0) ''lnk/ld'' = Inr (st_directory 30)"
    "os_stat os_cp_links (calls state0) ''dl'' = Inr (st_directory 40)"
    by (simp_all add: os_cp_links_def os_cp_tree_def os_empty_def)
  have isdir: "S_ISDIR (st_mode (st_directory 40))"
    by (simp add: st_directory_def S_ISDIR_def S_IFMT_def S_IFDIR_def)
  have acc: "os_access os_cp_links (calls state0) ''dst/l'' F_OK \<noteq> None"
    "os_access os_cp_links (calls state0) ''dst/ld'' F_OK \<noteq> None"
    by (simp_all add: os_cp_links_def os_cp_tree_def os_empty_def)
  have opts: "\<not> cp_preserve cp_opts_recursive" "cp_recursive cp_opts_recursive"
    by (simp_all add: cp_opts_recursive_def CopyOptions0_def)
  have o1: "os_open os_cp_links (calls state0) ''lnk/l'' O_RDONLY 0 = Inr 3"
    "os_open os_cp_links (calls state0) ''lnk/ld'' O_RDONLY 0 = Inr 5"
    by (simp_all add: os_cp_links_def os_cp_tree_def os_empty_def)
  have o2: "os_open os_cp_links (calls state0 @ [Open ''lnk/l'' O_RDONLY 0]) ''dst/l''
              O_WRONLY_CREAT_TRUNC 0x1B6 = Inr 4"
    "os_open os_cp_links (calls state0 @ [Open ''lnk/ld'' O_RDONLY 0]) ''dst/ld''
              O_WRONLY_CREAT_TRUNC 0x1B6 = Inr 4"
    by (simp_all add: os_cp_links_def os_cp_tree_def os_empty_def)
  have c0: "calls state0 = []" by (simp add: state0_def)
  have ch: "copies_chunks os_cp_links cp_BUFFER_SIZE 3 4 [''hi'']
              [Open ''lnk/l'' O_RDONLY 0, Open ''dst/l'' O_WRONLY_CREAT_TRUNC 0x1B6]"
    "copies_chunks os_cp_links cp_BUFFER_SIZE 5 4 []
              [Open ''lnk/ld'' O_RDONLY 0, Open ''dst/ld'' O_WRONLY_CREAT_TRUNC 0x1B6]"
    by (simp_all add: os_cp_links_def os_cp_tree_def os_empty_def)
  have fin: "no_more_data (os_read os_cp_links
               ([Open ''lnk/l'' O_RDONLY 0, Open ''dst/l'' O_WRONLY_CREAT_TRUNC 0x1B6]
                @ chunk_calls 3 4 [''hi'']) 3 cp_BUFFER_SIZE)"
    "no_more_data (os_read os_cp_links
               ([Open ''lnk/ld'' O_RDONLY 0, Open ''dst/ld'' O_WRONLY_CREAT_TRUNC 0x1B6]
                @ chunk_calls 5 4 []) 5 cp_BUFFER_SIZE)"
    by (simp_all add: os_cp_links_def os_cp_tree_def os_empty_def)
  have mk: "sys_mkdir os_cp_links ''dst'' 0x1FF state0 = (0, state0\<lparr>calls := [Mkdir ''dst'' 0x1FF]\<rparr>)"
    "sys_mkdir os_cp_links ''out/dl'' 0x1FF state0 = (0, state0\<lparr>calls := [Mkdir ''out/dl'' 0x1FF]\<rparr>)"
    by (simp_all add: sys_mkdir_def os_cp_links_def os_cp_tree_def os_empty_def state0_def Let_def)
  have od: "os_opendir os_cp_links (calls (state0\<lparr>calls := [Mkdir ''dst'' 0x1FF]\<rparr>)) ''dl''
              = Inr [''.'', ''..'', ''l'']"
    "os_opendir os_cp_links (calls (state0\<lparr>calls := [Mkdir ''out/dl'' 0x1FF]\<rparr>)) ''dl''
              = Inr [''.'', ''..'', ''l'']"
    by (simp_all add: os_cp_links_def os_cp_tree_def os_empty_def)
  have bn: "libc_basename os_cp_links ''dl'' = (''dl'', ''dl'')"
    by (simp add: os_cp_links_def os_cp_tree_def os_empty_def)
  note T = symlink_entry_copied_as_file[where os = os_cp_links and opts = cp_opts_recursive
      and src = "''lnk''" and dst = "''dst''" and d_name = "''l''" and s = state0
      and st = "st_symlink 42" and rest = "[]"
      and dn = "''dangling''" and drest = "[''l'']" and ds = state0 and dlst = "st_symlink 44"
      and e = ENOENT
      and cn = "''l''" and crest = "[]" and cs = state0 and clst = "st_symlink 42"
      and tst = "st_regular 41" and sfd = 3 and mode = "0x1B6" and dfd = 4
      and opened = "[Open ''lnk/l'' O_RDONLY 0, Open ''dst/l'' O_WRONLY_CREAT_TRUNC 0x1B6]"
      and chunks = "[''hi'']"
      and p = "''lnk/l''" and q = "''dst/l''" and t = state0 and r = 0
      and ?t1.0 = "state0\<lparr>calls := calls_copy_link, errno := ENOENT\<rparr>"
      and u = state0 and operand = "''dl''" and olst = "st_symlink 43"
      and ost = "st_directory 40" and dest = "''dst''" and m = 0
      and um = "state0\<lparr>calls := [Mkdir ''dst'' 0x1FF]\<rparr>" and names = "[''.'', ''..'', ''l'']"
      and arg = "''dl''" and base = "''dl''" and path = "''dl''" and v = state0
      and alst = "st_symlink 43" and ast = "st_directory 40" and tdir = "''out''" and k = 0
      and vm = "state0\<lparr>calls := [Mkdir ''out/dl'' 0x1FF]\<rparr>"
      and vnames = "[''.'', ''..'', ''l'']" and later = "[]"]
  note T2 = symlink_entry_copied_as_file[where os = os_cp_links and opts = cp_opts_recursive
      and src = "''lnk''" and dst = "''dst''"
      and cn = "''ld''" and crest = "[]" and cs = state0 and clst = "st_symlink 45"
      and tst = "st_directory 30" and sfd = 5 and mode = "0x1B6" and dfd = 4
      and opened = "[Open ''lnk/ld'' O_RDONLY 0, Open ''dst/ld'' O_WRONLY_CREAT_TRUNC 0x1B6]"
      and chunks = "[]"]
  have w1: "cp_walk os_cp_links cp_opts_recursive (CopyEntries ''lnk'' ''dst'' [''l'']) state0 =
     Some (0, state0\<lparr>calls := calls_copy_link, errno := ENOENT\<rparr>)"
    using T[THEN conjunct1] nd ls lnk paths copy_file_lnk_l by (simp add: cp_walk_Nil)
  have "cp_walk os_cp_links cp_opts_recursive (CopyEntries ''lnk'' ''dst'' [''dangling'', ''l'']) state0 =
     Some (- 1, eprintf (''Error: Cannot stat source file '' @ quoted ''lnk/dangling''
                              @ '': '' @ strerror ENOENT @ ''\<newline>'') (state0\<lparr>errno := ENOENT\<rparr>))"
    using T[THEN conjunct2, THEN conjunct1] nd ls lnk sts paths by simp
  then have w2: "cp_walk os_cp_links cp_opts_recursive (CopyEntries ''lnk'' ''dst'' [''dangling'', ''l'']) state0 =
     Some (- 1, state0\<lparr>errno := ENOENT,
       err := ''Error: Cannot stat source file '' @ quoted ''lnk/dangling''
              @ '': No such file or directory\<newline>''\<rparr>)"
    by (simp add: eprintf_def state0_def)
  have "\<exists>s2. copy_file os_cp_links cp_opts_recursive ''lnk/l'' ''dst/l'' state0 = Some (0, s2) \<and>
              calls s2 = [Open ''lnk/l'' O_RDONLY 0, Open ''dst/l'' O_WRONLY_CREAT_TRUNC 0x1B6]
                         @ chunk_calls 3 4 [''hi''] @ [Read 3]
                         @ (if cp_preserve cp_opts_recursive
                            then [Futimens 4 (st_atime (st_regular 41)) (st_mtime (st_regular 41)),
                                  Fchown 4 (st_uid (st_regular 41)) (st_gid (st_regular 41))]
                            else [])
                         @ [Close 3, Close 4] \<and>
              inp s2 = inp state0 \<and> (\<not> cp_preserve cp_opts_recursive \<longrightarrow> err s2 = err state0) \<and>
              cp_walk os_cp_links cp_opts_recursive (CopyEntries ''lnk'' ''dst'' (''l'' # [])) state0 =
                cp_walk os_cp_links cp_opts_recursive (CopyEntries ''lnk'' ''dst'' []) s2"
    using T[THEN conjunct2, THEN conjunct2, THEN conjunct1] nd ls lnk sts acc opts o1 o2 ch fin
    by (simp add: paths c0)
  then have w3: "\<exists>s2. copy_file os_cp_links cp_opts_recursive ''lnk/l'' ''dst/l'' state0 = Some (0, s2) \<and>
         calls s2 = calls_copy_link"
    using opts by (auto simp add: calls_copy_link_def)
  have "\<exists>s2. copy_file os_cp_links cp_opts_recursive ''lnk/ld'' ''dst/ld'' state0 = Some (0, s2) \<and>
              calls s2 = [Open ''lnk/ld'' O_RDONLY 0, Open ''dst/ld'' O_WRONLY_CREAT_TRUNC 0x1B6]
                         @ chunk_calls 5 4 [] @ [Read 5]
                         @ (if cp_preserve cp_opts_recursive
                            then [Futimens 4 (st_atime (st_directory 30)) (st_mtime (st_directory 30)),
                                  Fchown 4 (st_uid (st_directory 30)) (st_gid (st_directory 30))]
                            else [])
                         @ [Close 5, Close 4] \<and>
              inp s2 = inp state0 \<and> (\<not> cp_preserve cp_opts_recursive \<longrightarrow> err s2 = err state0) \<and>
              cp_walk os_cp_links cp_opts_recursive (CopyEntries ''lnk'' ''dst'' (''ld'' # [])) state0 =
                cp_walk os_cp_links cp_opts_recursive (CopyEntries ''lnk'' ''dst'' []) s2"
    using T2[THEN conjunct2, THEN conjunct2, THEN conjunct1] nd ls lnk sts acc opts o1 o2 ch fin
    by (simp add: paths c0)
  then have w4: "\<exists>s2. copy_file os_cp_links cp_opts_recursive ''lnk/ld'' ''dst/ld'' state0 = Some (0, s2) \<and>
         calls s2 = [Open ''lnk/ld'' O_RDONLY 0, Open ''dst/ld'' O_WRONLY_CREAT_TRUNC 0x1B6,
                     Read 5, Close 5, Close 4]"
    using opts by auto
  have w5: "\<exists>new. calls (state0\<lparr>calls := calls_copy_link, errno := ENOENT\<rparr>) = calls state0 @ new \<and>
          (\<forall>target linkpath. Symlink target linkpath \<notin> set new)"
    using T[THEN conjunct2, THEN conjunct2, THEN conjunct2, THEN conjunct1] copy_file_lnk_l by blast
  have "cp_single os_cp_links cp_opts_recursive ''dl'' ''dst'' state0 =
          (case cp_walk os_cp_links cp_opts_recursive (CopyEntries ''dl'' ''dst'' [''.'', ''..'', ''l''])
                  (state0\<lparr>calls := [Mkdir ''dst'' 0x1FF]\<rparr>) of
             None \<Rightarrow> None
           | Some (r, u2) \<Rightarrow> if r = - 1 then Some (1, u2) else Some (0, u2))"
    using T[THEN conjunct2, THEN conjunct2, THEN conjunct2, THEN conjunct2, THEN conjunct1]
      ls lnk sts isdir opts mk od by simp
  then have w6: "cp_single os_cp_links cp_opts_recursive ''dl'' ''dst'' state0 =
     Some (0, state0\<lparr>calls := [Mkdir ''dst'' 0x1FF, Open ''dl/l'' O_RDONLY 0,
                                 Open ''dst/l'' O_WRONLY_CREAT_TRUNC 0x1B6, Read 3,
                                 Write 4 ''hi'', Read 3, Close 3, Close 4],
                       errno := ENOENT\<rparr>)"
    by (simp add: cp_walk_dl paths)
  have "cp_sources os_cp_links cp_opts_recursive ''out'' (''dl'' # []) state0 =
          (case cp_walk os_cp_links cp_opts_recursive
                  (CopyEntries ''dl'' (snprintf_path ''out'' ''dl'') [''.'', ''..'', ''l''])
                  (state0\<lparr>calls := [Mkdir ''out/dl'' 0x1FF]\<rparr>) of
             None \<Rightarrow> None
           | Some (r, v2) \<Rightarrow> if r = - 1 then Some (1, v2)
                            else cp_sources os_cp_links cp_opts_recursive ''out'' [] v2)"
    using T[THEN conjunct2, THEN conjunct2, THEN conjunct2, THEN conjunct2, THEN conjunct2]
      bn ls lnk sts isdir opts mk od
    by (simp add: paths del: cp_sources.simps)
  then have w7: "cp_sources os_cp_links cp_opts_recursive ''out'' [''dl''] state0 =
     Some (0, state0\<lparr>calls := [Mkdir ''out/dl'' 0x1FF, Open ''dl/l'' O_RDONLY 0,
                                 Open ''out/dl/l'' O_WRONLY_CREAT_TRUNC 0x1B6, Read 3,
                                 Write 4 ''hi'', Read 3, Close 3, Close 4],
                       errno := ENOENT\<rparr>)"
    by (simp add: cp_walk_dl paths del: cp_sources.simps) simp
  from w1 w2 w3 w4 lnk(1) w5 w6 w7 show ?thesis by blast
qed

text \<open>
  C4 (as stated). The copy is to recreate the link and never to follow it. In
  \<^verbatim>\<open>cp -r lnk dst\<close> the entry \<^verbatim>\<open>lnk/l\<close> is a symbolic link; \<open>cp\<close> opens it for
  reading, creates \<^verbatim>\<open>dst/l\<close> with \<^verbatim>\<open>open\<close> and writes into it the two bytes read
  through the link. In \<^verbatim>\<open>cp -r dl dst\<close> the source \<^verbatim>\<open>dl\<close> is itself a symbolic
  link to a directory; \<open>cp\<close> makes the directory \<^verbatim>\<open>dst\<close>, reads the entries
  behind the link and copies \<^verbatim>\<open>dl/l\<close>.
\<close>

theorem symlink_entry_not_recreated:
  "cp_main os_cp_tree ''cp'' [''-r'', ''lnk'', ''dst''] state0 =
     Some (0, \<lparr>calls = [Mkdir ''dst'' 0x1FF, Open ''lnk/l'' O_RDONLY 0,
                         Open ''dst/l'' O_WRONLY_CREAT_TRUNC 0x1B6, Read 3, Write 4 ''hi'',
                         Read 3, Close 3, Close 4],
               errno = ENOENT, inp = [], out = [], err = []\<rparr>) \<and>
   os_opendir os_cp_tree [Mkdir ''dst'' 0x1FF] ''lnk'' = Inr [''.'', ''..'', ''l''] \<and>
   os_lstat os_cp_tree [Mkdir ''dst'' 0x1FF] ''lnk/l'' = Inr (st_symlink 42) \<and>
   S_ISLNK (st_mode (st_symlink 42)) \<and>
   cp_main os_cp_links ''cp'' [''-r'', ''dl'', ''dst''] state0 =
     Some (0, \<lparr>calls = [Mkdir ''dst'' 0x1FF, Open ''dl/l'' O_RDONLY 0,
                         Open ''dst/l'' O_WRONLY_CREAT_TRUNC 0x1B6, Read 3, Write 4 ''hi'',
                         Read 3, Close 3, Close 4],
               errno = ENOENT, inp = [], out = [], err = []\<rparr>) \<and>
   os_lstat os_cp_links [] ''dl'' = Inr (st_symlink 43) \<and>
   S_ISLNK (st_mode (st_symlink 43)) \<and>
   os_opendir os_cp_links [Mkdir ''dst'' 0x1FF] ''dl'' = Inr [''.'', ''..'', ''l'']"
  by (simp add: cp_main_def cp_single_def cp_copy_source_def copy_directory_def cp_walk.simps
      copy_file_def cp_transfer_def cp_copy_contents.simps sys_stat_def sys_lstat_def
      sys_access_def sys_mkdir_def sys_read_def sys_write_def sys_close_def
      sys_opendir_def sys_open_def snprintf_path_def PATH_MAX_def eprintf_def
      os_cp_links_def os_cp_tree_def os_empty_def st_directory_def st_regular_def st_symlink_def
      S_ISDIR_def S_ISLNK_def S_IFLNK_def S_IFMT_def S_IFDIR_def CopyOptions0_def state0_def Let_def)

section \<open>Properties of echo\<close>

lemma processEscapes_rec_plain:
  "x \<noteq> backslash \<Longrightarrow> processEscapes_rec (x # xs) = x # processEscapes_rec xs"
  by (cases xs) simp_all

lemma processEscapes_loop_rec:
  "i \<le> length input \<Longrightarrow>
   processEscapes_loop input i result = result @ processEscapes_rec (drop i input)"
proof (induction input i result rule: processEscapes_loop.induct)
  case (1 input i result)
  show ?case
  proof (cases "i < length input")
    case False
    with "1.prems" show ?thesis by (subst processEscapes_loop.simps) simp
  next
    case lt: True
    then have d1: "drop i input = input ! i # drop (Suc i) input"
      by (simp add: Cons_nth_drop_Suc)
    show ?thesis
    proof (cases "input ! i = backslash \<and> i + 1 < length input")
      case True
      then have d2: "drop (Suc i) input = input ! (i + 1) # drop (i + 2) input"
        by (simp add: Cons_nth_drop_Suc)
      show ?thesis
      proof (cases "getEscapeSequence (input ! (i + 1))")
        case None
        from "1.IH"(1)[OF lt True refl None] True
        have "processEscapes_loop input (i + 2) (result @ [backslash, input ! (i + 1)]) =
                (result @ [backslash, input ! (i + 1)]) @ processEscapes_rec (drop (i + 2) input)"
          by simp
        with lt True None d1 d2 show ?thesis
          by (subst processEscapes_loop.simps) (simp add: Let_def)
      next
        case (Some replacement)
        show ?thesis
        proof (cases "input ! (i + 1) = CHR ''c''")
          case c: True
          with lt True Some d1 d2 show ?thesis
            by (subst processEscapes_loop.simps) (simp add: Let_def)
        next
          case nc: False
          from "1.IH"(2)[OF lt True refl Some nc] True
          have "processEscapes_loop input (i + 2) (result @ replacement) =
                  (result @ replacement) @ processEscapes_rec (drop (i + 2) input)"
            by simp
          with lt True Some nc d1 d2 show ?thesis
            by (subst processEscapes_loop.simps) (simp add: Let_def)
        qed
      qed
    next
      case False
      from "1.IH"(3)[OF lt False] lt
      have ih: "processEscapes_loop input (i + 1) (result @ [input ! i]) =
              (result @ [input ! i]) @ processEscapes_rec (drop (i + 1) input)"
        by simp
      have "processEscapes_rec (drop i input) = input ! i # processEscapes_rec (drop (Suc i) input)"
      proof (cases "input ! i = backslash")
        case True
        with False lt have "Suc i = length input" by simp
        then show ?thesis using d1 by simp
      next
        case False
        then show ?thesis using d1 by (simp add: processEscapes_rec_plain)
      qed
      with lt False ih show ?thesis
        by (subst processEscapes_loop.simps) auto
    qed
  qed
qed

lemma processEscapes_rec_eq: "processEscapes input = processEscapes_rec input"
  by (simp add: processEscapes_def processEscapes_loop_rec)

lemma processEscapes_rec_stop:
  "scanned pre \<Longrightarrow>
   processEscapes_rec (pre @ backslash # CHR ''c'' # suf) = processEscapes_rec pre"
proof (induction pre rule: scanned.induct)
  case 1
  then show ?case by (simp add: getEscapeSequence_def backslash_def)
next
  case (2 x)
  then show ?case by (simp add: getEscapeSequence_def backslash_def)
next
  case (3 x y r)
  show ?case
  proof (cases "x = backslash")
    case True
    with 3 show ?thesis by (simp split: option.splits)
  next
    case False
    with 3 have "processEscapes_rec ((y # r) @ backslash # CHR ''c'' # suf) = processEscapes_rec (y # r)"
      by simp
    with False show ?thesis by (simp add: processEscapes_rec_plain)
  qed
qed


lemma join_with_space_Cons:
  "join_with_space (a # as) = a @ concat (map (\<lambda>b. '' '' @ b) as)"
  by (induction as arbitrary: a) simp_all

lemma echo_print_args_rest:
  "echo_print_args opts False operands s =
     s\<lparr>out := out s @ concat (map (\<lambda>b. '' '' @ b) (map (echo_text opts) operands))\<rparr>"
  by (induction operands arbitrary: s) (simp_all add: printf_def echo_text_def Let_def)

lemma echo_print_args_out:
  "echo_print_args opts True operands s =
     s\<lparr>out := out s @ join_with_space (map (echo_text opts) operands)\<rparr>"
  by (cases operands)
     (simp_all add: join_with_space_Cons echo_print_args_rest printf_def echo_text_def Let_def)

text \<open>
  C10. With \<^verbatim>\<open>-e\<close> in effect, a \<^verbatim>\<open>\c\<close> escape in an argument ends the text of that
  argument only: the output is the texts of all arguments, that of the argument cut
  before the escape, with one space between them, followed by the newline unless
  \<^verbatim>\<open>-n\<close> was given.
\<close>

theorem echo_c_escape_ends_only_its_argument:
  assumes "echo_parse_options args Options0 =
             (opts, before @ (pre @ backslash # CHR ''c'' # suf) # after)"
    and "interpret_escapes opts" and "\<not> help opts" and "\<not> version opts"
    and "scanned pre"
  shows "processEscapes (pre @ backslash # CHR ''c'' # suf) = processEscapes pre \<and>
         echo_main args s =
           s\<lparr>out := out s
                  @ join_with_space (map processEscapes before @ processEscapes pre
                                     # map processEscapes after)
                  @ (if newline opts then ''\<newline>'' else [])\<rparr>"
proof -
  have stop: "processEscapes (pre @ backslash # CHR ''c'' # suf) = processEscapes pre"
    using assms(5) by (simp add: processEscapes_rec_eq processEscapes_rec_stop)
  have texts: "map (echo_text opts) (before @ (pre @ backslash # CHR ''c'' # suf) # after) =
               map processEscapes before @ processEscapes pre # map processEscapes after"
    using assms(2) stop by (simp add: echo_text_def)
  have "echo_main args s =
          (let s1 = echo_print_args opts True (before @ (pre @ backslash # CHR ''c'' # suf) # after) s
           in if newline opts then printf ''\<newline>'' s1 else s1)"
    using assms(1,3,4) by (simp add: echo_main_def)
  also have "\<dots> = s\<lparr>out := out s
                  @ join_with_space (map processEscapes before @ processEscapes pre
                                     # map processEscapes after)
                  @ (if newline opts then ''\<newline>'' else [])\<rparr>"
    by (simp add: echo_print_args_out texts printf_def Let_def del: map_append)
  finally show ?thesis using stop by simp
qed

theorem echo_c_escape_ends_only_its_argument_witness:
  "echo_main [''-e'', ''a'' @ [backslash] @ ''cb'', ''d''] state0 = state0\<lparr>out := ''a d\<newline>''\<rparr> \<and>
   echo_main [''-n'', ''-e'', ''x'', ''a'' @ [backslash] @ ''cb'', ''d''] state0
     = state0\<lparr>out := ''x a d''\<rparr> \<and>
   processEscapes (''a'' @ [backslash] @ ''cb'') = ''a''"
proof -
  have pe: "processEscapes ''a'' = ''a''" "processEscapes ''x'' = ''x''" "processEscapes ''d'' = ''d''"
    by (simp_all add: processEscapes_rec_eq backslash_def)
  have sc: "scanned ''a''" by (simp add: backslash_def)
  have p1: "echo_parse_options [''-e'', ''a'' @ [backslash] @ ''cb'', ''d''] Options0 =
              (Options0\<lparr>interpret_escapes := True\<rparr>,
               [] @ (''a'' @ backslash # CHR ''c'' # ''b'') # [''d''])"
    by (simp add: backslash_def)
  have p2: "echo_parse_options [''-n'', ''-e'', ''x'', ''a'' @ [backslash] @ ''cb'', ''d''] Options0 =
              (Options0\<lparr>newline := False, interpret_escapes := True\<rparr>,
               [''x''] @ (''a'' @ backslash # CHR ''c'' # ''b'') # [''d''])"
    by (simp add: backslash_def)
  have o: "interpret_escapes (Options0\<lparr>interpret_escapes := True\<rparr>)"
    "\<not> help (Options0\<lparr>interpret_escapes := True\<rparr>)"
    "\<not> version (Options0\<lparr>interpret_escapes := True\<rparr>)"
    "interpret_escapes (Options0\<lparr>newline := False, interpret_escapes := True\<rparr>)"
    "\<not> help (Options0\<lparr>newline := False, interpret_escapes := True\<rparr>)"
    "\<not> version (Options0\<lparr>newline := False, interpret_escapes := True\<rparr>)"
    by (simp_all add: Options0_def)
  from echo_c_escape_ends_only_its_argument[OF p1 o(1,2,3) sc, of state0]
       echo_c_escape_ends_only_its_argument[OF p2 o(4,5,6) sc, of state0] pe
  show ?thesis by (simp add: Options0_def state0_def)
qed

section \<open>The exit status of rm and cp\<close>

text \<open>
  Whenever \<open>rm\<close> prints a diagnostic for an operand its exit status is
  \<open>EXIT_FAILURE\<close>. \<open>cp\<close> with several sources reports a directory that it omits
  and still ends with status 0.
\<close>

lemma rm_skip_line_frame:
  "err (rm_skip_line response s) = err s \<and> calls (rm_skip_line response s) = calls s"
proof (induction response s rule: rm_skip_line.induct)
  case (1 response s)
  show ?case
  proof (cases "response \<noteq> CHR 0x0A \<and> response \<noteq> CHR 0xFF")
    case False
    then show ?thesis by (subst (1 2) rm_skip_line.simps) auto
  next
    case True
    obtain c s1 where g: "getchar s = (c, s1)" by (metis surj_pair)
    have "rm_skip_line response s = rm_skip_line (char_of_getchar c) s1"
      using True g by (subst rm_skip_line.simps) simp
    with "1.IH" True g getchar_frame[OF g] show ?thesis by simp
  qed
qed

lemma handle_remove_quiet:
  "handle_remove os opts p s = (0, s') \<Longrightarrow> err s' = err s"
  by (auto simp add: handle_remove_def sys_remove_def printf_def eprintf_def Let_def
      split: option.splits if_splits)

lemma nftw_visit_handle_remove_quiet:
  "nftw_visit (handle_remove os opts) ps s = (0, s') \<Longrightarrow> err s' = err s"
proof (induction ps arbitrary: s)
  case Nil
  then show ?case by simp
next
  case (Cons p ps)
  obtain rv s1 where h: "handle_remove os opts p s = (rv, s1)" by (metis surj_pair)
  show ?case
  proof (cases "rv = 0")
    case True
    with Cons.prems h have "nftw_visit (handle_remove os opts) ps s1 = (0, s')" by simp
    from Cons.IH[OF this] handle_remove_quiet h True show ?thesis by simp
  next
    case False
    with Cons.prems h show ?thesis by simp
  qed
qed

lemma remove_file_quiet:
  "remove_file os opts p s = (0, s') \<Longrightarrow> err s' = err s"
  by (auto simp add: remove_file_def rm_remove_path_def sys_remove_def printf_def eprintf_def
      getchar_def rm_skip_line_frame Let_def
      split: option.splits if_splits list.splits prod.splits)

lemma rm_diagnostic_sets_exit_status:
  assumes "rm_operand os opts p (e, s) = (e', s')" and "err s' \<noteq> err s"
  shows "e' = EXIT_FAILURE"
proof (cases "os_lstat os (calls s) p")
  case (Inl x)
  with assms show ?thesis
    by (auto simp add: rm_operand_def sys_lstat_def split: if_splits)
next
  case (Inr st)
  show ?thesis
  proof (cases "rm_preserve_root opts \<and> \<not> rm_no_preserve_root opts \<and> p = ''/''")
    case True
    with assms Inr show ?thesis by (auto simp add: rm_operand_def sys_lstat_def)
  next
    case False
    show ?thesis
    proof (cases "S_ISDIR (st_mode st)")
      case dir: True
      show ?thesis
      proof (cases "rm_recursive opts")
        case False
        with assms Inr dir \<open>\<not> (rm_preserve_root opts \<and> \<not> rm_no_preserve_root opts \<and> p = ''/'')\<close>
        show ?thesis by (auto simp add: rm_operand_def sys_lstat_def)
      next
        case True
        obtain r s2 where w: "remove_directory_recursive os opts p s = (r, s2)" by (metis surj_pair)
        have "r = 0 \<Longrightarrow> err s2 = err s"
          using w nftw_visit_handle_remove_quiet
          by (auto simp add: remove_directory_recursive_def nftw_def split: sum.splits)
        with assms Inr dir True w \<open>\<not> (rm_preserve_root opts \<and> \<not> rm_no_preserve_root opts \<and> p = ''/'')\<close>
        show ?thesis by (auto simp add: rm_operand_def sys_lstat_def split: if_splits)
      qed
    next
      case nodir: False
      obtain r s2 where w: "remove_file os opts p s = (r, s2)" by (metis surj_pair)
      have "r = 0 \<Longrightarrow> err s2 = err s" using w remove_file_quiet by blast
      with assms Inr nodir w \<open>\<not> (rm_preserve_root opts \<and> \<not> rm_no_preserve_root opts \<and> p = ''/'')\<close>
      show ?thesis by (auto simp add: rm_operand_def sys_lstat_def split: if_splits)
    qed
  qed
qed

lemma cp_omitted_directory_exits_successfully:
  "cp_main os_cp_tree ''cp'' [''src'', ''y'', ''lnk''] state0 =
     Some (0, \<lparr>calls = [Open ''y'' O_RDONLY 0, Open ''lnk/y'' O_WRONLY_CREAT_TRUNC 0x1B6,
                         Read 3, Write 4 ''hi'', Read 3, Close 3, Close 4],
               errno = ENOENT, inp = [], out = [],
               err = ''Error: Omitting directory '' @ quoted ''src'' @ ''\<newline>''\<rparr>)"
  by (simp add: cp_main_def cp_copy_source_def
      copy_file_def cp_transfer_def cp_copy_contents.simps sys_stat_def sys_lstat_def
      sys_access_def sys_mkdir_def sys_read_def sys_write_def sys_close_def
      sys_opendir_def sys_open_def snprintf_path_def PATH_MAX_def eprintf_def
      os_cp_tree_def os_empty_def st_directory_def st_regular_def S_ISDIR_def
      S_IFMT_def S_IFDIR_def CopyOptions0_def state0_def Let_def)

end
